theory Spec2Isabelle
  imports Complex_Main "HOL-Library.Word" "HOL-Library.Char_ord"
begin

unbundle bit_operations_syntax

section \<open>The text tokenizer (\<open>FBXTextTokenizer\<close>)\<close>

text \<open>
  A JavaScript number is \<open>NaN\<close>, an infinity or a finite value, kept as the real number
  it denotes. \<open>parseFloat\<close> belongs to the language, not to the repository: the
  tokenizer takes it as a parameter.
\<close>

datatype number = NaN | PosInfinity | NegInfinity | Fin real

text \<open>\<open>n | 0\<close>: truncation towards zero, then wrap-around to 32 bits, signed.\<close>

fun toInt32 :: "number \<Rightarrow> int" where
  "toInt32 (Fin r) = sint (word_of_int (if r < 0 then \<lceil>r\<rceil> else \<lfloor>r\<rfloor>) :: 32 word)"
| "toInt32 _ = 0"

fun numLess :: "number \<Rightarrow> number \<Rightarrow> bool" where
  "numLess (Fin a) (Fin b) = (a < b)"
| "numLess NegInfinity (Fin b) = True"
| "numLess NegInfinity PosInfinity = True"
| "numLess (Fin a) PosInfinity = True"
| "numLess _ _ = False"

datatype TokenType =
  Invalid | EOF | Key | String | Number | ArrayCount | OpenBlock | CloseBlock | Comma

datatype TokenVal = StrVal string | NumVal number

record Token =
  type :: TokenType
  offset :: int
  val :: "TokenVal option"

text \<open>
  The field \<open>length\<close> is written once, in the constructor, as \<open>source.length\<close>; the
  model reads the length of \<open>source\<close> instead. \<open>lastChar\<close> is \<open>None\<close> for \<open>null\<close>.
\<close>

record FBXTextTokenizer =
  source :: string
  offset :: int
  lastChar :: "char option"

definition newTokenizer :: "string \<Rightarrow> FBXTextTokenizer" where
  "newTokenizer src = \<lparr>source = src, offset = - 1, lastChar = None\<rparr>"

definition sourceLength :: "FBXTextTokenizer \<Rightarrow> int" where
  "sourceLength t = int (length (source t))"

text \<open>\<open>source[i]\<close>: \<open>None\<close> (\<open>undefined\<close>) outside the string.\<close>

definition charAt :: "string \<Rightarrow> int \<Rightarrow> char option" where
  "charAt s i = (if 0 \<le> i \<and> i < int (length s) then Some (s ! nat i) else None)"

definition nextChar :: "FBXTextTokenizer \<Rightarrow> char option \<times> FBXTextTokenizer" where
  "nextChar t =
     (let off = FBXTextTokenizer.offset t + 1;
          c = (if off < sourceLength t then charAt (source t) off else None)
      in (c, t\<lparr>FBXTextTokenizer.offset := off, lastChar := c\<rparr>))"

text \<open>
  \<open>while (c = this.nextChar()) { if (c is not blank) break; }\<close>: the loop ends when
  \<open>nextChar\<close> returns \<open>null\<close> or a character that is not a space, tab, CR or LF.
\<close>

definition isWS :: "char \<Rightarrow> bool" where
  "isWS c = (c = CHR '' '' \<or> c = CHR 0x09 \<or> c = CHR 0x0D \<or> c = CHR 0x0A)"

function skipWS :: "FBXTextTokenizer \<Rightarrow> FBXTextTokenizer" where
  "skipWS t =
     (case nextChar t of
        (None, t') \<Rightarrow> t'
      | (Some c, t') \<Rightarrow> if \<not> isWS c then t' else skipWS t')"
  by pat_completeness auto
termination
  by (relation "measure (\<lambda>t. nat (sourceLength t - FBXTextTokenizer.offset t))")
     (auto simp: nextChar_def Let_def sourceLength_def split: if_splits)

function skipToLineEnd :: "FBXTextTokenizer \<Rightarrow> FBXTextTokenizer" where
  "skipToLineEnd t =
     (case nextChar t of
        (None, t') \<Rightarrow> t'
      | (Some c, t') \<Rightarrow> if c = CHR 0x0D \<or> c = CHR 0x0A then t' else skipToLineEnd t')"
  by pat_completeness auto
termination
  by (relation "measure (\<lambda>t. nat (sourceLength t - FBXTextTokenizer.offset t))")
     (auto simp: nextChar_def Let_def sourceLength_def split: if_splits)

text \<open>The scan of a string literal: up to the closing quote, a CR, a LF or the end.\<close>

function scanString :: "FBXTextTokenizer \<Rightarrow> char option \<times> FBXTextTokenizer" where
  "scanString t =
     (case nextChar t of
        (None, t') \<Rightarrow> (None, t')
      | (Some c, t') \<Rightarrow>
          if c = CHR 0x22 \<or> c = CHR 0x0D \<or> c = CHR 0x0A then (Some c, t') else scanString t')"
  by pat_completeness auto
termination
  by (relation "measure (\<lambda>t. nat (sourceLength t - FBXTextTokenizer.offset t))")
     (auto simp: nextChar_def Let_def sourceLength_def split: if_splits)

text \<open>The scan of any other token: up to a blank, a comma, a brace or the end.\<close>

definition isBreak :: "char \<Rightarrow> bool" where
  "isBreak c = (c = CHR '' '' \<or> c = CHR 0x09 \<or> c = CHR 0x0D \<or> c = CHR 0x0A
                \<or> c = CHR '','' \<or> c = CHR ''{'' \<or> c = CHR ''}'')"

function scanToBreak :: "FBXTextTokenizer \<Rightarrow> FBXTextTokenizer" where
  "scanToBreak t =
     (case nextChar t of
        (None, t') \<Rightarrow> t'
      | (Some c, t') \<Rightarrow> if isBreak c then t' else scanToBreak t')"
  by pat_completeness auto
termination
  by (relation "measure (\<lambda>t. nat (sourceLength t - FBXTextTokenizer.offset t))")
     (auto simp: nextChar_def Let_def sourceLength_def split: if_splits)

text \<open>\<open>s.substring(a, b)\<close>: both ends clamped to the string, swapped when out of order.\<close>

definition substring :: "string \<Rightarrow> int \<Rightarrow> int \<Rightarrow> string" where
  "substring s a b =
     (let n = int (length s);
          a' = min (max a 0) n;
          b' = min (max b 0) n
      in take (nat (max a' b' - min a' b')) (drop (nat (min a' b')) s))"

definition isLetter :: "char \<Rightarrow> bool" where
  "isLetter c = ((CHR ''A'' \<le> c \<and> c \<le> CHR ''Z'') \<or> (CHR ''a'' \<le> c \<and> c \<le> CHR ''z''))"

definition isDigit :: "char \<Rightarrow> bool" where
  "isDigit c = (CHR ''0'' \<le> c \<and> c \<le> CHR ''9'')"

definition invalidToken :: "string \<Rightarrow> int \<Rightarrow> int \<Rightarrow> Token" where
  "invalidToken src tokenStart tokenEnd =
     \<lparr>type = Invalid, offset = tokenStart,
      val = Some (StrVal (substring src tokenStart (tokenEnd + 1)))\<rparr>"

text \<open>
  The classification of a token that is neither a comment, a string literal, a comma nor a
  brace, from \<open>let token = this.source.substring(tokenStart, tokenEnd)\<close> on.
  \<open>firstChar\<close> is \<open>None\<close> when \<open>lastChar\<close> was \<open>undefined\<close>: every comparison of the
  source is then false and the token is invalid.
\<close>

definition classifyToken ::
  "(string \<Rightarrow> number) \<Rightarrow> string \<Rightarrow> char option \<Rightarrow> int \<Rightarrow> int \<Rightarrow> Token" where
  "classifyToken parseFloat src firstChar tokenStart tokenEnd =
     (let token = substring src tokenStart tokenEnd in
      case firstChar of
        None \<Rightarrow> invalidToken src tokenStart tokenEnd
      | Some fc \<Rightarrow>
          if isLetter fc then
            if token = ''T'' \<or> token = ''Y'' then
              \<lparr>type = String, offset = tokenStart, val = Some (StrVal token)\<rparr>
            else if length token < 2 \<or> charAt token (int (length token) - 1) \<noteq> Some (CHR '':'') then
              invalidToken src tokenStart tokenEnd
            else
              \<lparr>type = Key, offset = tokenStart,
               val = Some (StrVal (take (length token - 1) token))\<rparr>
          else if fc = CHR ''*'' \<or> fc = CHR ''-'' \<or> isDigit fc then
            if fc = CHR ''*'' then
              if length token < 2 then invalidToken src tokenStart tokenEnd
              else
                let count = parseFloat (drop 1 token) in
                if count = NaN \<or> count \<noteq> Fin (of_int (toInt32 count)) \<or> numLess count (Fin 1)
                then invalidToken src tokenStart tokenEnd
                else \<lparr>type = ArrayCount, offset = tokenStart,
                      val = Some (NumVal (Fin (of_int (toInt32 count))))\<rparr>
            else
              let number = parseFloat token in
              if number = NaN then invalidToken src tokenStart tokenEnd
              else \<lparr>type = Number, offset = tokenStart, val = Some (NumVal number)\<rparr>
          else invalidToken src tokenStart tokenEnd)"

declare skipWS.simps [simp del] skipToLineEnd.simps [simp del]
  scanString.simps [simp del] scanToBreak.simps [simp del]

lemma nextChar_source [simp]: "source (snd (nextChar t)) = source t"
  by (simp add: nextChar_def Let_def)

lemma nextChar_offset [simp]:
  "FBXTextTokenizer.offset (snd (nextChar t)) = FBXTextTokenizer.offset t + 1"
  by (simp add: nextChar_def Let_def)

lemma skipWS_source [simp]: "source (skipWS t) = source t"
proof (induction t rule: skipWS.induct)
  case (1 t)
  obtain c t' where n: "nextChar t = (c, t')" by (cases "nextChar t")
  then have "source t' = source t" using nextChar_source [of t] by simp
  with 1 n show ?case by (cases c) (auto simp add: skipWS.simps [of t])
qed

lemma skipWS_offset: "FBXTextTokenizer.offset t < FBXTextTokenizer.offset (skipWS t)"
proof (induction t rule: skipWS.induct)
  case (1 t)
  obtain c t' where n: "nextChar t = (c, t')" by (cases "nextChar t")
  then have "FBXTextTokenizer.offset t' = FBXTextTokenizer.offset t + 1"
    using nextChar_offset [of t] by simp
  with 1 n show ?case by (cases c) (auto simp add: skipWS.simps [of t])
qed

lemma skipToLineEnd_source [simp]: "source (skipToLineEnd t) = source t"
proof (induction t rule: skipToLineEnd.induct)
  case (1 t)
  obtain c t' where n: "nextChar t = (c, t')" by (cases "nextChar t")
  then have "source t' = source t" using nextChar_source [of t] by simp
  with 1 n show ?case by (cases c) (auto simp add: skipToLineEnd.simps [of t])
qed

lemma skipToLineEnd_offset:
  "FBXTextTokenizer.offset t < FBXTextTokenizer.offset (skipToLineEnd t)"
proof (induction t rule: skipToLineEnd.induct)
  case (1 t)
  obtain c t' where n: "nextChar t = (c, t')" by (cases "nextChar t")
  then have "FBXTextTokenizer.offset t' = FBXTextTokenizer.offset t + 1"
    using nextChar_offset [of t] by simp
  with 1 n show ?case
    by (cases c) (auto simp add: skipToLineEnd.simps [of t])
qed

function nextToken :: "(string \<Rightarrow> number) \<Rightarrow> FBXTextTokenizer \<Rightarrow> Token \<times> FBXTextTokenizer" where
  "nextToken parseFloat t0 =
     (let t1 = skipWS t0 in
      if FBXTextTokenizer.offset t1 \<ge> sourceLength t1 then
        (\<lparr>type = EOF, offset = sourceLength t1, val = None\<rparr>,
         t1\<lparr>FBXTextTokenizer.offset := sourceLength t1\<rparr>)
      else
        let tokenStart = FBXTextTokenizer.offset t1;
            c = lastChar t1
        in
        if c = Some (CHR '';'') then nextToken parseFloat (skipToLineEnd t1)
        else if c = Some (CHR 0x22) then
          (let (c', t2) = scanString t1;
               tokenEnd = FBXTextTokenizer.offset t2
           in if c' \<noteq> Some (CHR 0x22) then (invalidToken (source t2) tokenStart tokenEnd, t2)
              else (\<lparr>type = String, offset = tokenStart,
                     val = Some (StrVal (substring (source t2) (tokenStart + 1) tokenEnd))\<rparr>, t2))
        else if c = Some (CHR '','') then
          (\<lparr>type = Comma, offset = tokenStart, val = None\<rparr>, t1)
        else if c = Some (CHR ''{'') then
          (\<lparr>type = OpenBlock, offset = tokenStart, val = None\<rparr>, t1)
        else if c = Some (CHR ''}'') then
          (\<lparr>type = CloseBlock, offset = tokenStart, val = None\<rparr>, t1)
        else
          (let t2 = scanToBreak t1;
               tokenEnd = FBXTextTokenizer.offset t2;
               t3 = t2\<lparr>FBXTextTokenizer.offset := tokenEnd - 1\<rparr>
           in (classifyToken parseFloat (source t3) c tokenStart tokenEnd, t3)))"
  by pat_completeness auto
termination
proof (relation "measure (\<lambda>(pf, t). nat (sourceLength t - FBXTextTokenizer.offset t))")
  show "wf (measure (\<lambda>(pf, t). nat (sourceLength t - FBXTextTokenizer.offset t)))"
    by simp
next
  fix parseFloat :: "string \<Rightarrow> number" and t0 t1 tokenStart c
  assume t1: "t1 = skipWS t0" and lt: "\<not> sourceLength t1 \<le> FBXTextTokenizer.offset t1"
  have "FBXTextTokenizer.offset t0 < FBXTextTokenizer.offset t1"
    using skipWS_offset [of t0] t1 by simp
  moreover have "FBXTextTokenizer.offset t1 < FBXTextTokenizer.offset (skipToLineEnd t1)"
    by (rule skipToLineEnd_offset)
  moreover have "sourceLength (skipToLineEnd t1) = sourceLength t0"
    using t1 by (simp add: sourceLength_def)
  moreover have "sourceLength t1 = sourceLength t0"
    using t1 by (simp add: sourceLength_def)
  ultimately show "((parseFloat, skipToLineEnd t1), parseFloat, t0)
      \<in> measure (\<lambda>(pf, t). nat (sourceLength t - FBXTextTokenizer.offset t))"
    using lt by simp
qed

declare nextToken.simps [simp del]

lemma skipWS_end_lastChar:
  "sourceLength (skipWS t) \<le> FBXTextTokenizer.offset (skipWS t) \<Longrightarrow> lastChar (skipWS t) = None"
proof (induction t rule: skipWS.induct)
  case (1 t)
  show ?case
  proof (cases "FBXTextTokenizer.offset t + 1 < sourceLength t \<and> charAt (source t) (FBXTextTokenizer.offset t + 1) \<noteq> None")
    case False
    then show ?thesis
      by (auto simp add: skipWS.simps [of t] nextChar_def Let_def)
  next
    case True
    then obtain c where c: "charAt (source t) (FBXTextTokenizer.offset t + 1) = Some c" by auto
    let ?t' = "t\<lparr>FBXTextTokenizer.offset := FBXTextTokenizer.offset t + 1, lastChar := Some c\<rparr>"
    have n: "nextChar t = (Some c, ?t')"
      using True c by (simp add: nextChar_def Let_def)
    show ?thesis
    proof (cases "isWS c")
      case True
      then have "skipWS t = skipWS ?t'" using n by (simp add: skipWS.simps [of t])
      then show ?thesis using 1 n True by simp
    next
      case False
      then have "skipWS t = ?t'" using n by (simp add: skipWS.simps [of t])
      then show ?thesis using 1 True by (simp add: sourceLength_def)
    qed
  qed
qed

lemma skipWS_at_end:
  "sourceLength t \<le> FBXTextTokenizer.offset t + 1 \<Longrightarrow>
   skipWS t = t\<lparr>FBXTextTokenizer.offset := FBXTextTokenizer.offset t + 1, lastChar := None\<rparr>"
  by (simp add: skipWS.simps [of t] nextChar_def Let_def)

lemma classifyToken_not_EOF: "type (classifyToken pf src c a b) \<noteq> EOF"
  by (simp add: classifyToken_def invalidToken_def Let_def split: option.splits)

lemma nextToken_EOF_fixed:
  "nextToken parseFloat t = (tok, t') \<Longrightarrow> type tok = EOF \<Longrightarrow>
   FBXTextTokenizer.offset t' = sourceLength t' \<and> lastChar t' = None
   \<and> tok = \<lparr>type = EOF, offset = sourceLength t', val = None\<rparr>"
proof (induction parseFloat t rule: nextToken.induct)
  case (1 parseFloat t0)
  let ?t1 = "skipWS t0"
  show ?case
  proof (cases "sourceLength ?t1 \<le> FBXTextTokenizer.offset ?t1")
    case True
    then have "lastChar ?t1 = None" by (rule skipWS_end_lastChar)
    with True 1(2) show ?thesis
      by (auto simp add: nextToken.simps [of parseFloat t0] Let_def sourceLength_def)
  next
    case False
    show ?thesis
    proof (cases "lastChar ?t1 = Some (CHR '';'')")
      case True
      with False 1(2) have "nextToken parseFloat (skipToLineEnd ?t1) = (tok, t')"
        by (simp add: nextToken.simps [of parseFloat t0] Let_def)
      with 1(1) [OF refl False refl refl True] 1(3) show ?thesis by simp
    next
      case ns: False
      with False 1(2) 1(3) show ?thesis
        by (auto simp add: nextToken.simps [of parseFloat t0] Let_def invalidToken_def
            classifyToken_not_EOF split: if_splits prod.splits)
    qed
  qed
qed


lemma nextToken_at_end:
  "FBXTextTokenizer.offset t = sourceLength t \<Longrightarrow> lastChar t = None \<Longrightarrow>
   nextToken parseFloat t = (\<lparr>type = EOF, offset = sourceLength t, val = None\<rparr>, t)"
  by (simp add: nextToken.simps [of parseFloat t] skipWS_at_end sourceLength_def)

text \<open>
  C10. Once \<open>nextToken\<close> has returned \<open>EndOfInput\<close>, the cursor sits at the source
  length with no current character, and every further call returns the same
  \<open>EndOfInput\<close> token and leaves the tokenizer as it is: \<open>nextChar\<close> reads the source only
  below its length, and the tokenizer has no failing path. This holds from any tokenizer
  state, also one never reached.
\<close>

theorem C10_nextToken_after_EOF:
  assumes "nextToken parseFloat t = (tok, t')" and "type tok = EOF"
  shows "FBXTextTokenizer.offset t' = sourceLength t' \<and> lastChar t' = None
         \<and> nextToken parseFloat t' = (tok, t')
         \<and> nextToken parseFloat (((\<lambda>u. snd (nextToken parseFloat u)) ^^ n) t') = (tok, t')"
proof -
  have fixed: "FBXTextTokenizer.offset t' = sourceLength t'" "lastChar t' = None"
    "tok = \<lparr>type = EOF, offset = sourceLength t', val = None\<rparr>"
    using nextToken_EOF_fixed [OF assms] by simp_all
  then have again: "nextToken parseFloat t' = (tok, t')"
    using nextToken_at_end [of t' parseFloat] by simp
  have "((\<lambda>u. snd (nextToken parseFloat u)) ^^ n) t' = t'"
    by (induction n) (simp_all add: again)
  with fixed again show ?thesis by simp
qed

theorem C10_nextToken_after_EOF_witness:
  "nextToken (\<lambda>s. NaN) (snd (nextToken (\<lambda>s. NaN) (newTokenizer '' '')))
     = (\<lparr>type = EOF, offset = 1, val = None\<rparr>,
        \<lparr>source = '' '', offset = 1, lastChar = None\<rparr>)"
proof -
  have first: "nextToken (\<lambda>s. NaN) (newTokenizer '' '')
     = (\<lparr>type = EOF, offset = 1, val = None\<rparr>,
        \<lparr>source = '' '', offset = 1, lastChar = None\<rparr>)"
    by (simp add: nextToken.simps newTokenizer_def skipWS.simps nextChar_def charAt_def
        sourceLength_def isWS_def Let_def)
  show ?thesis
    using C10_nextToken_after_EOF [OF first, of 0] first by simp
qed


lemma skipWS_run:
  "source t = pre @ ws @ c # rest \<Longrightarrow> FBXTextTokenizer.offset t = int (length pre) - 1 \<Longrightarrow>
   \<forall>x \<in> set ws. isWS x \<Longrightarrow> \<not> isWS c \<Longrightarrow>
   skipWS t = t\<lparr>FBXTextTokenizer.offset := int (length pre + length ws), lastChar := Some c\<rparr>"
proof (induction ws arbitrary: pre t)
  case Nil
  then have "nextChar t = (Some c, t\<lparr>FBXTextTokenizer.offset := int (length pre), lastChar := Some c\<rparr>)"
    by (simp add: nextChar_def Let_def sourceLength_def charAt_def nth_append)
  with Nil show ?case by (simp add: skipWS.simps [of t])
next
  case (Cons w ws)
  let ?t1 = "t\<lparr>FBXTextTokenizer.offset := int (length pre), lastChar := Some w\<rparr>"
  have n: "nextChar t = (Some w, ?t1)"
    using Cons.prems by (simp add: nextChar_def Let_def sourceLength_def charAt_def nth_append)
  have "skipWS ?t1 = ?t1\<lparr>FBXTextTokenizer.offset := int (length (pre @ [w]) + length ws), lastChar := Some c\<rparr>"
    using Cons.prems by (intro Cons.IH) simp_all
  with n Cons.prems show ?case by (simp add: skipWS.simps [of t])
qed

lemma scanToBreak_run:
  "source t = pre @ w @ rest \<Longrightarrow> FBXTextTokenizer.offset t = int (length pre) - 1 \<Longrightarrow>
   \<forall>x \<in> set w. \<not> isBreak x \<Longrightarrow> rest = [] \<or> isBreak (hd rest) \<Longrightarrow>
   FBXTextTokenizer.offset (scanToBreak t) = int (length pre + length w)
   \<and> source (scanToBreak t) = source t"
proof (induction w arbitrary: pre t)
  case Nil
  show ?case
  proof (cases rest)
    case Nil
    with Cons Nil.prems have "nextChar t = (None, t\<lparr>FBXTextTokenizer.offset := int (length pre), lastChar := None\<rparr>)"
      by (simp add: nextChar_def Let_def sourceLength_def)
    then show ?thesis by (simp add: scanToBreak.simps [of t])
  next
    case (Cons r rest')
    with Nil.prems have "nextChar t = (Some r, t\<lparr>FBXTextTokenizer.offset := int (length pre), lastChar := Some r\<rparr>)"
      by (simp add: nextChar_def Let_def sourceLength_def charAt_def nth_append)
    with Cons Nil.prems show ?thesis by (simp add: scanToBreak.simps [of t])
  qed
next
  case (Cons x w)
  let ?t1 = "t\<lparr>FBXTextTokenizer.offset := int (length pre), lastChar := Some x\<rparr>"
  have n: "nextChar t = (Some x, ?t1)"
    using Cons.prems by (simp add: nextChar_def Let_def sourceLength_def charAt_def nth_append)
  have "FBXTextTokenizer.offset (scanToBreak ?t1) = int (length (pre @ [x]) + length w)
   \<and> source (scanToBreak ?t1) = source ?t1"
    using Cons.prems by (intro Cons.IH) simp_all
  with n Cons.prems show ?case by (simp add: scanToBreak.simps [of t])
qed

lemma substring_nat:
  assumes "i \<le> j"
  shows "substring s (int i) (int j) = take (j - i) (drop i s)"
proof -
  let ?n = "length s"
  have a: "min (max (int i) 0) (int ?n) = int (min i ?n)" by simp
  have b: "min (max (int j) 0) (int ?n) = int (min j ?n)" by simp
  have "substring s (int i) (int j)
      = take (nat (int (min j ?n) - int (min i ?n))) (drop (min i ?n) s)"
    using assms unfolding substring_def Let_def a b
    by (simp add: min.absorb1 max.absorb1 min_le_iff_disj)
  also have "\<dots> = take (min j ?n - min i ?n) (drop (min i ?n) s)"
    by (simp add: nat_diff_distrib')
  also have "\<dots> = take (j - i) (drop i s)"
    using assms by (cases "j \<le> ?n"; cases "i \<le> ?n") (simp_all add: min_def)
  finally show ?thesis .
qed

lemma substring_mid:
  "substring (pre @ w @ rest) (int (length pre)) (int (length pre) + int (length w)) = w"
  using substring_nat [of "length pre" "length pre + length w" "pre @ w @ rest"]
  by simp

lemma substring_mid1:
  "substring (pre @ w @ rest) (int (length pre)) (int (length pre) + int (length w) + 1) = w @ take 1 rest"
  using substring_nat [of "length pre" "length pre + length w + 1" "pre @ w @ rest"]
  by (simp add: add.commute)


lemma isLetter_plain:
  "isLetter c \<Longrightarrow> \<not> isWS c \<and> \<not> isBreak c \<and> c \<noteq> CHR '';'' \<and> c \<noteq> CHR 0x22
     \<and> c \<noteq> CHR '','' \<and> c \<noteq> CHR ''{'' \<and> c \<noteq> CHR ''}''
     \<and> c \<noteq> CHR ''*'' \<and> c \<noteq> CHR ''-'' \<and> \<not> isDigit c"
  by (auto simp add: isLetter_def isWS_def isBreak_def isDigit_def less_eq_char_def)

lemma charAt_last:
  "w \<noteq> [] \<Longrightarrow> charAt w (int (length w) - 1) = Some (last w)"
  by (simp add: charAt_def last_conv_nth nat_diff_distrib')

lemma classifyToken_letter:
  assumes "isLetter fc" and "substring src a b = w" and "w \<noteq> []"
    and "substring src a (b + 1) = iv"
  shows "classifyToken parseFloat src (Some fc) a b =
     (if w = ''T'' \<or> w = ''Y'' then \<lparr>type = String, offset = a, val = Some (StrVal w)\<rparr>
      else if 2 \<le> length w \<and> last w = CHR '':'' then
        \<lparr>type = Key, offset = a, val = Some (StrVal (butlast w))\<rparr>
      else \<lparr>type = Invalid, offset = a, val = Some (StrVal iv)\<rparr>)"
  using assms charAt_last [of w]
  by (simp add: classifyToken_def Let_def invalidToken_def butlast_conv_take not_less)

text \<open>
  C9. Let the unread input be blanks \<open>ws\<close>, then a word \<open>w\<close> that starts with an ASCII
  letter and runs up to the next blank, comma, brace or the end. The token returned is a
  \<open>String\<close> holding \<open>w\<close> when \<open>w\<close> is exactly \<open>T\<close> or \<open>Y\<close>; otherwise a \<open>Key\<close> holding
  \<open>w\<close> without its last character when \<open>w\<close> has at least two characters and ends in a
  colon; otherwise \<open>Invalid\<close>.
\<close>

theorem C9_letter_tokens:
  assumes src: "source t = pre @ ws @ w @ rest"
    and off: "FBXTextTokenizer.offset t = int (length pre) - 1"
    and ws: "\<forall>x \<in> set ws. isWS x"
    and w: "w \<noteq> []" "isLetter (hd w)" "\<forall>x \<in> set w. \<not> isBreak x"
    and rest: "rest = [] \<or> isBreak (hd rest)"
  shows "fst (nextToken parseFloat t) =
     (if w = ''T'' \<or> w = ''Y'' then
        \<lparr>type = String, offset = int (length pre + length ws), val = Some (StrVal w)\<rparr>
      else if 2 \<le> length w \<and> last w = CHR '':'' then
        \<lparr>type = Key, offset = int (length pre + length ws), val = Some (StrVal (butlast w))\<rparr>
      else
        \<lparr>type = Invalid, offset = int (length pre + length ws),
         val = Some (StrVal (w @ take 1 rest))\<rparr>)"
proof -
  obtain fc w' where w_eq: "w = fc # w'" using w(1) by (cases w) auto
  have fc: "isLetter fc" using w(2) w_eq by simp
  note plain = isLetter_plain [OF fc]
  let ?start = "int (length pre + length ws)"
  let ?t1 = "t\<lparr>FBXTextTokenizer.offset := ?start, lastChar := Some fc\<rparr>"
  have t1: "skipWS t = ?t1"
    using src off ws plain w_eq by (intro skipWS_run [where rest = "w' @ rest"]) simp_all
  have "FBXTextTokenizer.offset (scanToBreak ?t1) = int (length (pre @ ws @ [fc]) + length w')
        \<and> source (scanToBreak ?t1) = source ?t1"
    using src w(3) rest w_eq by (intro scanToBreak_run [where rest = rest]) simp_all
  then have t2: "FBXTextTokenizer.offset (scanToBreak ?t1) = ?start + int (length w)"
    "source (scanToBreak ?t1) = pre @ ws @ w @ rest"
    using src w_eq by simp_all
  have tok: "substring (pre @ ws @ w @ rest) ?start (?start + int (length w)) = w"
    using substring_mid [of "pre @ ws" w rest] by simp
  have tok1: "substring (pre @ ws @ w @ rest) ?start (?start + int (length w) + 1) = w @ take 1 rest"
    using substring_mid1 [of "pre @ ws" w rest] by simp
  have lt: "\<not> sourceLength ?t1 \<le> FBXTextTokenizer.offset ?t1"
    using src w_eq by (simp add: sourceLength_def)
  have "fst (nextToken parseFloat t)
      = classifyToken parseFloat (pre @ ws @ w @ rest) (Some fc) ?start (?start + int (length w))"
    using lt plain t2 by (simp add: nextToken.simps [of parseFloat t] t1 Let_def)
  also have "\<dots> =
     (if w = ''T'' \<or> w = ''Y'' then
        \<lparr>type = String, offset = ?start, val = Some (StrVal w)\<rparr>
      else if 2 \<le> length w \<and> last w = CHR '':'' then
        \<lparr>type = Key, offset = ?start, val = Some (StrVal (butlast w))\<rparr>
      else
        \<lparr>type = Invalid, offset = ?start, val = Some (StrVal (w @ take 1 rest))\<rparr>)"
    by (rule classifyToken_letter [OF fc tok w(1) tok1])
  finally show ?thesis .
qed

theorem C9_letter_tokens_witness:
  "fst (nextToken (\<lambda>s. NaN) (newTokenizer ''  Vertices: 1''))
     = \<lparr>type = Key, offset = 2, val = Some (StrVal ''Vertices'')\<rparr>"
  using C9_letter_tokens [of "newTokenizer ''  Vertices: 1''" "[]" "''  ''" "''Vertices:''" "'' 1''" "\<lambda>s. NaN"]
  by (simp add: newTokenizer_def isWS_def isBreak_def isLetter_def less_eq_char_def)

section \<open>Values, nodes and the document graph\<close>

text \<open>
  \<open>FBXValue = number | string | ArrayBuffer | TypedArray\<close>. A typed array is its list of
  elements, an \<open>ArrayBuffer\<close> its bytes.
\<close>

datatype TypedArray =
  Int32Array "32 word list" | Float32Array "number list" | Float64Array "number list"

datatype FBXValue =
  VNumber number | VString string | VArrayBuffer "8 word list" | VTypedArray TypedArray

datatype FBXBlockAction = Enter | Skip

text \<open>
  The enum \<open>FBXPropertyType\<close> has the ten members from \<open>Unknown\<close> to \<open>Empty\<close>. A variable of
  that type can hold two more values: the table \<open>fbxTypeNameMapping\<close> is a JavaScript
  object, and as every object it answers the names \<open>constructor\<close> and \<open>__proto__\<close> that it
  inherits, with the function \<open>Object\<close> and the object \<open>Object.prototype\<close>. They are
  \<open>InheritedConstructor\<close> and \<open>InheritedProto\<close>.
\<close>

datatype FBXPropertyType =
  Unknown | Int | Double | Bool | Time | String | Vector3D | Vector4D | Object | Empty
  | InheritedConstructor | InheritedProto

text \<open>
  What the code throws: a \<open>TypeError\<close> of the language (a property read on \<open>null\<close> or
  \<open>undefined\<close>, a call of a method the value does not have), the \<open>Error\<close> of a failed
  \<open>assert\<close>, or a promise's rejection reason. The casts \<open><number>x\<close> and \<open><string>x\<close> of
  the source check nothing. Where the value is then only compared with a string or read
  for a property, the model does what JavaScript does for every value. Where the language
  would coerce a value that is not of the declared type (a number-keyed lookup, a loose
  comparison with a number), the model stops with \<open>IllTyped\<close>: it marks an input outside
  the declared types, and is not a behaviour of the code.
\<close>

datatype error = TypeError | AssertError string | Reason string | IllTyped

text \<open>\<open>xs[i]\<close> on an array: \<open>None\<close> for \<open>undefined\<close>.\<close>

definition elemAt :: "'a list \<Rightarrow> nat \<Rightarrow> 'a option" where
  "elemAt xs i = (if i < length xs then Some (xs ! i) else None)"

text \<open>
  Nodes and connections are objects that several owners refer to. The model keeps the
  nodes in a store, a list indexed by references; \<open>new Node\<close> appends to it. A connection
  is never written after \<open>addConnection\<close> has stored it, so it is kept by value.
\<close>

type_synonym ref = nat

record Connection =
  fromID :: number
  fromNode :: "ref option"
  toID :: number
  toNode :: "ref option"
  propName :: "string option"

text \<open>The field \<open>values\<close> is written \<open>values'\<close>: \<open>values\<close> is a keyword of Isabelle.\<close>

record Node =
  name :: string
  type :: FBXPropertyType
  typeName :: string
  values' :: "FBXValue list"
  children :: "ref list"
  parent :: "ref option"
  connectionsIn :: "Connection list"
  connectionsOut :: "Connection list"

definition newNode :: "string \<Rightarrow> FBXValue list \<Rightarrow> FBXPropertyType \<Rightarrow> string \<Rightarrow> Node" where
  "newNode nm vals ty tyName =
     \<lparr>name = nm, type = ty, typeName = tyName, values' = vals, children = [], parent = None,
      connectionsIn = [], connectionsOut = []\<rparr>"

text \<open>
  \<open>ObjectSet = { [id: number]: Node }\<close>: an object used as a dictionary, kept as the list
  of its entries in the order JavaScript enumerates them (\<open>Object.keys\<close>, \<open>for ... in\<close>):
  the keys that are array indices (integers from 0 to \<open>2^32 - 2\<close>) in ascending order,
  then the other keys in insertion order. The key of a number is its decimal string, which
  tells numbers apart, so entries are keyed by the number.
\<close>

type_synonym ObjectSet = "(number \<times> ref) list"

fun isArrayIndex :: "number \<Rightarrow> bool" where
  "isArrayIndex (Fin r) = (r \<in> \<int> \<and> 0 \<le> r \<and> r < 2 ^ 32 - 1)"
| "isArrayIndex _ = False"

fun insertIndexKey :: "number \<Rightarrow> ref \<Rightarrow> ObjectSet \<Rightarrow> ObjectSet" where
  "insertIndexKey k v [] = [(k, v)]"
| "insertIndexKey k v ((k', v') # rest) =
     (if isArrayIndex k' \<and> numLess k' k then (k', v') # insertIndexKey k v rest
      else (k, v) # (k', v') # rest)"

text \<open>\<open>set[id] = node\<close>.\<close>

definition objectSetPut :: "number \<Rightarrow> ref \<Rightarrow> ObjectSet \<Rightarrow> ObjectSet" where
  "objectSetPut k v s =
     (if k \<in> fst ` set s then map (\<lambda>(k', v'). if k' = k then (k', v) else (k', v')) s
      else if isArrayIndex k then insertIndexKey k v s
      else s @ [(k, v)])"

text \<open>
  The document graph. \<open>nodes\<close> is the store of the \<open>Node\<close> objects and \<open>console\<close> the
  messages the graph and its builder have written with \<open>console.warn\<close>; both belong to
  the model, the other fields are those of the class.
\<close>

record FBXDocumentGraph =
  fbxFilePath :: string
  globals :: "ref list"
  allObjects :: ObjectSet
  geometryNodes :: ObjectSet
  videoNodes :: ObjectSet
  textureNodes :: ObjectSet
  materialNodes :: ObjectSet
  modelNodes :: ObjectSet
  connections :: "Connection list"
  rootNode :: ref
  nodes :: "Node list"
  console :: "string list"

definition newFBXDocumentGraph :: "string \<Rightarrow> FBXDocumentGraph" where
  "newFBXDocumentGraph path =
     \<lparr>fbxFilePath = path, globals = [], allObjects = [(Fin 0, 0)], geometryNodes = [],
      videoNodes = [], textureNodes = [], materialNodes = [], modelNodes = [],
      connections = [], rootNode = 0,
      nodes = [newNode ''RootNode''
                 [VNumber (Fin 0), VString ''Model::RootNode'', VString ''RootNode'']
                 Unknown []],
      console = []\<rparr>"

definition globalSetting :: "ref \<Rightarrow> FBXDocumentGraph \<Rightarrow> FBXDocumentGraph" where
  "globalSetting node g = g\<lparr>globals := globals g @ [node]\<rparr>"

text \<open>
  \<open>addObject(node)\<close>. \<open>node\<close> may be \<open>null\<close> (\<open>None\<close>): reading \<open>node.values\<close> then throws.
  \<open>typeSetMap\<close> has the five class names as keys. The builder calls \<open>addObject\<close> with nodes
  of these names only (\<open>block\<close> makes an object node for a name of \<open>knownObjects\<close>); the names
  a JavaScript object inherits, which would pass the assertion, are not keys of the model's
  \<open>typeSetMap\<close>.
\<close>

definition addObject :: "ref option \<Rightarrow> FBXDocumentGraph \<Rightarrow> error + FBXDocumentGraph" where
  "addObject node g =
     (case node of
        None \<Rightarrow> Inl TypeError
      | Some r \<Rightarrow>
          let n = nodes g ! r;
              subClass = elemAt (values' n) 2
          in
          if name n \<notin> {''Geometry'', ''Video'', ''Texture'', ''Material'', ''Model''}
          then Inl (AssertError (''Unknown object class '' @ name n))
          else if name n = ''Model'' \<and> subClass \<noteq> Some (VString ''Mesh'') then Inr g
          else if name n = ''Video'' \<and> subClass \<noteq> Some (VString ''Clip'') then Inr g
          else
            (case elemAt (values' n) 0 of
               Some (VNumber ident) \<Rightarrow>
                 let g' =
                   (if name n = ''Geometry'' then g\<lparr>geometryNodes := objectSetPut ident r (geometryNodes g)\<rparr>
                    else if name n = ''Video'' then g\<lparr>videoNodes := objectSetPut ident r (videoNodes g)\<rparr>
                    else if name n = ''Texture'' then g\<lparr>textureNodes := objectSetPut ident r (textureNodes g)\<rparr>
                    else if name n = ''Material'' then g\<lparr>materialNodes := objectSetPut ident r (materialNodes g)\<rparr>
                    else g\<lparr>modelNodes := objectSetPut ident r (modelNodes g)\<rparr>)
                 in Inr (g'\<lparr>allObjects := objectSetPut ident r (allObjects g')\<rparr>)
             | _ \<Rightarrow> Inl IllTyped))"

text \<open>
  \<open>addConnection(conn)\<close>: both endpoints are looked up in \<open>allObjects\<close>; the connection is
  stored, in the two nodes and in the list, only when both are found. Nothing else
  happens otherwise: the method writes no message.
\<close>

definition addConnection :: "Connection \<Rightarrow> FBXDocumentGraph \<Rightarrow> FBXDocumentGraph" where
  "addConnection conn g =
     (let conn' = conn\<lparr>fromNode := map_of (allObjects g) (fromID conn),
                       toNode := map_of (allObjects g) (toID conn)\<rparr>
      in case (fromNode conn', toNode conn') of
           (Some f, Some t) \<Rightarrow>
             let ns1 = (nodes g)[f := (nodes g ! f)\<lparr>connectionsOut := connectionsOut (nodes g ! f) @ [conn']\<rparr>];
                 ns2 = ns1[t := (ns1 ! t)\<lparr>connectionsIn := connectionsIn (ns1 ! t) @ [conn']\<rparr>]
             in g\<lparr>nodes := ns2, connections := connections g @ [conn']\<rparr>
         | _ \<Rightarrow> g)"

section \<open>The graph builder (\<open>FBX7DocumentParser\<close>)\<close>

datatype BuilderState = Root | GlobalSettings | Objects | Object | Connections

text \<open>
  The builder's fields. \<open>knownObjects\<close> is a constant of the class; \<open>parseT0\<close> (a time
  stamp for a log line) and \<open>assets_\<close> (the promise \<open>completed()\<close> stores) are left out.
\<close>

record FBX7DocumentParser =
  doc :: FBXDocumentGraph
  state :: BuilderState
  depth :: int
  curObject :: "ref option"
  curNodeParent :: "ref option"

definition knownObjects :: "string set" where
  "knownObjects = {''Geometry'', ''Video'', ''Texture'', ''Material'', ''Model''}"

definition newFBX7DocumentParser :: "string \<Rightarrow> FBX7DocumentParser" where
  "newFBX7DocumentParser filePath =
     \<lparr>doc = newFBXDocumentGraph filePath, state = Root, depth = 0, curObject = None,
      curNodeParent = None\<rparr>"

text \<open>\<open>new Node(...)\<close>: the node goes to the end of the store; its reference is returned.\<close>

definition allocNode :: "Node \<Rightarrow> FBXDocumentGraph \<Rightarrow> ref \<times> FBXDocumentGraph" where
  "allocNode n g = (length (nodes g), g\<lparr>nodes := nodes g @ [n]\<rparr>)"

text \<open>\<open>this.appendChild(node)\<close>, with \<open>this\<close> the node at \<open>p\<close>.\<close>

definition appendChild :: "ref \<Rightarrow> ref \<Rightarrow> FBXDocumentGraph \<Rightarrow> error + FBXDocumentGraph" where
  "appendChild p node g =
     (if parent (nodes g ! node) \<noteq> None then Inl (AssertError ''Can't re-parent a Node'')
      else
        let ns1 = (nodes g)[node := (nodes g ! node)\<lparr>parent := Some p\<rparr>];
            ns2 = ns1[p := (ns1 ! p)\<lparr>children := children (ns1 ! p) @ [node]\<rparr>]
        in Inr (g\<lparr>nodes := ns2\<rparr>))"

definition block ::
  "string \<Rightarrow> FBXValue list \<Rightarrow> FBX7DocumentParser \<Rightarrow> error + (FBXBlockAction \<times> FBX7DocumentParser)" where
  "block nm vals b =
     (let r =
        (if state b = Root then
           if nm = ''GlobalSettings'' then Inr (False, b\<lparr>state := GlobalSettings\<rparr>)
           else if nm = ''Objects'' then Inr (False, b\<lparr>state := Objects\<rparr>)
           else if nm = ''Connections'' then Inr (False, b\<lparr>state := Connections\<rparr>)
           else Inr (True, b)
         else if state b = Objects then
           if nm \<in> knownObjects then
             let (r, g) = allocNode (newNode nm vals Unknown []) (doc b)
             in Inr (False, b\<lparr>state := Object, curObject := Some r, curNodeParent := Some r, doc := g\<rparr>)
           else Inr (True, b)
         else
           (case curNodeParent b of
              Some p \<Rightarrow>
                let (node, g) = allocNode (newNode nm vals Unknown []) (doc b)
                in (case appendChild p node g of
                      Inl e \<Rightarrow> Inl e
                    | Inr g' \<Rightarrow> Inr (False, b\<lparr>curNodeParent := Some node, doc := g'\<rparr>))
            | None \<Rightarrow> Inr (False, b)))
      in case r of
           Inl e \<Rightarrow> Inl e
         | Inr (skip, b') \<Rightarrow>
             if \<not> skip then Inr (Enter, b'\<lparr>depth := depth b' + 1\<rparr>) else Inr (Skip, b'))"

text \<open>
  \<open>endBlock()\<close>. The condition of the inner \<open>if\<close> is the assignment
  \<open>this.state = BuilderState.Object\<close>: it stores \<open>Object\<close> in \<open>state\<close> and its value, the
  enum member 3, is true. So the branch is taken whatever the state was.
\<close>

definition endBlock :: "FBX7DocumentParser \<Rightarrow> error + FBX7DocumentParser" where
  "endBlock b =
     (let b1 = b\<lparr>depth := depth b - 1\<rparr> in
      if depth b1 = 1 then
        (let b2 = b1\<lparr>state := Object\<rparr> in
         case addObject (curObject b2) (doc b2) of
           Inl e \<Rightarrow> Inl e
         | Inr g \<Rightarrow> Inr (b2\<lparr>doc := g, curObject := None, curNodeParent := None, state := Objects\<rparr>))
      else if depth b1 = 0 then Inr (b1\<lparr>state := Root\<rparr>)
      else
        (case curNodeParent b1 of
           Some p \<Rightarrow>
             (case parent (nodes (doc b1) ! p) of
                None \<Rightarrow> Inl (AssertError ''assertion failed'')
              | Some q \<Rightarrow> Inr (b1\<lparr>curNodeParent := Some q\<rparr>))
         | None \<Rightarrow> Inr b1))"

text \<open>
  \<open>typedProperty(name, type, typeName, values)\<close>. In the \<open>Connections\<close> state the ids are
  \<open><number>node.values[1]\<close> and \<open><number>node.values[2]\<close>, and \<open>propName\<close> is
  \<open><string>node.values[3]\<close>.
\<close>

definition asNumber :: "FBXValue option \<Rightarrow> error + number" where
  "asNumber v = (case v of Some (VNumber n) \<Rightarrow> Inr n | _ \<Rightarrow> Inl IllTyped)"

definition typedProperty ::
  "string \<Rightarrow> FBXPropertyType \<Rightarrow> string \<Rightarrow> FBXValue list \<Rightarrow> FBX7DocumentParser \<Rightarrow> error + FBX7DocumentParser" where
  "typedProperty nm ty tyName vals b =
     (let (node, g) = allocNode (newNode nm vals ty tyName) (doc b) in
      if state b = GlobalSettings then Inr (b\<lparr>doc := globalSetting node g\<rparr>)
      else if state b = Object then
        (case curNodeParent b of
           None \<Rightarrow> Inl TypeError
         | Some p \<Rightarrow>
             (case appendChild p node g of
                Inl e \<Rightarrow> Inl e
              | Inr g' \<Rightarrow> Inr (b\<lparr>doc := g'\<rparr>)))
      else if state b = Connections then
        if nm \<noteq> ''C'' then Inl (AssertError ''Only C properties are allowed inside Connections'')
        else
          let binding = elemAt vals 0 in
          if binding = Some (VString ''OO'') \<or> binding = Some (VString ''OP'') then
            (case (asNumber (elemAt vals 1), asNumber (elemAt vals 2)) of
               (Inr fromId, Inr toId) \<Rightarrow>
                 if binding = Some (VString ''OO'') then
                   Inr (b\<lparr>doc := addConnection
                          \<lparr>fromID = fromId, fromNode = None, toID = toId, toNode = None,
                           propName = None\<rparr> g\<rparr>)
                 else
                   (case elemAt vals 3 of
                      Some (VString pn) \<Rightarrow>
                        Inr (b\<lparr>doc := addConnection
                               \<lparr>fromID = fromId, fromNode = None, toID = toId, toNode = None,
                                propName = Some pn\<rparr> g\<rparr>)
                    | None \<Rightarrow>
                        Inr (b\<lparr>doc := addConnection
                               \<lparr>fromID = fromId, fromNode = None, toID = toId, toNode = None,
                                propName = None\<rparr> g\<rparr>)
                    | _ \<Rightarrow> Inl IllTyped)
             | _ \<Rightarrow> Inl IllTyped)
          else
            Inr (b\<lparr>doc := g\<lparr>console := console g @ [''Don't know what to do with connection: '']\<rparr>\<rparr>)
      else Inr (b\<lparr>doc := g\<rparr>))"

definition property :: "string \<Rightarrow> FBXValue list \<Rightarrow> FBX7DocumentParser \<Rightarrow> error + FBX7DocumentParser" where
  "property nm vals b = typedProperty nm Unknown [] vals b"

text \<open>
  C8 (as amended). When \<open>fromID\<close> or \<open>toID\<close> is not a key of \<open>allObjects\<close>,
  \<open>addConnection\<close> drops the connection and returns the document graph as it was: the
  connections list, the store of nodes with their \<open>connectionsIn\<close> and \<open>connectionsOut\<close>
  lists, and the console are unchanged. The call does not fail and writes no warning.
\<close>

theorem C8_addConnection_unknown_endpoint:
  assumes "map_of (allObjects g) (fromID conn) = None \<or> map_of (allObjects g) (toID conn) = None"
  shows "addConnection conn g = g"
  using assms by (auto simp add: addConnection_def Let_def split: option.splits)

theorem C8_addConnection_unknown_endpoint_witness:
  "addConnection \<lparr>fromID = Fin 5, fromNode = None, toID = Fin 0, toNode = None, propName = None\<rparr>
     (newFBXDocumentGraph ''scene.fbx'') = newFBXDocumentGraph ''scene.fbx''"
  by (rule C8_addConnection_unknown_endpoint) (simp add: newFBXDocumentGraph_def)

text \<open>
  C2. The code at the failing input: the delegate receives \<open>block("Connections")\<close>,
  \<open>block("Foo")\<close>, \<open>endBlock()\<close>. Both blocks are entered, the state is \<open>Connections\<close>, the
  depth 2 and there is no pending object. \<open>endBlock\<close> then decrements the depth to 1 and,
  the state not being \<open>Object\<close>, still calls \<open>addObject\<close>, here with \<open>null\<close>, which throws.
\<close>

theorem C2_endBlock_finalizes_in_any_state:
  "(case block ''Connections'' [] (newFBX7DocumentParser ''scene.fbx'') of
      Inr (a1, b1) \<Rightarrow>
        (case block ''Foo'' [] b1 of
           Inr (a2, b2) \<Rightarrow> Some (a1, a2, state b2, depth b2, curObject b2, endBlock b2)
         | Inl e \<Rightarrow> None)
    | Inl e \<Rightarrow> None)
   = Some (Enter, Enter, Connections, 2, None, Inl TypeError)"
  by (simp add: block_def endBlock_def newFBX7DocumentParser_def addObject_def Let_def)

section \<open>The text parser (\<open>FBXTextParser\<close>)\<close>

subsection \<open>Shared parser types and \<open>interpretProp70P\<close>\<close>

text \<open>
  What the parser needs of the language besides \<open>parseFloat\<close>: the string of a number
  (\<open>toString\<close>) and the rounding of a number stored in a \<open>Float32Array\<close>.
\<close>

record js =
  parseFloat :: "string \<Rightarrow> number"
  numberToString :: "number \<Rightarrow> string"
  fround :: "number \<Rightarrow> number"

text \<open>
  The interface \<open>FBXParserDelegate\<close>: the methods of a delegate whose state has type
  \<open>'d\<close>. A method may throw. The fields carry a \<open>D\<close>, the plain names being those of the
  builder's methods.
\<close>

record 'd FBXParserDelegate =
  blockD :: "string \<Rightarrow> FBXValue list \<Rightarrow> 'd \<Rightarrow> error + (FBXBlockAction \<times> 'd)"
  endBlockD :: "'d \<Rightarrow> error + 'd"
  propertyD :: "string \<Rightarrow> FBXValue list \<Rightarrow> 'd \<Rightarrow> error + 'd"
  typedPropertyD :: "string \<Rightarrow> FBXPropertyType \<Rightarrow> string \<Rightarrow> FBXValue list \<Rightarrow> 'd \<Rightarrow> error + 'd"
  errorD :: "string \<Rightarrow> int \<Rightarrow> string \<Rightarrow> 'd \<Rightarrow> error + 'd"

text \<open>
  The table \<open>fbxTypeNameMapping\<close>, read with a lower-case key: its own entries, and the two
  inherited names that are lower case. (The other names an object inherits, such as
  \<open>toString\<close> and \<open>hasOwnProperty\<close>, have a capital and are never the result of
  \<open>toLowerCase\<close>.)
\<close>

definition fbxTypeNameMapping :: "string \<Rightarrow> FBXPropertyType option" where
  "fbxTypeNameMapping = map_of
     [(''enum'', FBXPropertyType.Int), (''int'', FBXPropertyType.Int),
      (''integer'', FBXPropertyType.Int),
      (''float'', Double), (''double'', Double), (''number'', Double), (''ulonglong'', Double),
      (''fieldofview'', Double), (''fieldofviewx'', Double), (''fieldofviewy'', Double),
      (''roll'', Double), (''opticalcenterx'', Double), (''opticalcentery'', Double),
      (''bool'', Bool), (''visibility'', Bool), (''visibility inheritance'', Bool),
      (''ktime'', Time),
      (''kstring'', FBXPropertyType.String), (''datetime'', FBXPropertyType.String),
      (''vector3d'', Vector3D), (''vector'', Vector3D), (''color'', Vector3D),
      (''colorrgb'', Vector3D), (''lcl translation'', Vector3D), (''lcl rotation'', Vector3D),
      (''lcl scaling'', Vector3D),
      (''colorandalpha'', Vector4D),
      (''object'', FBXPropertyType.Object), (''compound'', Empty),
      (''constructor'', InheritedConstructor), (''__proto__'', InheritedProto)]"

text \<open>\<open>s.toLowerCase()\<close> on the letters A to Z.\<close>

definition toLowerCase :: "string \<Rightarrow> string" where
  "toLowerCase s =
     map (\<lambda>c. if CHR ''A'' \<le> c \<and> c \<le> CHR ''Z'' then char_of (of_char c + (32::nat)) else c) s"

record FBXProp70Prop =
  name :: string
  typeName :: string
  type :: FBXPropertyType
  values' :: "FBXValue list"

text \<open>
  \<open>interpretProp70P(pValues)\<close>. \<open>typeName.toLowerCase()\<close> throws when \<open>pValues[1]\<close> is not
  a string. A type name missing from the table, or one mapped to \<open>Unknown\<close>'s value 0,
  gives \<open>Unknown\<close>; the warning then written changes nothing and is left out. For the
  names \<open>constructor\<close> and \<open>__proto__\<close> the lookup gives the inherited values: both are true,
  so \<open>|| FBXPropertyType.Unknown\<close> keeps them, and no warning is written.
\<close>

definition interpretProp70P :: "FBXValue list \<Rightarrow> error + FBXProp70Prop" where
  "interpretProp70P pValues =
     (if \<not> length pValues \<ge> 4 then Inl (AssertError ''A P must have 4 or more values.'')
      else
        case pValues ! 1 of
          VString tyName \<Rightarrow>
            (case pValues ! 0 of
               VString nm \<Rightarrow>
                 Inr \<lparr>name = nm, typeName = tyName,
                      type = (case fbxTypeNameMapping (toLowerCase tyName) of
                                Some t \<Rightarrow> t | None \<Rightarrow> Unknown),
                      values' = drop 4 pValues\<rparr>
             | _ \<Rightarrow> Inl IllTyped)
        | _ \<Rightarrow> Inl TypeError)"

subsection \<open>The parser's state\<close>

definition Expect_Key :: int where "Expect_Key = 0x0001"
definition Expect_Value :: int where "Expect_Value = 0x0002"
definition Expect_Comma :: int where "Expect_Comma = 0x0004"
definition Expect_Open :: int where "Expect_Open = 0x0008"
definition Expect_Close :: int where "Expect_Close = 0x0010"
definition Expect_ArrayCount :: int where "Expect_ArrayCount = 0x0020"
definition Expect_ValueOrOpen :: int where "Expect_ValueOrOpen = Expect_Value OR Expect_Open"
definition Expect_CommaOrOpenOrKey :: int where
  "Expect_CommaOrOpenOrKey = Expect_Key OR Expect_Open OR Expect_Comma"

text \<open>
  The private fields \<open>expect_\<close>, \<open>depth_\<close>, ... of the class are written \<open>expect_'\<close>,
  \<open>depth_'\<close>, ...: an Isabelle name cannot end in an underscore. \<open>delegate_'\<close> is the state
  of the delegate object. What the parser writes with \<open>console.warn\<close> changes nothing it
  computes and is left out.
\<close>

record 'd FBXTextParser =
  tokenizer_' :: FBXTextTokenizer
  expect_' :: int
  expectNextKey_' :: "string option"
  eof_' :: bool
  depth_' :: int
  inProp70Block_' :: bool
  skippingUntilDepth_' :: int
  array_' :: "TypedArray option"
  arrayLength_' :: int
  arrayIndex_' :: int
  values_' :: "FBXValue list"
  delegate_' :: 'd

definition newFBXTextParser :: "string \<Rightarrow> 'd \<Rightarrow> 'd FBXTextParser" where
  "newFBXTextParser text delegate =
     \<lparr>tokenizer_' = newTokenizer text, expect_' = Expect_Key, expectNextKey_' = None,
      eof_' = False, depth_' = 0, inProp70Block_' = False, skippingUntilDepth_' = 1000,
      array_' = None, arrayLength_' = 0, arrayIndex_' = 0, values_' = [], delegate_' = delegate\<rparr>"

text \<open>\<open>t.val.toString()\<close>: a token without \<open>val\<close> makes it throw.\<close>

definition tokenText :: "js \<Rightarrow> Token \<Rightarrow> error + string" where
  "tokenText J t =
     (case val t of
        None \<Rightarrow> Inl TypeError
      | Some (StrVal s) \<Rightarrow> Inr s
      | Some (NumVal n) \<Rightarrow> Inr (numberToString J n))"

definition unexpected ::
  "js \<Rightarrow> 'd FBXParserDelegate \<Rightarrow> Token \<Rightarrow> 'd FBXTextParser \<Rightarrow> error + 'd FBXTextParser" where
  "unexpected J D t p =
     (case tokenText J t of
        Inl e \<Rightarrow> Inl e
      | Inr s \<Rightarrow>
          (case errorD D (if Token.type t = Invalid then ''Invalid token'' else ''Unexpected token'')
                  (Token.offset t) s (delegate_' p) of
             Inl e \<Rightarrow> Inl e
           | Inr d \<Rightarrow> Inr (p\<lparr>delegate_' := d, eof_' := True\<rparr>)))"

text \<open>
  \<open>reportBlock()\<close>. The block name is \<open><string>this.values_[0]\<close>; it is compared with
  \<open>"Properties70"\<close> and given to the delegate, whose parameter is a string.
\<close>

definition reportBlock ::
  "'d FBXParserDelegate \<Rightarrow> 'd FBXTextParser \<Rightarrow> error + (FBXBlockAction \<times> 'd FBXTextParser)" where
  "reportBlock D p =
     (if \<not> length (values_' p) > 0 then Inl (AssertError ''assertion failed'')
      else
        let blockName = values_' p ! 0 in
        if array_' p = None then
          if blockName = VString ''Properties70'' then
            Inr (Enter, p\<lparr>inProp70Block_' := True, values_' := []\<rparr>)
          else if depth_' p \<le> skippingUntilDepth_' p then
            (case blockName of
               VString nm \<Rightarrow>
                 (case blockD D nm (drop 1 (values_' p)) (delegate_' p) of
                    Inl e \<Rightarrow> Inl e
                  | Inr (blockAction, d) \<Rightarrow> Inr (blockAction, p\<lparr>delegate_' := d, values_' := []\<rparr>))
             | _ \<Rightarrow> Inl IllTyped)
          else Inr (Enter, p\<lparr>values_' := []\<rparr>)
        else Inr (Enter, p))"

definition reportProperty ::
  "'d FBXParserDelegate \<Rightarrow> 'd FBXTextParser \<Rightarrow> error + 'd FBXTextParser" where
  "reportProperty D p =
     (if \<not> length (values_' p) > 0 then Inl (AssertError ''assertion failed'')
      else
        let propName = values_' p ! 0;
            vals = drop 1 (values_' p)
        in
        if depth_' p \<le> skippingUntilDepth_' p then
          if inProp70Block_' p then
            if propName \<noteq> VString ''P''
            then Inl (AssertError ''Only P properties are allowed in a Properties70 block.'')
            else
              (case interpretProp70P vals of
                 Inl e \<Rightarrow> Inl e
               | Inr p70p \<Rightarrow>
                   (case typedPropertyD D (FBXProp70Prop.name p70p) (FBXProp70Prop.type p70p)
                           (FBXProp70Prop.typeName p70p) (FBXProp70Prop.values' p70p) (delegate_' p) of
                      Inl e \<Rightarrow> Inl e
                    | Inr d \<Rightarrow> Inr (p\<lparr>delegate_' := d, values_' := []\<rparr>)))
          else
            (case propName of
               VString nm \<Rightarrow>
                 (case propertyD D nm vals (delegate_' p) of
                    Inl e \<Rightarrow> Inl e
                  | Inr d \<Rightarrow> Inr (p\<lparr>delegate_' := d, values_' := []\<rparr>))
             | _ \<Rightarrow> Inl IllTyped)
        else Inr (p\<lparr>values_' := []\<rparr>))"

text \<open>
  \<open>arrayForKey(key, elementCount)\<close>: a new typed array of zeros. \<open>key\<close> is
  \<open><string>this.values_[0]\<close> and is only compared with the names of the table;
  \<open>elementCount\<close> is the value of an \<open>ArrayCount\<close> token, an integer from 1 to \<open>2^31 - 1\<close>.
\<close>

datatype ArrayKind = Int32 | Float32 | Float64

definition arrayKindForKey :: "FBXValue option \<Rightarrow> ArrayKind" where
  "arrayKindForKey key =
     (if key \<in> Some ` VString ` {''PolygonVertexIndex'', ''UVIndex'', ''Edges'', ''Materials'',
                                  ''KeyAttrFlags'', ''KeyAttrRefCount''} then Int32
      else if key \<in> Some ` VString ` {''KeyValueFloat'', ''KeyAttrDataFloat''} then Float32
      else if key \<in> Some ` VString ` {''Vertices'', ''Normals'', ''NormalsW'', ''UV'', ''KeyTime''}
      then Float64
      else Float64)"

definition arrayForKey :: "FBXValue option \<Rightarrow> nat \<Rightarrow> TypedArray" where
  "arrayForKey key elementCount =
     (case arrayKindForKey key of
        Int32 \<Rightarrow> Int32Array (replicate elementCount 0)
      | Float32 \<Rightarrow> Float32Array (replicate elementCount (Fin 0))
      | Float64 \<Rightarrow> Float64Array (replicate elementCount (Fin 0)))"

definition kindOf :: "TypedArray \<Rightarrow> ArrayKind" where
  "kindOf a = (case a of Int32Array _ \<Rightarrow> Int32 | Float32Array _ \<Rightarrow> Float32 | Float64Array _ \<Rightarrow> Float64)"

definition arrayLength :: "TypedArray \<Rightarrow> nat" where
  "arrayLength a =
     (case a of Int32Array xs \<Rightarrow> length xs | Float32Array xs \<Rightarrow> length xs
      | Float64Array xs \<Rightarrow> length xs)"

text \<open>
  \<open>array[i] = v\<close>: the number is converted to the element type; a write outside the
  array does nothing.
\<close>

definition arrayStore :: "js \<Rightarrow> TypedArray \<Rightarrow> int \<Rightarrow> number \<Rightarrow> TypedArray" where
  "arrayStore J a i v =
     (if i < 0 then a
      else case a of
        Int32Array xs \<Rightarrow> Int32Array (xs[nat i := word_of_int (toInt32 v)])
      | Float32Array xs \<Rightarrow> Float32Array (xs[nat i := fround J v])
      | Float64Array xs \<Rightarrow> Float64Array (xs[nat i := v]))"

definition elementCountOf :: "number \<Rightarrow> nat" where
  "elementCountOf n = (case n of Fin r \<Rightarrow> nat \<lfloor>r\<rfloor> | _ \<Rightarrow> 0)"

subsection \<open>One turn of the loop of \<open>parse()\<close>\<close>

text \<open>
  The value a token carries, as it is pushed on \<open>values_\<close>. The tokenizer gives every
  \<open>Key\<close> and \<open>String\<close> token a string and every \<open>Number\<close> and \<open>ArrayCount\<close> token a number.
\<close>

definition tokenValue :: "Token \<Rightarrow> error + FBXValue" where
  "tokenValue t =
     (case val t of
        Some (StrVal s) \<Rightarrow> Inr (VString s)
      | Some (NumVal n) \<Rightarrow> Inr (VNumber n)
      | None \<Rightarrow> Inl IllTyped)"

text \<open>
  The body of the \<open>switch\<close> for one token. The result is an error thrown, or the new
  state with a flag that is true when \<open>parse()\<close> has returned from inside the \<open>switch\<close>
  (\<open>return this.unexpected(token)\<close>, or the bare \<open>return\<close> after a value that is not a
  number inside an array).
\<close>

definition caseKey ::
  "js \<Rightarrow> 'd FBXParserDelegate \<Rightarrow> Token \<Rightarrow> 'd FBXTextParser \<Rightarrow> error + (bool \<times> 'd FBXTextParser)" where
  "caseKey J D token p =
     (if expect_' p AND Expect_Key \<noteq> 0 then
        (case val token of
           Some (StrVal k) \<Rightarrow>
             if expectNextKey_' p = None \<or> expectNextKey_' p = Some k then
               (case (if k \<noteq> ''a'' then
                        (case (if length (values_' p) > 0 then reportProperty D p else Inr p) of
                           Inl e \<Rightarrow> Inl e
                         | Inr p1 \<Rightarrow> Inr (p1\<lparr>values_' := values_' p1 @ [VString k]\<rparr>))
                      else Inr p) of
                  Inl e \<Rightarrow> Inl e
                | Inr p2 \<Rightarrow> Inr (False, p2\<lparr>expect_' := Expect_ValueOrOpen, expectNextKey_' := None\<rparr>))
             else map_sum id (Pair True) (unexpected J D token p)
         | _ \<Rightarrow> Inl IllTyped)
      else map_sum id (Pair True) (unexpected J D token p))"

definition caseValue ::
  "js \<Rightarrow> 'd FBXParserDelegate \<Rightarrow> Token \<Rightarrow> 'd FBXTextParser \<Rightarrow> error + (bool \<times> 'd FBXTextParser)" where
  "caseValue J D token p =
     (if expectNextKey_' p = None \<and> expect_' p AND Expect_Value \<noteq> 0 then
        (case (case array_' p of
                 Some arr \<Rightarrow>
                   if Token.type token \<noteq> Number then
                     (case tokenText J token of
                        Inl e \<Rightarrow> Inl e
                      | Inr s \<Rightarrow>
                          (case errorD D ''Only numbers are allowed in arrays'' (Token.offset token) s
                                  (delegate_' p) of
                             Inl e \<Rightarrow> Inl e
                           | Inr d \<Rightarrow> Inr (True, p\<lparr>delegate_' := d\<rparr>)))
                   else
                     (case val token of
                        Some (NumVal n) \<Rightarrow>
                          let arr' = arrayStore J arr (arrayIndex_' p) n;
                              p1 = p\<lparr>array_' := Some arr', arrayIndex_' := arrayIndex_' p + 1\<rparr>
                          in if arrayIndex_' p1 = arrayLength_' p1
                             then Inr (False, p1\<lparr>values_' := values_' p1 @ [VTypedArray arr'],
                                                expect_' := Expect_Close\<rparr>)
                             else Inr (False, p1\<lparr>expect_' := Expect_Comma\<rparr>)
                      | _ \<Rightarrow> Inl IllTyped)
               | None \<Rightarrow>
                   (case tokenValue token of
                      Inl e \<Rightarrow> Inl e
                    | Inr v \<Rightarrow> Inr (False, p\<lparr>values_' := values_' p @ [v],
                                               expect_' := Expect_CommaOrOpenOrKey\<rparr>))) of
           Inl e \<Rightarrow> Inl e
         | Inr (True, p2) \<Rightarrow> Inr (True, p2)
         | Inr (False, p2) \<Rightarrow>
             Inr (False, if depth_' p2 > 0 then p2\<lparr>expect_' := expect_' p2 OR Expect_Close\<rparr> else p2))
      else map_sum id (Pair True) (unexpected J D token p))"

definition caseArrayCount ::
  "js \<Rightarrow> 'd FBXParserDelegate \<Rightarrow> Token \<Rightarrow> 'd FBXTextParser \<Rightarrow> error + (bool \<times> 'd FBXTextParser)" where
  "caseArrayCount J D token p =
     (if expectNextKey_' p = None \<and> expect_' p = Expect_ValueOrOpen then
        (case val token of
           Some (NumVal n) \<Rightarrow>
             let arr = arrayForKey (elemAt (values_' p) 0) (elementCountOf n)
             in Inr (False, p\<lparr>array_' := Some arr, arrayIndex_' := 0,
                              arrayLength_' := int (arrayLength arr),
                              expect_' := Expect_Open, expectNextKey_' := Some ''a''\<rparr>)
         | _ \<Rightarrow> Inl IllTyped)
      else map_sum id (Pair True) (unexpected J D token p))"

definition caseOpenBlock ::
  "js \<Rightarrow> 'd FBXParserDelegate \<Rightarrow> Token \<Rightarrow> 'd FBXTextParser \<Rightarrow> error + (bool \<times> 'd FBXTextParser)" where
  "caseOpenBlock J D token p =
     (if expect_' p AND Expect_Open \<noteq> 0 then
        (case reportBlock D p of
           Inl e \<Rightarrow> Inl e
         | Inr (blockAction, p1) \<Rightarrow>
             let p2 = (if blockAction = Skip then p1\<lparr>skippingUntilDepth_' := depth_' p1\<rparr> else p1);
                 p3 = p2\<lparr>depth_' := depth_' p2 + 1, expect_' := Expect_Key\<rparr>
             in Inr (False, if expectNextKey_' p3 = None
                            then p3\<lparr>expect_' := expect_' p3 OR Expect_Close\<rparr> else p3))
      else map_sum id (Pair False) (unexpected J D token p))"

definition caseCloseBlock ::
  "js \<Rightarrow> 'd FBXParserDelegate \<Rightarrow> Token \<Rightarrow> 'd FBXTextParser \<Rightarrow> error + (bool \<times> 'd FBXTextParser)" where
  "caseCloseBlock J D token p =
     (if expectNextKey_' p = None \<and> expect_' p AND Expect_Close \<noteq> 0 then
        (case (if length (values_' p) > 0 then reportProperty D p else Inr p) of
           Inl e \<Rightarrow> Inl e
         | Inr p1 \<Rightarrow>
             (case (if array_' p1 \<noteq> None then Inr (p1\<lparr>array_' := None\<rparr>)
                    else if inProp70Block_' p1 then Inr (p1\<lparr>inProp70Block_' := False\<rparr>)
                    else if depth_' p1 \<le> skippingUntilDepth_' p1 then
                      (case endBlockD D (delegate_' p1) of
                         Inl e \<Rightarrow> Inl e
                       | Inr d \<Rightarrow> Inr (p1\<lparr>delegate_' := d\<rparr>))
                    else Inr p1) of
                Inl e \<Rightarrow> Inl e
              | Inr p2 \<Rightarrow>
                  let p3 = p2\<lparr>depth_' := depth_' p2 - 1\<rparr>;
                      p4 = (if depth_' p3 = skippingUntilDepth_' p3
                            then p3\<lparr>skippingUntilDepth_' := 1000\<rparr> else p3);
                      p5 = p4\<lparr>expect_' := Expect_Key\<rparr>
                  in Inr (False, if depth_' p5 > 0
                                 then p5\<lparr>expect_' := expect_' p5 OR Expect_Close\<rparr> else p5)))
      else map_sum id (Pair False) (unexpected J D token p))"

definition caseComma ::
  "js \<Rightarrow> 'd FBXParserDelegate \<Rightarrow> Token \<Rightarrow> 'd FBXTextParser \<Rightarrow> error + (bool \<times> 'd FBXTextParser)" where
  "caseComma J D token p =
     (if expectNextKey_' p = None \<and> expect_' p AND Expect_Comma \<noteq> 0
      then Inr (False, p\<lparr>expect_' := Expect_Value\<rparr>)
      else map_sum id (Pair False) (unexpected J D token p))"

definition parseToken ::
  "js \<Rightarrow> 'd FBXParserDelegate \<Rightarrow> Token \<Rightarrow> 'd FBXTextParser \<Rightarrow> error + (bool \<times> 'd FBXTextParser)" where
  "parseToken J D token p =
     (case Token.type token of
        Key \<Rightarrow> caseKey J D token p
      | TokenType.String \<Rightarrow> caseValue J D token p
      | Number \<Rightarrow> caseValue J D token p
      | ArrayCount \<Rightarrow> caseArrayCount J D token p
      | OpenBlock \<Rightarrow> caseOpenBlock J D token p
      | CloseBlock \<Rightarrow> caseCloseBlock J D token p
      | Comma \<Rightarrow> caseComma J D token p
      | Invalid \<Rightarrow> map_sum id (Pair False) (unexpected J D token p)
      | EOF \<Rightarrow> Inr (False, p\<lparr>eof_' := True\<rparr>))"

text \<open>
  The loop \<open>do { ... } while (!this.eof_)\<close> over the tokens the tokenizer delivers, given
  as a list: it stops after the token that makes \<open>parse()\<close> return or sets \<open>eof_\<close>, or on
  an error.
\<close>

fun parseTokens ::
  "js \<Rightarrow> 'd FBXParserDelegate \<Rightarrow> Token list \<Rightarrow> 'd FBXTextParser \<Rightarrow> error + 'd FBXTextParser" where
  "parseTokens J D [] p = Inr p"
| "parseTokens J D (token # rest) p =
     (case parseToken J D token p of
        Inl e \<Rightarrow> Inl e
      | Inr (returned, p') \<Rightarrow> if returned \<or> eof_' p' then Inr p' else parseTokens J D rest p')"

section \<open>What a delegate observes of a parse\<close>

text \<open>
  To speak of the calls a delegate receives, the parser is run with a delegate that
  records them. Its state is the list of the calls so far; its answer to \<open>block(name,
  values)\<close> is any function of that list and of the arguments, so every deterministic
  delegate that does not throw is covered. The token lists are described by their kinds
  and values, whatever their offsets.
\<close>

datatype event =
    BlockCall string "FBXValue list" FBXBlockAction
  | EndBlockCall
  | PropertyCall string "FBXValue list"
  | TypedPropertyCall string FBXPropertyType string "FBXValue list"
  | ErrorCall string int string

definition recorder ::
  "(event list \<Rightarrow> string \<Rightarrow> FBXValue list \<Rightarrow> FBXBlockAction) \<Rightarrow> (event list) FBXParserDelegate" where
  "recorder answer =
     \<lparr>blockD = (\<lambda>nm vs h. Inr (answer h nm vs, h @ [BlockCall nm vs (answer h nm vs)])),
      endBlockD = (\<lambda>h. Inr (h @ [EndBlockCall])),
      propertyD = (\<lambda>nm vs h. Inr (h @ [PropertyCall nm vs])),
      typedPropertyD = (\<lambda>nm ty tyName vs h. Inr (h @ [TypedPropertyCall nm ty tyName vs])),
      errorD = (\<lambda>msg off tok h. Inr (h @ [ErrorCall msg off tok]))\<rparr>"

definition isKeyTok :: "string \<Rightarrow> Token \<Rightarrow> bool" where
  "isKeyTok k t = (Token.type t = Key \<and> val t = Some (StrVal k))"

definition isNumTok :: "number \<Rightarrow> Token \<Rightarrow> bool" where
  "isNumTok n t = (Token.type t = Number \<and> val t = Some (NumVal n))"

definition isStrTok :: "string \<Rightarrow> Token \<Rightarrow> bool" where
  "isStrTok s t = (Token.type t = TokenType.String \<and> val t = Some (StrVal s))"

fun isValTok :: "FBXValue \<Rightarrow> Token \<Rightarrow> bool" where
  "isValTok (VString s) t = isStrTok s t"
| "isValTok (VNumber n) t = isNumTok n t"
| "isValTok _ t = False"

inductive valuesTokens :: "Token list \<Rightarrow> FBXValue list \<Rightarrow> bool" where
  one: "isValTok v t \<Longrightarrow> valuesTokens [t] [v]"
| more: "isValTok v t \<Longrightarrow> Token.type c = Comma \<Longrightarrow> valuesTokens ts vs \<Longrightarrow>
         valuesTokens (t # c # ts) (v # vs)"

inductive numbersTokens :: "Token list \<Rightarrow> number list \<Rightarrow> bool" where
  one: "isNumTok n t \<Longrightarrow> numbersTokens [t] [n]"
| more: "isNumTok n t \<Longrightarrow> Token.type c = Comma \<Longrightarrow> numbersTokens ts ns \<Longrightarrow>
         numbersTokens (t # c # ts) (n # ns)"

lemma Expect_bits [simp]:
  "Expect_ValueOrOpen AND Expect_Value \<noteq> 0" "Expect_ValueOrOpen AND Expect_Open \<noteq> 0"
  "Expect_Value AND Expect_Value \<noteq> 0"
  "Expect_CommaOrOpenOrKey AND Expect_Comma \<noteq> 0"
  "Expect_CommaOrOpenOrKey AND Expect_Open \<noteq> 0"
  "Expect_CommaOrOpenOrKey AND Expect_Key \<noteq> 0"
  "(Expect_CommaOrOpenOrKey OR Expect_Close) AND Expect_Comma \<noteq> 0"
  "(Expect_CommaOrOpenOrKey OR Expect_Close) AND Expect_Open \<noteq> 0"
  "(Expect_CommaOrOpenOrKey OR Expect_Close) AND Expect_Key \<noteq> 0"
  "(Expect_CommaOrOpenOrKey OR Expect_Close) AND Expect_Close \<noteq> 0"
  "(Expect_Key OR Expect_Close) AND Expect_Key \<noteq> 0"
  "(Expect_Key OR Expect_Close) AND Expect_Close \<noteq> 0"
  "Expect_Key AND Expect_Key \<noteq> 0"
  "(Expect_Comma OR Expect_Close) AND Expect_Comma \<noteq> 0"
  "(Expect_Comma OR Expect_Close) AND Expect_Close \<noteq> 0"
  "(Expect_Close OR Expect_Close) AND Expect_Close \<noteq> 0"
  "Expect_Open AND Expect_Open \<noteq> 0"
  "Expect_Key \<noteq> 0" "Expect_Value \<noteq> 0" "Expect_Comma \<noteq> 0" "Expect_Open \<noteq> 0"
  "Expect_Close \<noteq> 0"
  by (simp_all add: Expect_Key_def Expect_Value_def Expect_Comma_def Expect_Open_def
      Expect_Close_def Expect_ValueOrOpen_def Expect_CommaOrOpenOrKey_def)

definition afterValue :: "int \<Rightarrow> int" where
  "afterValue d = (if d > 0 then Expect_CommaOrOpenOrKey OR Expect_Close else Expect_CommaOrOpenOrKey)"

lemma step_value:
  assumes "isValTok v t" "expectNextKey_' p = None" "expect_' p AND Expect_Value \<noteq> 0"
    "array_' p = None"
  shows "parseToken J D t p =
    Inr (False, p\<lparr>values_' := values_' p @ [v], expect_' := afterValue (depth_' p)\<rparr>)"
  using assms
  by (cases v) (auto simp add: parseToken_def caseValue_def tokenValue_def isStrTok_def isNumTok_def
      afterValue_def)

lemma step_comma:
  assumes "Token.type c = Comma" "expectNextKey_' p = None" "expect_' p AND Expect_Comma \<noteq> 0"
  shows "parseToken J D c p = Inr (False, p\<lparr>expect_' := Expect_Value\<rparr>)"
  using assms by (simp add: parseToken_def caseComma_def)

lemma afterValue_bits [simp]:
  "afterValue d AND Expect_Comma \<noteq> 0" "afterValue d AND Expect_Open \<noteq> 0"
  "afterValue d AND Expect_Key \<noteq> 0" "d > 0 \<Longrightarrow> afterValue d AND Expect_Close \<noteq> 0"
  by (simp_all add: afterValue_def)

lemma run_values:
  assumes "valuesTokens vts vs"
    and "expectNextKey_' p = None" "expect_' p AND Expect_Value \<noteq> 0" "array_' p = None"
    "\<not> eof_' p"
  shows "parseTokens J D (vts @ rest) p =
    parseTokens J D rest (p\<lparr>values_' := values_' p @ vs, expect_' := afterValue (depth_' p)\<rparr>)"
  using assms
proof (induction arbitrary: p rule: valuesTokens.induct)
  case (one v t)
  then show ?case by (simp add: step_value)
next
  case (more v t c ts vs)
  let ?p1 = "p\<lparr>values_' := values_' p @ [v], expect_' := afterValue (depth_' p)\<rparr>"
  let ?p2 = "?p1\<lparr>expect_' := Expect_Value\<rparr>"
  have s1: "parseToken J D t p = Inr (False, ?p1)"
    using more by (simp add: step_value)
  have s2: "parseToken J D c ?p1 = Inr (False, ?p2)"
    using more by (simp add: step_comma)
  have "parseTokens J D (ts @ rest) ?p2 =
    parseTokens J D rest (?p2\<lparr>values_' := values_' ?p2 @ vs, expect_' := afterValue (depth_' ?p2)\<rparr>)"
    using more.prems by (intro more.IH) simp_all
  then show ?case using s1 s2 more.prems by simp
qed


definition pendingEvents :: "(event list) FBXTextParser \<Rightarrow> event list" where
  "pendingEvents p =
     (if depth_' p \<le> skippingUntilDepth_' p then
        (case values_' p of
           VString k # vs \<Rightarrow>
             if inProp70Block_' p then
               (case interpretProp70P vs of
                  Inr r \<Rightarrow> [TypedPropertyCall (FBXProp70Prop.name r) (FBXProp70Prop.type r)
                              (FBXProp70Prop.typeName r) (FBXProp70Prop.values' r)]
                | Inl e \<Rightarrow> [])
             else [PropertyCall k vs]
         | _ \<Rightarrow> [])
      else [])"

definition hist :: "(event list) FBXTextParser \<Rightarrow> event list" where
  "hist p = delegate_' p @ pendingEvents p"

definition pendingOK :: "'d FBXTextParser \<Rightarrow> bool" where
  "pendingOK p \<longleftrightarrow>
     values_' p = [] \<or>
     (\<exists>k vs. values_' p = VString k # vs \<and>
        (if inProp70Block_' p \<and> depth_' p \<le> skippingUntilDepth_' p
         then k = ''P'' \<and> (\<exists>r. interpretProp70P vs = Inr r) else True))"

definition ready :: "bool \<Rightarrow> 'd FBXTextParser \<Rightarrow> bool" where
  "ready b p \<longleftrightarrow>
     expectNextKey_' p = None \<and> array_' p = None \<and> inProp70Block_' p = b \<and> \<not> eof_' p
     \<and> expect_' p AND Expect_Key \<noteq> 0
     \<and> (if depth_' p > 0 then expect_' p AND Expect_Close \<noteq> 0 else True)
     \<and> pendingOK p
     \<and> 0 \<le> depth_' p"

definition flushed :: "(event list) FBXTextParser \<Rightarrow> (event list) FBXTextParser" where
  "flushed p = p\<lparr>values_' := [], delegate_' := hist p\<rparr>"

lemma flush_recorder:
  assumes "pendingOK p"
  shows "(if length (values_' p) > 0 then reportProperty (recorder a) p else Inr p) = Inr (flushed p)"
proof (cases "values_' p")
  case Nil
  then have "flushed p = p" by (simp add: flushed_def hist_def pendingEvents_def)
  with Nil show ?thesis by simp
next
  case (Cons x xs)
  with assms obtain k where x: "x = VString k"
    and ok: "if inProp70Block_' p \<and> depth_' p \<le> skippingUntilDepth_' p
             then k = ''P'' \<and> (\<exists>r. interpretProp70P xs = Inr r) else True"
    by (auto simp add: pendingOK_def)
  show ?thesis
  proof (cases "inProp70Block_' p \<and> depth_' p \<le> skippingUntilDepth_' p")
    case True
    with ok obtain r where "k = ''P''" "interpretProp70P xs = Inr r" by auto
    with Cons x True show ?thesis
      by (simp add: reportProperty_def recorder_def flushed_def hist_def pendingEvents_def Let_def)
  next
    case False
    with Cons x show ?thesis
      by (auto simp add: reportProperty_def recorder_def flushed_def hist_def pendingEvents_def Let_def)
  qed
qed

lemma step_key:
  assumes "isKeyTok k tk" "k \<noteq> ''a''" "expect_' p AND Expect_Key \<noteq> 0" "expectNextKey_' p = None"
    "(if length (values_' p) > 0 then reportProperty D p else Inr p) = Inr p1"
  shows "parseToken J D tk p =
     Inr (False, p1\<lparr>values_' := values_' p1 @ [VString k], expect_' := Expect_ValueOrOpen,
                     expectNextKey_' := None\<rparr>)"
  using assms by (simp add: parseToken_def caseKey_def isKeyTok_def)

definition closeExpect :: "int \<Rightarrow> int" where
  "closeExpect d = (if d > 0 then Expect_Key OR Expect_Close else Expect_Key)"

lemma closeExpect_bits [simp]:
  "closeExpect d AND Expect_Key \<noteq> 0" "d > 0 \<Longrightarrow> closeExpect d AND Expect_Close \<noteq> 0"
  by (simp_all add: closeExpect_def)

fun storeAll :: "js \<Rightarrow> TypedArray \<Rightarrow> int \<Rightarrow> number list \<Rightarrow> TypedArray" where
  "storeAll J arr i [] = arr"
| "storeAll J arr i (n # ns) = storeAll J (arrayStore J arr i n) (i + 1) ns"

lemma arrayStore_length [simp]: "arrayLength (arrayStore J arr i n) = arrayLength arr"
  by (simp add: arrayStore_def arrayLength_def split: TypedArray.splits)

lemma step_number_array:
  assumes "isNumTok n t" "expectNextKey_' p = None" "expect_' p AND Expect_Value \<noteq> 0"
    "array_' p = Some arr" "depth_' p > 0"
  shows "parseToken J D t p =
    Inr (False,
      if arrayIndex_' p + 1 = arrayLength_' p
      then p\<lparr>array_' := Some (arrayStore J arr (arrayIndex_' p) n), arrayIndex_' := arrayIndex_' p + 1,
             values_' := values_' p @ [VTypedArray (arrayStore J arr (arrayIndex_' p) n)],
             expect_' := Expect_Close OR Expect_Close\<rparr>
      else p\<lparr>array_' := Some (arrayStore J arr (arrayIndex_' p) n), arrayIndex_' := arrayIndex_' p + 1,
             expect_' := Expect_Comma OR Expect_Close\<rparr>)"
  using assms
  by (simp add: parseToken_def caseValue_def isNumTok_def Let_def)

lemma run_numbers:
  assumes "numbersTokens nts ns"
    and "expectNextKey_' p = None" "expect_' p AND Expect_Value \<noteq> 0" "array_' p = Some arr"
    "depth_' p > 0" "\<not> eof_' p" "arrayLength_' p = arrayIndex_' p + int (length ns)"
  shows "parseTokens J D (nts @ rest) p =
    parseTokens J D rest
      (p\<lparr>array_' := Some (storeAll J arr (arrayIndex_' p) ns),
         arrayIndex_' := arrayLength_' p,
         values_' := values_' p @ [VTypedArray (storeAll J arr (arrayIndex_' p) ns)],
         expect_' := Expect_Close OR Expect_Close\<rparr>)"
  using assms
proof (induction arbitrary: p arr rule: numbersTokens.induct)
  case (one n t)
  then show ?case by (simp add: step_number_array)
next
  case (more n t c ts ns)
  let ?arr1 = "arrayStore J arr (arrayIndex_' p) n"
  let ?p1 = "p\<lparr>array_' := Some ?arr1, arrayIndex_' := arrayIndex_' p + 1,
             expect_' := Expect_Comma OR Expect_Close\<rparr>"
  let ?p2 = "?p1\<lparr>expect_' := Expect_Value\<rparr>"
  have "ns \<noteq> []" using more.hyps(3) by (cases rule: numbersTokens.cases) auto
  then have ne: "arrayIndex_' p + 1 \<noteq> arrayLength_' p" using more.prems by simp
  have s1: "parseToken J D t p = Inr (False, ?p1)"
    using more ne by (simp add: step_number_array)
  have s2: "parseToken J D c ?p1 = Inr (False, ?p2)"
    using more by (simp add: step_comma)
  have "parseTokens J D (ts @ rest) ?p2 =
    parseTokens J D rest
      (?p2\<lparr>array_' := Some (storeAll J ?arr1 (arrayIndex_' ?p2) ns),
         arrayIndex_' := arrayLength_' ?p2,
         values_' := values_' ?p2 @ [VTypedArray (storeAll J ?arr1 (arrayIndex_' ?p2) ns)],
         expect_' := Expect_Close OR Expect_Close\<rparr>)"
    using more.prems by (intro more.IH) simp_all
  then show ?case using s1 s2 more.prems by simp
qed


lemma step_arrayCount:
  assumes "Token.type tc = ArrayCount" "val tc = Some (NumVal n)"
    "expectNextKey_' p = None" "expect_' p = Expect_ValueOrOpen"
  shows "parseToken J D tc p =
    Inr (False, p\<lparr>array_' := Some (arrayForKey (elemAt (values_' p) 0) (elementCountOf n)),
                    arrayIndex_' := 0,
                    arrayLength_' := int (arrayLength (arrayForKey (elemAt (values_' p) 0) (elementCountOf n))),
                    expect_' := Expect_Open, expectNextKey_' := Some ''a''\<rparr>)"
  using assms by (simp add: parseToken_def caseArrayCount_def Let_def)

lemma step_open_array:
  assumes "Token.type t = OpenBlock" "expect_' p AND Expect_Open \<noteq> 0" "array_' p \<noteq> None"
    "values_' p \<noteq> []" "expectNextKey_' p \<noteq> None"
  shows "parseToken J D t p = Inr (False, p\<lparr>depth_' := depth_' p + 1, expect_' := Expect_Key\<rparr>)"
  using assms by (auto simp add: parseToken_def caseOpenBlock_def reportBlock_def Let_def)

lemma step_key_a:
  assumes "isKeyTok ''a'' t" "expect_' p AND Expect_Key \<noteq> 0" "expectNextKey_' p = Some ''a''"
  shows "parseToken J D t p =
    Inr (False, p\<lparr>expect_' := Expect_ValueOrOpen, expectNextKey_' := None\<rparr>)"
  using assms by (simp add: parseToken_def caseKey_def isKeyTok_def)

lemma arrayForKey_length [simp]: "arrayLength (arrayForKey key n) = n"
  by (simp add: arrayForKey_def arrayLength_def split: ArrayKind.splits)

lemma step_close_array:
  assumes "Token.type t = CloseBlock" "expectNextKey_' p = None" "expect_' p AND Expect_Close \<noteq> 0"
    "array_' p \<noteq> None" "values_' p = VString k # vs" "\<not> inProp70Block_' p"
    "depth_' p \<le> skippingUntilDepth_' p \<or> skippingUntilDepth_' p < depth_' p - 1"
  shows "parseToken J (recorder a) t p =
    Inr (False, p\<lparr>values_' := [],
                    delegate_' := delegate_' p @ (if depth_' p \<le> skippingUntilDepth_' p
                                                  then [PropertyCall k vs] else []),
                    array_' := None, depth_' := depth_' p - 1,
                    expect_' := closeExpect (depth_' p - 1)\<rparr>)"
  using assms
  by (auto simp add: parseToken_def caseCloseBlock_def reportProperty_def recorder_def Let_def
      closeExpect_def)

lemma numbersTokens_nonempty: "numbersTokens nts ns \<Longrightarrow> ns \<noteq> []"
  by (cases rule: numbersTokens.cases) auto

lemma run_array:
  assumes tk: "isKeyTok k tk" "k \<noteq> ''a''"
    and tc: "Token.type tc = ArrayCount" "val tc = Some (NumVal (Fin (real (length ns))))"
    and topen: "Token.type topen = OpenBlock"
    and ta: "isKeyTok ''a'' ta"
    and nts: "numbersTokens nts ns"
    and tclose: "Token.type tclose = CloseBlock"
    and rdy: "ready False p"
    and mode: "depth_' p + 1 \<le> skippingUntilDepth_' p \<or> skippingUntilDepth_' p < depth_' p"
  shows "parseTokens J (recorder a) (tk # tc # topen # ta # nts @ tclose # rest) p =
    parseTokens J (recorder a) rest
      (p\<lparr>values_' := [],
         delegate_' := hist p @
           (if depth_' p + 1 \<le> skippingUntilDepth_' p
            then [PropertyCall k [VTypedArray
                    (storeAll J (arrayForKey (Some (VString k)) (length ns)) 0 ns)]]
            else []),
         expect_' := closeExpect (depth_' p),
         arrayIndex_' := int (length ns), arrayLength_' := int (length ns),
         array_' := None, expectNextKey_' := None\<rparr>)"
proof -
  let ?D = "recorder a"
  let ?arr = "arrayForKey (Some (VString k)) (length ns)"
  have r: "expectNextKey_' p = None" "array_' p = None" "\<not> inProp70Block_' p" "\<not> eof_' p"
    "expect_' p AND Expect_Key \<noteq> 0" "0 \<le> depth_' p"
    "pendingOK p"
    using rdy by (simp_all add: ready_def)
  let ?p1 = "(flushed p)\<lparr>values_' := [VString k], expect_' := Expect_ValueOrOpen,
                           expectNextKey_' := None\<rparr>"
  have s1: "parseToken J ?D tk p = Inr (False, ?p1)"
    using step_key [OF tk r(5) r(1) flush_recorder [OF r(7)], where J = J]
    by (simp add: flushed_def)
  let ?p2 = "?p1\<lparr>array_' := Some ?arr, arrayIndex_' := 0, arrayLength_' := int (length ns),
                  expect_' := Expect_Open, expectNextKey_' := Some ''a''\<rparr>"
  have s2: "parseToken J ?D tc ?p1 = Inr (False, ?p2)"
    using step_arrayCount [OF tc, where p = ?p1 and J = J and D = ?D]
    by (simp add: flushed_def elemAt_def elementCountOf_def)
  let ?p3 = "?p2\<lparr>depth_' := depth_' p + 1, expect_' := Expect_Key\<rparr>"
  have s3: "parseToken J ?D topen ?p2 = Inr (False, ?p3)"
    using step_open_array [OF topen, where p = ?p2 and J = J and D = ?D] by (simp add: flushed_def)
  let ?p4 = "?p3\<lparr>expect_' := Expect_ValueOrOpen, expectNextKey_' := None\<rparr>"
  have s4: "parseToken J ?D ta ?p3 = Inr (False, ?p4)"
    using step_key_a [OF ta, where p = ?p3 and J = J and D = ?D] by simp
  let ?A = "storeAll J ?arr 0 ns"
  let ?p5 = "?p4\<lparr>array_' := Some ?A, arrayIndex_' := int (length ns),
                  values_' := [VString k, VTypedArray ?A],
                  expect_' := Expect_Close OR Expect_Close\<rparr>"
  have s5: "parseTokens J ?D (nts @ tclose # rest) ?p4 = parseTokens J ?D (tclose # rest) ?p5"
    using run_numbers [OF nts, where p = ?p4 and arr = ?arr and J = J and D = ?D
        and rest = "tclose # rest"] r(4) r(6)
    by (simp add: flushed_def)
  let ?p6 = "p\<lparr>values_' := [],
         delegate_' := hist p @
           (if depth_' p + 1 \<le> skippingUntilDepth_' p then [PropertyCall k [VTypedArray ?A]] else []),
         expect_' := closeExpect (depth_' p),
         arrayIndex_' := int (length ns), arrayLength_' := int (length ns),
         array_' := None, expectNextKey_' := None\<rparr>"
  have s6: "parseToken J ?D tclose ?p5 = Inr (False, ?p6)"
    using step_close_array [OF tclose, where p = ?p5 and k = k and vs = "[VTypedArray ?A]"
        and a = a and J = J] mode r(2) r(3)
    by (auto simp add: flushed_def)
  have e: "\<not> eof_' ?p1" "\<not> eof_' ?p2" "\<not> eof_' ?p3" "\<not> eof_' ?p4" "\<not> eof_' ?p6"
    using r(4) by (simp_all add: flushed_def)
  show ?thesis
    using s1 s2 s3 s4 s5 s6 e by simp
qed


definition typedArrayOf :: "js \<Rightarrow> string \<Rightarrow> number list \<Rightarrow> TypedArray" where
  "typedArrayOf J key ns =
     (case arrayKindForKey (Some (VString key)) of
        Int32 \<Rightarrow> Int32Array (map (\<lambda>n. word_of_int (toInt32 n)) ns)
      | Float32 \<Rightarrow> Float32Array (map (fround J) ns)
      | Float64 \<Rightarrow> Float64Array ns)"

lemma store_step:
  "i + Suc (length ys) \<le> length xs \<Longrightarrow>
   take (Suc i) (xs[i := v]) @ ys @ drop (Suc i + length ys) (xs[i := v])
     = take i xs @ (v # ys) @ drop (i + length (v # ys)) xs"
  by (simp add: take_Suc_conv_app_nth)

lemma storeAll_Int32:
  "i + length ns \<le> length xs \<Longrightarrow>
   storeAll J (Int32Array xs) (int i) ns
     = Int32Array (take i xs @ map (\<lambda>n. word_of_int (toInt32 n)) ns @ drop (i + length ns) xs)"
proof (induction ns arbitrary: i xs)
  case Nil
  then show ?case by simp
next
  case (Cons n ns)
  have "storeAll J (Int32Array xs) (int i) (n # ns)
      = storeAll J (Int32Array (xs[i := word_of_int (toInt32 n)])) (int (Suc i)) ns"
    by (simp add: arrayStore_def add.commute)
  also have "\<dots> = Int32Array (take (Suc i) (xs[i := word_of_int (toInt32 n)])
       @ map (\<lambda>n. word_of_int (toInt32 n)) ns
       @ drop (Suc i + length ns) (xs[i := word_of_int (toInt32 n)]))"
    using Cons.prems by (intro Cons.IH) simp
  finally show ?case
    using Cons.prems store_step [of i "map (\<lambda>n. word_of_int (toInt32 n)) ns" xs] by simp
qed

lemma storeAll_Float32:
  "i + length ns \<le> length xs \<Longrightarrow>
   storeAll J (Float32Array xs) (int i) ns
     = Float32Array (take i xs @ map (fround J) ns @ drop (i + length ns) xs)"
proof (induction ns arbitrary: i xs)
  case Nil
  then show ?case by simp
next
  case (Cons n ns)
  have "storeAll J (Float32Array xs) (int i) (n # ns)
      = storeAll J (Float32Array (xs[i := fround J n])) (int (Suc i)) ns"
    by (simp add: arrayStore_def add.commute)
  also have "\<dots> = Float32Array (take (Suc i) (xs[i := fround J n])
       @ map (fround J) ns @ drop (Suc i + length ns) (xs[i := fround J n]))"
    using Cons.prems by (intro Cons.IH) simp
  finally show ?case
    using Cons.prems store_step [of i "map (fround J) ns" xs] by simp
qed

lemma storeAll_Float64:
  "i + length ns \<le> length xs \<Longrightarrow>
   storeAll J (Float64Array xs) (int i) ns
     = Float64Array (take i xs @ ns @ drop (i + length ns) xs)"
proof (induction ns arbitrary: i xs)
  case Nil
  then show ?case by simp
next
  case (Cons n ns)
  have "storeAll J (Float64Array xs) (int i) (n # ns)
      = storeAll J (Float64Array (xs[i := n])) (int (Suc i)) ns"
    by (simp add: arrayStore_def add.commute)
  also have "\<dots> = Float64Array (take (Suc i) (xs[i := n]) @ ns @ drop (Suc i + length ns) (xs[i := n]))"
    using Cons.prems by (intro Cons.IH) simp
  finally show ?case
    using Cons.prems store_step [of i ns xs] by simp
qed

lemma storeAll_arrayForKey:
  "storeAll J (arrayForKey (Some (VString key)) (length ns)) 0 ns = typedArrayOf J key ns"
  using storeAll_Int32 [of 0 ns "replicate (length ns) 0" J]
    storeAll_Float32 [of 0 ns "replicate (length ns) (Fin 0)" J]
    storeAll_Float64 [of 0 ns "replicate (length ns) (Fin 0)" J]
  by (simp add: arrayForKey_def typedArrayOf_def split: ArrayKind.splits)

lemma kindOf_typedArrayOf: "kindOf (typedArrayOf J key ns) = arrayKindForKey (Some (VString key))"
  by (simp add: typedArrayOf_def kindOf_def split: ArrayKind.splits)

text \<open>
  C7. Let the tokens be a key \<open>k\<close>, an \<open>ArrayCount\<close>, the opening brace, the key \<open>a\<close>, the
  numbers \<open>ns\<close> separated by commas and the closing brace, read where a key is expected
  and nothing is skipped. The delegate then receives one \<open>property(k, [array])\<close>, and the
  array's element type is the one the table gives for \<open>k\<close>, whatever the numbers are:
  each number is converted to that type. \<open>Vertices\<close> gives 64-bit floats,
  \<open>PolygonVertexIndex\<close> 32-bit signed integers, and a name outside the table 64-bit floats.
\<close>

theorem C7_array_element_type:
  assumes "isKeyTok k tk" and "k \<noteq> ''a''"
    and "Token.type tc = ArrayCount" and "val tc = Some (NumVal (Fin (real (length ns))))"
    and "Token.type topen = OpenBlock" and "isKeyTok ''a'' ta" and "numbersTokens nts ns"
    and "Token.type tclose = CloseBlock"
    and "ready False p" and "depth_' p + 1 \<le> skippingUntilDepth_' p"
  shows "(\<exists>p'. parseTokens J (recorder a) (tk # tc # topen # ta # nts @ tclose # rest) p
                = parseTokens J (recorder a) rest p'
              \<and> delegate_' p' = hist p @ [PropertyCall k [VTypedArray (typedArrayOf J k ns)]])
    \<and> kindOf (typedArrayOf J k ns) = arrayKindForKey (Some (VString k))
    \<and> arrayKindForKey (Some (VString ''Vertices'')) = Float64
    \<and> arrayKindForKey (Some (VString ''PolygonVertexIndex'')) = Int32
    \<and> (k \<notin> {''PolygonVertexIndex'', ''UVIndex'', ''Edges'', ''Materials'', ''KeyAttrFlags'',
              ''KeyAttrRefCount'', ''KeyValueFloat'', ''KeyAttrDataFloat'', ''Vertices'',
              ''Normals'', ''NormalsW'', ''UV'', ''KeyTime''}
         \<longrightarrow> arrayKindForKey (Some (VString k)) = Float64)"
proof (intro conjI)
  let ?p' = "p\<lparr>values_' := [],
         delegate_' := hist p @ [PropertyCall k [VTypedArray (typedArrayOf J k ns)]],
         expect_' := closeExpect (depth_' p),
         arrayIndex_' := int (length ns), arrayLength_' := int (length ns),
         array_' := None, expectNextKey_' := None\<rparr>"
  have "parseTokens J (recorder a) (tk # tc # topen # ta # nts @ tclose # rest) p
      = parseTokens J (recorder a) rest ?p'"
    using run_array [OF assms(1-9), where J = J and a = a and rest = rest] assms(10)
    by (simp add: storeAll_arrayForKey)
  moreover have "delegate_' ?p' = hist p @ [PropertyCall k [VTypedArray (typedArrayOf J k ns)]]"
    by simp
  ultimately show "\<exists>p'. parseTokens J (recorder a) (tk # tc # topen # ta # nts @ tclose # rest) p
                = parseTokens J (recorder a) rest p'
              \<and> delegate_' p' = hist p @ [PropertyCall k [VTypedArray (typedArrayOf J k ns)]]"
    by blast
  show "kindOf (typedArrayOf J k ns) = arrayKindForKey (Some (VString k))"
    by (rule kindOf_typedArrayOf)
  show "arrayKindForKey (Some (VString ''Vertices'')) = Float64"
    by (simp add: arrayKindForKey_def image_iff)
  show "arrayKindForKey (Some (VString ''PolygonVertexIndex'')) = Int32"
    by (simp add: arrayKindForKey_def image_iff)
  show "k \<notin> {''PolygonVertexIndex'', ''UVIndex'', ''Edges'', ''Materials'', ''KeyAttrFlags'',
              ''KeyAttrRefCount'', ''KeyValueFloat'', ''KeyAttrDataFloat'', ''Vertices'',
              ''Normals'', ''NormalsW'', ''UV'', ''KeyTime''}
         \<longrightarrow> arrayKindForKey (Some (VString k)) = Float64"
    by (auto simp add: arrayKindForKey_def)
qed

definition J0 :: js where
  "J0 = \<lparr>parseFloat = (\<lambda>s. NaN), numberToString = (\<lambda>n. []), fround = (\<lambda>n. n)\<rparr>"

theorem C7_array_element_type_witness:
  "\<exists>p'. parseTokens J0 (recorder (\<lambda>h nm vs. Enter))
      [\<lparr>Token.type = Key, Token.offset = 0, val = Some (StrVal ''PolygonVertexIndex'')\<rparr>,
       \<lparr>Token.type = ArrayCount, Token.offset = 20, val = Some (NumVal (Fin 2))\<rparr>,
       \<lparr>Token.type = OpenBlock, Token.offset = 23, val = None\<rparr>,
       \<lparr>Token.type = Key, Token.offset = 25, val = Some (StrVal ''a'')\<rparr>,
       \<lparr>Token.type = Number, Token.offset = 28, val = Some (NumVal (Fin 1))\<rparr>,
       \<lparr>Token.type = Comma, Token.offset = 29, val = None\<rparr>,
       \<lparr>Token.type = Number, Token.offset = 30, val = Some (NumVal (Fin (- 2.0)))\<rparr>,
       \<lparr>Token.type = CloseBlock, Token.offset = 35, val = None\<rparr>]
      (newFBXTextParser [] []) = Inr p'
    \<and> delegate_' p' = [PropertyCall ''PolygonVertexIndex'' [VTypedArray (Int32Array [1, - 2])]]"
proof -
  have nt: "numbersTokens
      [\<lparr>Token.type = Number, Token.offset = 28, val = Some (NumVal (Fin 1))\<rparr>,
       \<lparr>Token.type = Comma, Token.offset = 29, val = None\<rparr>,
       \<lparr>Token.type = Number, Token.offset = 30, val = Some (NumVal (Fin (- 2.0)))\<rparr>] [Fin 1, Fin (- 2.0)]"
    by (intro numbersTokens.intros) (simp_all add: isNumTok_def)
  have rdy: "ready False (newFBXTextParser [] ([] :: event list))"
    by (simp add: ready_def newFBXTextParser_def pendingOK_def)
  have "typedArrayOf J0 ''PolygonVertexIndex'' [Fin 1, Fin (- 2.0)] = Int32Array [1, - 2]"
    by (simp add: typedArrayOf_def arrayKindForKey_def image_iff)
  then show ?thesis
    using C7_array_element_type [OF _ _ _ _ _ _ nt _ rdy, where J = J0 and a = "\<lambda>h nm vs. Enter"
        and rest = "[]" and k = "''PolygonVertexIndex''"
        and tk = "\<lparr>Token.type = Key, Token.offset = 0, val = Some (StrVal ''PolygonVertexIndex'')\<rparr>"
        and tc = "\<lparr>Token.type = ArrayCount, Token.offset = 20, val = Some (NumVal (Fin 2))\<rparr>"
        and topen = "\<lparr>Token.type = OpenBlock, Token.offset = 23, val = None\<rparr>"
        and ta = "\<lparr>Token.type = Key, Token.offset = 25, val = Some (StrVal ''a'')\<rparr>"
        and tclose = "\<lparr>Token.type = CloseBlock, Token.offset = 35, val = None\<rparr>"]
    by (simp add: isKeyTok_def newFBXTextParser_def hist_def pendingEvents_def)
qed

section \<open>Well-formed documents\<close>

text \<open>
  The inputs of the claims about whole documents are described by a grammar over token
  lists. The grammar is a description of inputs, not a part of the program: an item is a
  property (a key and its comma-separated values), an array (a key, an element count, and
  the wrapper \<open>{ a: n, n, ... }\<close>), a block (a key, optional values, and braces around
  items), or a \<open>Properties70\<close> block whose body is a sequence of \<open>P\<close> records with at least
  four values each. \<open>itemsTokens ts its\<close> says that the tokens \<open>ts\<close> spell the items \<open>its\<close>.
\<close>

datatype item =
    Prop string "FBXValue list"
  | Arr string "number list"
  | Blk string "FBXValue list" "item list"
  | P70 "(string \<times> string \<times> FBXValue list) list"

inductive propsTokens :: "Token list \<Rightarrow> (string \<times> string \<times> FBXValue list) list \<Rightarrow> bool" where
  none: "propsTokens [] []"
| more: "isKeyTok ''P'' tk \<Longrightarrow> valuesTokens vts (VString nm # VString tn # payload) \<Longrightarrow>
         2 \<le> length payload \<Longrightarrow> propsTokens ts ps \<Longrightarrow>
         propsTokens (tk # vts @ ts) ((nm, tn, payload) # ps)"

inductive itemsTokens :: "Token list \<Rightarrow> item list \<Rightarrow> bool" where
  none: "itemsTokens [] []"
| property: "isKeyTok k tk \<Longrightarrow> k \<noteq> ''a'' \<Longrightarrow> valuesTokens vts vs \<Longrightarrow> itemsTokens ts its \<Longrightarrow>
         itemsTokens (tk # vts @ ts) (Prop k vs # its)"
| array: "isKeyTok k tk \<Longrightarrow> k \<noteq> ''a'' \<Longrightarrow> Token.type tc = ArrayCount \<Longrightarrow>
        val tc = Some (NumVal (Fin (real (length ns)))) \<Longrightarrow> Token.type topen = OpenBlock \<Longrightarrow>
        isKeyTok ''a'' ta \<Longrightarrow> numbersTokens nts ns \<Longrightarrow> Token.type tclose = CloseBlock \<Longrightarrow>
        itemsTokens ts its \<Longrightarrow>
        itemsTokens (tk # tc # topen # ta # nts @ tclose # ts) (Arr k ns # its)"
| block: "isKeyTok k tk \<Longrightarrow> k \<noteq> ''a'' \<Longrightarrow> k \<noteq> ''Properties70'' \<Longrightarrow>
        valuesTokens vts vs \<or> (vts = [] \<and> vs = []) \<Longrightarrow> Token.type topen = OpenBlock \<Longrightarrow>
        itemsTokens body bits \<Longrightarrow> Token.type tclose = CloseBlock \<Longrightarrow> itemsTokens ts its \<Longrightarrow>
        itemsTokens (tk # vts @ topen # body @ tclose # ts) (Blk k vs bits # its)"
| props70: "isKeyTok ''Properties70'' tk \<Longrightarrow> Token.type topen = OpenBlock \<Longrightarrow>
        propsTokens body ps \<Longrightarrow> Token.type tclose = CloseBlock \<Longrightarrow> itemsTokens ts its \<Longrightarrow>
        itemsTokens (tk # topen # body @ tclose # ts) (P70 ps # its)"

text \<open>
  The calls a delegate is expected to receive for an item, after the calls \<open>h\<close>: the answer
  \<open>a h k vs\<close> of the delegate to \<open>block(k, vs)\<close> decides whether the body of a block is
  reported. \<open>height\<close> is the number of braces open at the deepest point of an item.
  \<open>runsTo J D ts p p'\<close> says that the loop of \<open>parse()\<close>, fed the tokens \<open>ts\<close> in state \<open>p\<close>,
  consumes them all and continues in state \<open>p'\<close>.
\<close>

definition typeHint :: "string \<Rightarrow> FBXPropertyType" where
  "typeHint tn = (case fbxTypeNameMapping (toLowerCase tn) of Some t \<Rightarrow> t | None \<Rightarrow> Unknown)"

definition p70Event :: "string \<times> string \<times> FBXValue list \<Rightarrow> event" where
  "p70Event r =
     (case r of (nm, tn, payload) \<Rightarrow>
        TypedPropertyCall nm (typeHint tn) tn (drop 4 (VString nm # VString tn # payload)))"

fun itemEvents ::
    "js \<Rightarrow> (event list \<Rightarrow> string \<Rightarrow> FBXValue list \<Rightarrow> FBXBlockAction) \<Rightarrow> item \<Rightarrow> event list \<Rightarrow> event list"
  and itemsEvents ::
    "js \<Rightarrow> (event list \<Rightarrow> string \<Rightarrow> FBXValue list \<Rightarrow> FBXBlockAction) \<Rightarrow> item list \<Rightarrow> event list \<Rightarrow> event list"
  where
  "itemEvents J a (Prop k vs) h = h @ [PropertyCall k vs]"
| "itemEvents J a (Arr k ns) h = h @ [PropertyCall k [VTypedArray (typedArrayOf J k ns)]]"
| "itemEvents J a (Blk k vs body) h =
     (if a h k vs = Skip then h @ [BlockCall k vs Skip]
      else itemsEvents J a body (h @ [BlockCall k vs (a h k vs)]) @ [EndBlockCall])"
| "itemEvents J a (P70 ps) h = h @ map p70Event ps"
| "itemsEvents J a [] h = h"
| "itemsEvents J a (it # its) h = itemsEvents J a its (itemEvents J a it h)"

fun height :: "item \<Rightarrow> nat" and heights :: "item list \<Rightarrow> nat" where
  "height (Prop k vs) = 0"
| "height (Arr k ns) = 1"
| "height (Blk k vs body) = 1 + heights body"
| "height (P70 ps) = 1"
| "heights [] = 0"
| "heights (it # its) = max (height it) (heights its)"

definition runsTo ::
  "js \<Rightarrow> 'd FBXParserDelegate \<Rightarrow> Token list \<Rightarrow> 'd FBXTextParser \<Rightarrow> 'd FBXTextParser \<Rightarrow> bool" where
  "runsTo J D ts p p' \<longleftrightarrow> (\<forall>rest. parseTokens J D (ts @ rest) p = parseTokens J D rest p')"

lemma runsTo_Nil: "runsTo J D [] p p"
  by (simp add: runsTo_def)

lemma runsTo_append: "runsTo J D ts1 p p1 \<Longrightarrow> runsTo J D ts2 p1 p2 \<Longrightarrow> runsTo J D (ts1 @ ts2) p p2"
  by (simp add: runsTo_def)

lemma runsTo_Cons:
  "parseToken J D t p = Inr (False, p1) \<Longrightarrow> \<not> eof_' p1 \<Longrightarrow> runsTo J D ts p1 p2 \<Longrightarrow>
   runsTo J D (t # ts) p p2"
  by (simp add: runsTo_def)

lemma runsTo_one: "parseToken J D t p = Inr (False, p1) \<Longrightarrow> \<not> eof_' p1 \<Longrightarrow> runsTo J D [t] p p1"
  by (simp add: runsTo_def)

lemma runsTo_values:
  assumes "valuesTokens vts vs"
    and "expectNextKey_' p = None" "expect_' p AND Expect_Value \<noteq> 0" "array_' p = None"
    "\<not> eof_' p"
  shows "runsTo J D vts p (p\<lparr>values_' := values_' p @ vs, expect_' := afterValue (depth_' p)\<rparr>)"
  unfolding runsTo_def using run_values [OF assms] by blast

lemma flushed_simps [simp]:
  "values_' (flushed p) = []" "delegate_' (flushed p) = hist p"
  "depth_' (flushed p) = depth_' p" "skippingUntilDepth_' (flushed p) = skippingUntilDepth_' p"
  "expect_' (flushed p) = expect_' p" "expectNextKey_' (flushed p) = expectNextKey_' p"
  "array_' (flushed p) = array_' p" "inProp70Block_' (flushed p) = inProp70Block_' p"
  "eof_' (flushed p) = eof_' p"
  by (simp_all add: flushed_def)

lemma runsTo_key:
  assumes "isKeyTok k tk" "k \<noteq> ''a''" "ready b p"
  shows "runsTo J (recorder a) [tk] p
     ((flushed p)\<lparr>values_' := [VString k], expect_' := Expect_ValueOrOpen, expectNextKey_' := None\<rparr>)"
proof -
  have r: "expectNextKey_' p = None" "expect_' p AND Expect_Key \<noteq> 0" "pendingOK p" "\<not> eof_' p"
    using assms(3) by (simp_all add: ready_def)
  have "parseToken J (recorder a) tk p =
     Inr (False, (flushed p)\<lparr>values_' := [VString k], expect_' := Expect_ValueOrOpen,
                                expectNextKey_' := None\<rparr>)"
    using step_key [OF assms(1,2) r(2) r(1) flush_recorder [OF r(3)], where J = J] by simp
  then show ?thesis using r(4) by (intro runsTo_one) simp_all
qed

lemma runsTo_prop:
  assumes "isKeyTok k tk" "k \<noteq> ''a''" "valuesTokens vts vs" "ready b p"
  shows "runsTo J (recorder a) (tk # vts) p
     ((flushed p)\<lparr>values_' := VString k # vs, expect_' := afterValue (depth_' p),
                   expectNextKey_' := None\<rparr>)"
proof -
  have r: "array_' p = None" "\<not> eof_' p"
    using assms(4) by (simp_all add: ready_def)
  let ?p1 = "(flushed p)\<lparr>values_' := [VString k], expect_' := Expect_ValueOrOpen,
                          expectNextKey_' := None\<rparr>"
  have a: "runsTo J (recorder a) [tk] p ?p1"
    by (rule runsTo_key [OF assms(1,2,4)])
  have eq: "?p1\<lparr>values_' := values_' ?p1 @ vs, expect_' := afterValue (depth_' ?p1)\<rparr>
      = (flushed p)\<lparr>values_' := VString k # vs, expect_' := afterValue (depth_' p),
                   expectNextKey_' := None\<rparr>"
    by simp
  have "runsTo J (recorder a) vts ?p1
      (?p1\<lparr>values_' := values_' ?p1 @ vs, expect_' := afterValue (depth_' ?p1)\<rparr>)"
    using r by (intro runsTo_values [OF assms(3)]) simp_all
  then have b: "runsTo J (recorder a) vts ?p1
     ((flushed p)\<lparr>values_' := VString k # vs, expect_' := afterValue (depth_' p),
                   expectNextKey_' := None\<rparr>)"
    unfolding eq .
  show ?thesis using runsTo_append [OF a b] by simp
qed

lemma interpretProp70P_wf:
  "2 \<le> length payload \<Longrightarrow>
   interpretProp70P (VString nm # VString tn # payload) =
     Inr \<lparr>name = nm, typeName = tn, type = typeHint tn,
          values' = drop 4 (VString nm # VString tn # payload)\<rparr>"
  by (simp add: interpretProp70P_def typeHint_def)

lemma ready_after_prop:
  assumes "ready b p"
    and "b \<longrightarrow> k = ''P'' \<and> (\<exists>r. interpretProp70P vs = Inr r)"
  shows "ready b ((flushed p)\<lparr>values_' := VString k # vs, expect_' := afterValue (depth_' p),
                   expectNextKey_' := None\<rparr>)"
  using assms by (auto simp add: ready_def pendingOK_def)

lemma hist_after_prop:
  "hist ((flushed p)\<lparr>values_' := VString k # vs, expect_' := e, expectNextKey_' := None\<rparr>)
     = hist p @ pendingEvents (p\<lparr>values_' := VString k # vs\<rparr>)"
  by (simp add: hist_def pendingEvents_def)

lemma step_open_block:
  assumes "Token.type t = OpenBlock" "expect_' q AND Expect_Open \<noteq> 0" "array_' q = None"
    "values_' q = VString k # vs" "k \<noteq> ''Properties70''" "expectNextKey_' q = None"
  shows "parseToken J (recorder a) t q =
    Inr (False,
      q\<lparr>values_' := [],
        delegate_' := (if depth_' q \<le> skippingUntilDepth_' q
                       then delegate_' q @ [BlockCall k vs (a (delegate_' q) k vs)]
                       else delegate_' q),
        skippingUntilDepth_' := (if depth_' q \<le> skippingUntilDepth_' q \<and> a (delegate_' q) k vs = Skip
                                 then depth_' q else skippingUntilDepth_' q),
        depth_' := depth_' q + 1,
        expect_' := Expect_Key OR Expect_Close\<rparr>)"
  using assms
  by (auto simp add: parseToken_def caseOpenBlock_def reportBlock_def recorder_def Let_def)

lemma step_open_p70:
  assumes "Token.type t = OpenBlock" "expect_' q AND Expect_Open \<noteq> 0" "array_' q = None"
    "values_' q = VString ''Properties70'' # vs" "expectNextKey_' q = None"
  shows "parseToken J D t q =
    Inr (False, q\<lparr>inProp70Block_' := True, values_' := [], depth_' := depth_' q + 1,
                    expect_' := Expect_Key OR Expect_Close\<rparr>)"
  using assms
  by (auto simp add: parseToken_def caseOpenBlock_def reportBlock_def Let_def)

lemma step_close_gen:
  assumes "Token.type t = CloseBlock" "expectNextKey_' p = None" "expect_' p AND Expect_Close \<noteq> 0"
    and "(if length (values_' p) > 0 then reportProperty D p else Inr p) = Inr p1"
    and "array_' p1 = None"
    and "(if inProp70Block_' p1 then Inr (p1\<lparr>inProp70Block_' := False\<rparr>)
          else if depth_' p1 \<le> skippingUntilDepth_' p1 then
            (case endBlockD D (delegate_' p1) of Inl e \<Rightarrow> Inl e
             | Inr d \<Rightarrow> Inr (p1\<lparr>delegate_' := d\<rparr>))
          else Inr p1) = Inr p2"
  shows "parseToken J D t p =
    Inr (False,
      p2\<lparr>depth_' := depth_' p2 - 1,
         skippingUntilDepth_' := (if depth_' p2 - 1 = skippingUntilDepth_' p2 then 1000
                                  else skippingUntilDepth_' p2),
         expect_' := closeExpect (depth_' p2 - 1)\<rparr>)"
  using assms
  by (simp add: parseToken_def caseCloseBlock_def Let_def closeExpect_def)

lemma step_close:
  assumes "Token.type t = CloseBlock" "ready b p" "depth_' p > 0"
  shows "parseToken J (recorder a) t p =
    Inr (False,
      (flushed p)\<lparr>inProp70Block_' := False,
        delegate_' := hist p @ (if \<not> b \<and> depth_' p \<le> skippingUntilDepth_' p
                                then [EndBlockCall] else []),
        depth_' := depth_' p - 1,
        skippingUntilDepth_' := (if depth_' p - 1 = skippingUntilDepth_' p then 1000
                                 else skippingUntilDepth_' p),
        expect_' := closeExpect (depth_' p - 1)\<rparr>)"
proof -
  have r: "expectNextKey_' p = None" "array_' p = None" "inProp70Block_' p = b"
    "expect_' p AND Expect_Close \<noteq> 0" "pendingOK p"
    using assms(2,3) by (simp_all add: ready_def)
  let ?p2 = "(flushed p)\<lparr>inProp70Block_' := False,
        delegate_' := hist p @ (if \<not> b \<and> depth_' p \<le> skippingUntilDepth_' p
                                then [EndBlockCall] else [])\<rparr>"
  have e: "(if inProp70Block_' (flushed p) then Inr ((flushed p)\<lparr>inProp70Block_' := False\<rparr>)
          else if depth_' (flushed p) \<le> skippingUntilDepth_' (flushed p) then
            (case endBlockD (recorder a) (delegate_' (flushed p)) of Inl e \<Rightarrow> Inl e
             | Inr d \<Rightarrow> Inr ((flushed p)\<lparr>delegate_' := d\<rparr>))
          else Inr (flushed p)) = Inr ?p2"
    using r(3) by (cases b) (simp_all add: recorder_def flushed_def)
  have "array_' (flushed p) = None" using r(2) by simp
  from step_close_gen [OF assms(1) r(1) r(4) flush_recorder [OF r(5)] this e, where J = J]
  show ?thesis by simp
qed

lemma hist_empty: "values_' p = [] \<Longrightarrow> hist p = delegate_' p"
  by (simp add: hist_def pendingEvents_def)

lemma hist_skipping: "skippingUntilDepth_' p < depth_' p \<Longrightarrow> hist p = delegate_' p"
  by (simp add: hist_def pendingEvents_def)

lemma runs_props:
  assumes "propsTokens ts ps" "ready True p"
  shows "\<exists>p'. runsTo J (recorder a) ts p p' \<and> ready True p' \<and> depth_' p' = depth_' p
           \<and> skippingUntilDepth_' p' = skippingUntilDepth_' p
           \<and> hist p' = hist p @ (if depth_' p \<le> skippingUntilDepth_' p
                                  then map p70Event ps else [])"
  using assms
proof (induction arbitrary: p rule: propsTokens.induct)
  case none
  then show ?case using runsTo_Nil [of J "recorder a" p] by auto
next
  case (more tk vts nm tn payload ts ps)
  let ?vs = "VString nm # VString tn # payload"
  let ?p1 = "(flushed p)\<lparr>values_' := VString ''P'' # ?vs, expect_' := afterValue (depth_' p),
                          expectNextKey_' := None\<rparr>"
  have ip: "interpretProp70P ?vs =
     Inr \<lparr>name = nm, typeName = tn, type = typeHint tn, values' = drop 4 ?vs\<rparr>"
    using more.hyps(3) by (rule interpretProp70P_wf)
  have run1: "runsTo J (recorder a) (tk # vts) p ?p1"
    using more.hyps(1,2) more.prems by (intro runsTo_prop) simp_all
  have rdy1: "ready True ?p1"
    using more.prems ip by (intro ready_after_prop) simp_all
  have "inProp70Block_' p" using more.prems by (simp add: ready_def)
  then have h1: "hist ?p1 = hist p @ (if depth_' p \<le> skippingUntilDepth_' p
                                      then [p70Event (nm, tn, payload)] else [])"
    using ip by (simp add: hist_after_prop pendingEvents_def p70Event_def)
  obtain p' where p': "runsTo J (recorder a) ts ?p1 p'" "ready True p'"
    "depth_' p' = depth_' ?p1" "skippingUntilDepth_' p' = skippingUntilDepth_' ?p1"
    "hist p' = hist ?p1 @ (if depth_' ?p1 \<le> skippingUntilDepth_' ?p1 then map p70Event ps else [])"
    using more.IH [OF rdy1] by blast
  have "runsTo J (recorder a) ((tk # vts) @ ts) p p'"
    using run1 p'(1) by (rule runsTo_append)
  moreover have "hist p' = hist p @ (if depth_' p \<le> skippingUntilDepth_' p
                                     then map p70Event ((nm, tn, payload) # ps) else [])"
    using p'(5) h1 by simp
  ultimately show ?case using p'(2,3,4) by auto
qed

text \<open>
  The invariant of the refinement: from a state between two items, the tokens of an item
  list are consumed and the delegate has received the expected calls (when no block is
  being skipped), or no call at all (inside a skipped block).
\<close>

definition okItems ::
  "js \<Rightarrow> (event list \<Rightarrow> string \<Rightarrow> FBXValue list \<Rightarrow> FBXBlockAction) \<Rightarrow> Token list \<Rightarrow> item list \<Rightarrow> bool" where
  "okItems J a ts its \<longleftrightarrow>
     (\<forall>p. ready False p \<longrightarrow> skippingUntilDepth_' p = 1000 \<longrightarrow>
          depth_' p + int (heights its) \<le> 1000 \<longrightarrow>
          (\<exists>p'. runsTo J (recorder a) ts p p' \<and> ready False p' \<and> depth_' p' = depth_' p
                \<and> skippingUntilDepth_' p' = 1000 \<and> hist p' = itemsEvents J a its (hist p)))"

definition okSkipped ::
  "js \<Rightarrow> (event list \<Rightarrow> string \<Rightarrow> FBXValue list \<Rightarrow> FBXBlockAction) \<Rightarrow> Token list \<Rightarrow> bool" where
  "okSkipped J a ts \<longleftrightarrow>
     (\<forall>p. ready False p \<longrightarrow> skippingUntilDepth_' p < depth_' p \<longrightarrow>
          (\<exists>p'. runsTo J (recorder a) ts p p' \<and> ready False p' \<and> depth_' p' = depth_' p
                \<and> skippingUntilDepth_' p' = skippingUntilDepth_' p
                \<and> delegate_' p' = delegate_' p))"

lemma okItemsI:
  assumes "\<And>p. ready False p \<Longrightarrow> skippingUntilDepth_' p = 1000 \<Longrightarrow>
          depth_' p + int (heights its) \<le> 1000 \<Longrightarrow>
          \<exists>p'. runsTo J (recorder a) ts p p' \<and> ready False p' \<and> depth_' p' = depth_' p
                \<and> skippingUntilDepth_' p' = 1000 \<and> hist p' = itemsEvents J a its (hist p)"
  shows "okItems J a ts its"
  using assms by (simp add: okItems_def)

lemma okItemsD:
  assumes "okItems J a ts its" "ready False p" "skippingUntilDepth_' p = 1000"
    "depth_' p + int (heights its) \<le> 1000"
  obtains p' where "runsTo J (recorder a) ts p p'" "ready False p'" "depth_' p' = depth_' p"
    "skippingUntilDepth_' p' = 1000" "hist p' = itemsEvents J a its (hist p)"
  using assms unfolding okItems_def by blast

lemma okSkippedI:
  assumes "\<And>p. ready False p \<Longrightarrow> skippingUntilDepth_' p < depth_' p \<Longrightarrow>
          \<exists>p'. runsTo J (recorder a) ts p p' \<and> ready False p' \<and> depth_' p' = depth_' p
                \<and> skippingUntilDepth_' p' = skippingUntilDepth_' p
                \<and> delegate_' p' = delegate_' p"
  shows "okSkipped J a ts"
  using assms by (simp add: okSkipped_def)

lemma okSkippedD:
  assumes "okSkipped J a ts" "ready False p" "skippingUntilDepth_' p < depth_' p"
  obtains p' where "runsTo J (recorder a) ts p p'" "ready False p'" "depth_' p' = depth_' p"
    "skippingUntilDepth_' p' = skippingUntilDepth_' p" "delegate_' p' = delegate_' p"
  using assms unfolding okSkipped_def by blast

definition okItem ::
  "js \<Rightarrow> (event list \<Rightarrow> string \<Rightarrow> FBXValue list \<Rightarrow> FBXBlockAction) \<Rightarrow> Token list \<Rightarrow> item \<Rightarrow> bool" where
  "okItem J a ts it \<longleftrightarrow>
     (\<forall>p. ready False p \<longrightarrow>
        (skippingUntilDepth_' p = 1000 \<longrightarrow> depth_' p + int (height it) \<le> 1000 \<longrightarrow>
           (\<exists>p'. runsTo J (recorder a) ts p p' \<and> ready False p' \<and> depth_' p' = depth_' p
                 \<and> skippingUntilDepth_' p' = 1000 \<and> hist p' = itemEvents J a it (hist p)))
        \<and> (skippingUntilDepth_' p < depth_' p \<longrightarrow>
           (\<exists>p'. runsTo J (recorder a) ts p p' \<and> ready False p' \<and> depth_' p' = depth_' p
                 \<and> skippingUntilDepth_' p' = skippingUntilDepth_' p
                 \<and> delegate_' p' = delegate_' p)))"

lemma okItemI:
  assumes "\<And>p. ready False p \<Longrightarrow> skippingUntilDepth_' p = 1000 \<Longrightarrow>
             depth_' p + int (height it) \<le> 1000 \<Longrightarrow>
             \<exists>p'. runsTo J (recorder a) ts p p' \<and> ready False p' \<and> depth_' p' = depth_' p
                 \<and> skippingUntilDepth_' p' = 1000 \<and> hist p' = itemEvents J a it (hist p)"
    and "\<And>p. ready False p \<Longrightarrow> skippingUntilDepth_' p < depth_' p \<Longrightarrow>
             \<exists>p'. runsTo J (recorder a) ts p p' \<and> ready False p' \<and> depth_' p' = depth_' p
                 \<and> skippingUntilDepth_' p' = skippingUntilDepth_' p
                 \<and> delegate_' p' = delegate_' p"
  shows "okItem J a ts it"
  using assms unfolding okItem_def by blast

lemma okItem_Cons:
  assumes it: "okItem J a toks it" and its: "okItems J a ts its" and sk: "okSkipped J a ts"
  shows "okItems J a (toks @ ts) (it # its) \<and> okSkipped J a (toks @ ts)"
proof
  show "okItems J a (toks @ ts) (it # its)"
  proof (rule okItemsI)
    fix p :: "(event list) FBXTextParser"
    assume p: "ready False p" "skippingUntilDepth_' p = 1000"
      "depth_' p + int (heights (it # its)) \<le> 1000"
    then have "depth_' p + int (height it) \<le> 1000" "depth_' p + int (heights its) \<le> 1000"
      by simp_all
    with it p obtain p1 where p1: "runsTo J (recorder a) toks p p1" "ready False p1"
      "depth_' p1 = depth_' p" "skippingUntilDepth_' p1 = 1000"
      "hist p1 = itemEvents J a it (hist p)"
      unfolding okItem_def by blast
    from okItemsD [OF its p1(2) p1(4)] p1(3) \<open>depth_' p + int (heights its) \<le> 1000\<close>
    obtain p2 where p2: "runsTo J (recorder a) ts p1 p2" "ready False p2"
      "depth_' p2 = depth_' p1" "skippingUntilDepth_' p2 = 1000"
      "hist p2 = itemsEvents J a its (hist p1)"
      by auto
    have "runsTo J (recorder a) (toks @ ts) p p2"
      using p1(1) p2(1) by (rule runsTo_append)
    with p1 p2 show "\<exists>p'. runsTo J (recorder a) (toks @ ts) p p' \<and> ready False p'
        \<and> depth_' p' = depth_' p \<and> skippingUntilDepth_' p' = 1000
        \<and> hist p' = itemsEvents J a (it # its) (hist p)"
      by auto
  qed
  show "okSkipped J a (toks @ ts)"
  proof (rule okSkippedI)
    fix p :: "(event list) FBXTextParser"
    assume p: "ready False p" "skippingUntilDepth_' p < depth_' p"
    with it obtain p1 where p1: "runsTo J (recorder a) toks p p1" "ready False p1"
      "depth_' p1 = depth_' p" "skippingUntilDepth_' p1 = skippingUntilDepth_' p"
      "delegate_' p1 = delegate_' p"
      unfolding okItem_def by blast
    from okSkippedD [OF sk p1(2)] p1(3,4) p(2)
    obtain p2 where p2: "runsTo J (recorder a) ts p1 p2" "ready False p2"
      "depth_' p2 = depth_' p1" "skippingUntilDepth_' p2 = skippingUntilDepth_' p1"
      "delegate_' p2 = delegate_' p1"
      by auto
    have "runsTo J (recorder a) (toks @ ts) p p2"
      using p1(1) p2(1) by (rule runsTo_append)
    with p1 p2 show "\<exists>p'. runsTo J (recorder a) (toks @ ts) p p' \<and> ready False p'
        \<and> depth_' p' = depth_' p \<and> skippingUntilDepth_' p' = skippingUntilDepth_' p
        \<and> delegate_' p' = delegate_' p"
      by auto
  qed
qed

lemma okItem_prop:
  assumes "isKeyTok k tk" "k \<noteq> ''a''" "valuesTokens vts vs"
  shows "okItem J a (tk # vts) (Prop k vs)"
proof (rule okItemI)
  fix p :: "(event list) FBXTextParser"
  assume p: "ready False p"
  let ?p1 = "(flushed p)\<lparr>values_' := VString k # vs, expect_' := afterValue (depth_' p),
                          expectNextKey_' := None\<rparr>"
  have run: "runsTo J (recorder a) (tk # vts) p ?p1"
    by (rule runsTo_prop [OF assms p])
  have rdy: "ready False ?p1"
    using p by (intro ready_after_prop) simp_all
  have np: "\<not> inProp70Block_' p" using p by (simp add: ready_def)
  {
    assume "skippingUntilDepth_' p = 1000" "depth_' p + int (height (Prop k vs)) \<le> 1000"
    then have "hist ?p1 = itemEvents J a (Prop k vs) (hist p)"
      using np by (simp add: hist_after_prop pendingEvents_def)
    with run rdy \<open>skippingUntilDepth_' p = 1000\<close>
    show "\<exists>p'. runsTo J (recorder a) (tk # vts) p p' \<and> ready False p' \<and> depth_' p' = depth_' p
        \<and> skippingUntilDepth_' p' = 1000 \<and> hist p' = itemEvents J a (Prop k vs) (hist p)"
      by (intro exI [of _ ?p1]) simp
  }
  {
    assume s: "skippingUntilDepth_' p < depth_' p"
    then have "delegate_' ?p1 = delegate_' p"
      by (simp add: hist_skipping)
    with run rdy
    show "\<exists>p'. runsTo J (recorder a) (tk # vts) p p' \<and> ready False p' \<and> depth_' p' = depth_' p
        \<and> skippingUntilDepth_' p' = skippingUntilDepth_' p \<and> delegate_' p' = delegate_' p"
      by (intro exI [of _ ?p1]) simp
  }
qed

lemma okItem_arr:
  assumes "isKeyTok k tk" "k \<noteq> ''a''" "Token.type tc = ArrayCount"
    "val tc = Some (NumVal (Fin (real (length ns))))" "Token.type topen = OpenBlock"
    "isKeyTok ''a'' ta" "numbersTokens nts ns" "Token.type tclose = CloseBlock"
  shows "okItem J a (tk # tc # topen # ta # nts @ [tclose]) (Arr k ns)"
proof (rule okItemI)
  fix p :: "(event list) FBXTextParser"
  assume p: "ready False p"
  let ?ev = "(if depth_' p + 1 \<le> skippingUntilDepth_' p
              then [PropertyCall k [VTypedArray (typedArrayOf J k ns)]] else [])"
  let ?p1 = "p\<lparr>values_' := [], delegate_' := hist p @ ?ev,
         expect_' := closeExpect (depth_' p),
         arrayIndex_' := int (length ns), arrayLength_' := int (length ns),
         array_' := None, expectNextKey_' := None\<rparr>"
  have run: "runsTo J (recorder a) (tk # tc # topen # ta # nts @ [tclose]) p ?p1"
    if "depth_' p + 1 \<le> skippingUntilDepth_' p \<or> skippingUntilDepth_' p < depth_' p"
    unfolding runsTo_def
    using run_array [OF assms p that, where J = J and a = a]
    by (simp add: storeAll_arrayForKey)
  have rdy: "ready False ?p1"
    using p by (simp add: ready_def pendingOK_def)
  have h: "hist ?p1 = hist p @ ?ev"
    by (simp add: hist_empty)
  {
    assume m: "skippingUntilDepth_' p = 1000" "depth_' p + int (height (Arr k ns)) \<le> 1000"
    then have "depth_' p + 1 \<le> skippingUntilDepth_' p" by simp
    with run h rdy m(1)
    show "\<exists>p'. runsTo J (recorder a) (tk # tc # topen # ta # nts @ [tclose]) p p'
        \<and> ready False p' \<and> depth_' p' = depth_' p
        \<and> skippingUntilDepth_' p' = 1000 \<and> hist p' = itemEvents J a (Arr k ns) (hist p)"
      by (intro exI [of _ ?p1]) simp
  }
  {
    assume s: "skippingUntilDepth_' p < depth_' p"
    then have "delegate_' ?p1 = delegate_' p" by (simp add: hist_skipping)
    with run rdy s
    show "\<exists>p'. runsTo J (recorder a) (tk # tc # topen # ta # nts @ [tclose]) p p'
        \<and> ready False p' \<and> depth_' p' = depth_' p
        \<and> skippingUntilDepth_' p' = skippingUntilDepth_' p \<and> delegate_' p' = delegate_' p"
      by (intro exI [of _ ?p1]) simp
  }
qed

lemma ready_after_close:
  assumes "ready b p" "depth_' p > 0"
  shows "ready False ((flushed p)\<lparr>inProp70Block_' := False, delegate_' := X,
            depth_' := depth_' p - 1, skippingUntilDepth_' := S,
            expect_' := closeExpect (depth_' p - 1)\<rparr>)"
  using assms by (simp add: ready_def pendingOK_def)

lemma runsTo_close:
  assumes "Token.type t = CloseBlock" "ready b p" "depth_' p > 0"
  shows "runsTo J (recorder a) [t] p
      ((flushed p)\<lparr>inProp70Block_' := False,
        delegate_' := hist p @ (if \<not> b \<and> depth_' p \<le> skippingUntilDepth_' p
                                then [EndBlockCall] else []),
        depth_' := depth_' p - 1,
        skippingUntilDepth_' := (if depth_' p - 1 = skippingUntilDepth_' p then 1000
                                 else skippingUntilDepth_' p),
        expect_' := closeExpect (depth_' p - 1)\<rparr>)"
proof -
  have "\<not> eof_' p" using assms(2) by (simp add: ready_def)
  then show ?thesis
    using step_close [OF assms, where J = J and a = a] by (intro runsTo_one) simp_all
qed

lemma runsTo_block_head:
  assumes "isKeyTok k tk" "k \<noteq> ''a''" "valuesTokens vts vs \<or> (vts = [] \<and> vs = [])" "ready b p"
  shows "\<exists>E. E AND Expect_Open \<noteq> 0 \<and>
     runsTo J (recorder a) (tk # vts) p
       ((flushed p)\<lparr>values_' := VString k # vs, expect_' := E, expectNextKey_' := None\<rparr>)"
proof (cases "valuesTokens vts vs")
  case True
  then show ?thesis
    using runsTo_prop [OF assms(1,2) True assms(4), where J = J and a = a]
    by (intro exI [of _ "afterValue (depth_' p)"]) simp
next
  case False
  with assms(3) have "vts = []" "vs = []" by simp_all
  then show ?thesis
    using runsTo_key [OF assms(1,2,4), where J = J and a = a]
    by (intro exI [of _ Expect_ValueOrOpen]) simp
qed

lemma okItem_blk:
  assumes tk: "isKeyTok k tk" "k \<noteq> ''a''" and k70: "k \<noteq> ''Properties70''"
    and vts: "valuesTokens vts vs \<or> (vts = [] \<and> vs = [])"
    and topen: "Token.type topen = OpenBlock" and tclose: "Token.type tclose = CloseBlock"
    and body: "okItems J a body bits" and bodySk: "okSkipped J a body"
  shows "okItem J a (tk # vts @ topen # body @ [tclose]) (Blk k vs bits)"
proof (rule okItemI)
  fix p :: "(event list) FBXTextParser"
  assume p: "ready False p"
  have r: "array_' p = None" "\<not> eof_' p" "\<not> inProp70Block_' p" "0 \<le> depth_' p"
    using p by (simp_all add: ready_def)
  obtain E where E: "E AND Expect_Open \<noteq> 0"
    and run1: "runsTo J (recorder a) (tk # vts) p
       ((flushed p)\<lparr>values_' := VString k # vs, expect_' := E, expectNextKey_' := None\<rparr>)"
    using runsTo_block_head [OF tk vts p, where J = J and a = a] by blast
  let ?q = "(flushed p)\<lparr>values_' := VString k # vs, expect_' := E, expectNextKey_' := None\<rparr>"
  let ?act = "a (hist p) k vs"
  let ?q2 = "?q\<lparr>values_' := [],
        delegate_' := (if depth_' p \<le> skippingUntilDepth_' p
                       then hist p @ [BlockCall k vs ?act] else hist p),
        skippingUntilDepth_' := (if depth_' p \<le> skippingUntilDepth_' p \<and> ?act = Skip
                                 then depth_' p else skippingUntilDepth_' p),
        depth_' := depth_' p + 1,
        expect_' := Expect_Key OR Expect_Close\<rparr>"
  have "parseToken J (recorder a) topen ?q = Inr (False, ?q2)"
    using step_open_block [OF topen, where q = ?q and k = k and vs = vs and a = a and J = J]
      E r(1) k70 by simp
  then have run2: "runsTo J (recorder a) [topen] ?q ?q2"
    using r(2) by (intro runsTo_one) simp_all
  have rdy2: "ready False ?q2"
    using p by (simp add: ready_def pendingOK_def)
  have h2: "hist ?q2 = delegate_' ?q2"
    by (simp add: hist_empty)
  have toks: "tk # vts @ topen # body @ [tclose] = (tk # vts) @ [topen] @ body @ [tclose]"
    by simp
  {
    assume m: "skippingUntilDepth_' p = 1000" "depth_' p + int (height (Blk k vs bits)) \<le> 1000"
    then have d: "depth_' p \<le> skippingUntilDepth_' p" "depth_' p + 1 + int (heights bits) \<le> 1000"
      by simp_all
    show "\<exists>p'. runsTo J (recorder a) (tk # vts @ topen # body @ [tclose]) p p'
        \<and> ready False p' \<and> depth_' p' = depth_' p
        \<and> skippingUntilDepth_' p' = 1000 \<and> hist p' = itemEvents J a (Blk k vs bits) (hist p)"
    proof (cases "?act = Skip")
      case True
      have sk2: "skippingUntilDepth_' ?q2 < depth_' ?q2" using d True by simp
      from okSkippedD [OF bodySk rdy2 sk2]
      obtain p3 where p3: "runsTo J (recorder a) body ?q2 p3" "ready False p3"
        "depth_' p3 = depth_' ?q2" "skippingUntilDepth_' p3 = skippingUntilDepth_' ?q2"
        "delegate_' p3 = delegate_' ?q2"
        by blast
      have d3: "depth_' p3 = depth_' p + 1" "skippingUntilDepth_' p3 = depth_' p"
        using p3(3,4) d True by simp_all
      then have pos: "depth_' p3 > 0" using r(4) by simp
      have h3: "hist p3 = hist p @ [BlockCall k vs Skip]"
        using hist_skipping [of p3] d3 p3(5) d True by simp
      let ?p4 = "(flushed p3)\<lparr>inProp70Block_' := False,
          delegate_' := hist p3 @ (if \<not> False \<and> depth_' p3 \<le> skippingUntilDepth_' p3
                                   then [EndBlockCall] else []),
          depth_' := depth_' p3 - 1,
          skippingUntilDepth_' := (if depth_' p3 - 1 = skippingUntilDepth_' p3 then 1000
                                   else skippingUntilDepth_' p3),
          expect_' := closeExpect (depth_' p3 - 1)\<rparr>"
      have run4: "runsTo J (recorder a) [tclose] p3 ?p4"
        by (rule runsTo_close [OF tclose p3(2) pos])
      have rdy4: "ready False ?p4"
        by (rule ready_after_close [OF p3(2) pos])
      have "runsTo J (recorder a) ((tk # vts) @ [topen] @ body @ [tclose]) p ?p4"
        by (intro runsTo_append [OF run1] runsTo_append [OF run2] runsTo_append [OF p3(1)] run4)
      moreover have "hist ?p4 = itemEvents J a (Blk k vs bits) (hist p)"
        using h3 d3 True by (simp add: hist_empty)
      moreover have "depth_' ?p4 = depth_' p" "skippingUntilDepth_' ?p4 = 1000"
        using d3 by simp_all
      ultimately show ?thesis using rdy4 unfolding toks by blast
    next
      case False
      have ns2: "skippingUntilDepth_' ?q2 = 1000" "depth_' ?q2 + int (heights bits) \<le> 1000"
        using d m(1) False by simp_all
      from okItemsD [OF body rdy2 ns2]
      obtain p3 where p3: "runsTo J (recorder a) body ?q2 p3" "ready False p3"
        "depth_' p3 = depth_' ?q2" "skippingUntilDepth_' p3 = 1000"
        "hist p3 = itemsEvents J a bits (hist ?q2)"
        by blast
      have d3: "depth_' p3 = depth_' p + 1"
        using p3(3) by simp
      then have pos: "depth_' p3 > 0" using r(4) by simp
      have h3: "hist p3 = itemsEvents J a bits (hist p @ [BlockCall k vs ?act])"
        using p3(5) h2 d by simp
      let ?p4 = "(flushed p3)\<lparr>inProp70Block_' := False,
          delegate_' := hist p3 @ (if \<not> False \<and> depth_' p3 \<le> skippingUntilDepth_' p3
                                   then [EndBlockCall] else []),
          depth_' := depth_' p3 - 1,
          skippingUntilDepth_' := (if depth_' p3 - 1 = skippingUntilDepth_' p3 then 1000
                                   else skippingUntilDepth_' p3),
          expect_' := closeExpect (depth_' p3 - 1)\<rparr>"
      have run4: "runsTo J (recorder a) [tclose] p3 ?p4"
        by (rule runsTo_close [OF tclose p3(2) pos])
      have rdy4: "ready False ?p4"
        by (rule ready_after_close [OF p3(2) pos])
      have "runsTo J (recorder a) ((tk # vts) @ [topen] @ body @ [tclose]) p ?p4"
        by (intro runsTo_append [OF run1] runsTo_append [OF run2] runsTo_append [OF p3(1)] run4)
      moreover have "hist ?p4 = itemEvents J a (Blk k vs bits) (hist p)"
        using h3 d3 p3(4) d(2) False by (simp add: hist_empty)
      moreover have "depth_' ?p4 = depth_' p" "skippingUntilDepth_' ?p4 = 1000"
        using d3 p3(4) by simp_all
      ultimately show ?thesis using rdy4 unfolding toks by blast
    qed
  }
  {
    assume s: "skippingUntilDepth_' p < depth_' p"
    have sk2: "skippingUntilDepth_' ?q2 < depth_' ?q2" using s by simp
    from okSkippedD [OF bodySk rdy2 sk2]
    obtain p3 where p3: "runsTo J (recorder a) body ?q2 p3" "ready False p3"
      "depth_' p3 = depth_' ?q2" "skippingUntilDepth_' p3 = skippingUntilDepth_' ?q2"
      "delegate_' p3 = delegate_' ?q2"
      by blast
    have d3: "depth_' p3 = depth_' p + 1" "skippingUntilDepth_' p3 = skippingUntilDepth_' p"
      using p3(3,4) s by simp_all
    then have pos: "depth_' p3 > 0" using r(4) by simp
    have h3: "hist p3 = delegate_' p"
      using hist_skipping [of p3] hist_skipping [OF s] d3 p3(5) s by simp
    let ?p4 = "(flushed p3)\<lparr>inProp70Block_' := False,
        delegate_' := hist p3 @ (if \<not> False \<and> depth_' p3 \<le> skippingUntilDepth_' p3
                                 then [EndBlockCall] else []),
        depth_' := depth_' p3 - 1,
        skippingUntilDepth_' := (if depth_' p3 - 1 = skippingUntilDepth_' p3 then 1000
                                 else skippingUntilDepth_' p3),
        expect_' := closeExpect (depth_' p3 - 1)\<rparr>"
    have run4: "runsTo J (recorder a) [tclose] p3 ?p4"
      by (rule runsTo_close [OF tclose p3(2) pos])
    have rdy4: "ready False ?p4"
      by (rule ready_after_close [OF p3(2) pos])
    have "runsTo J (recorder a) ((tk # vts) @ [topen] @ body @ [tclose]) p ?p4"
      by (intro runsTo_append [OF run1] runsTo_append [OF run2] runsTo_append [OF p3(1)] run4)
    moreover have "delegate_' ?p4 = delegate_' p"
      using h3 d3 s by simp
    moreover have "depth_' ?p4 = depth_' p" "skippingUntilDepth_' ?p4 = skippingUntilDepth_' p"
      using d3 s by simp_all
    ultimately show "\<exists>p'. runsTo J (recorder a) (tk # vts @ topen # body @ [tclose]) p p'
        \<and> ready False p' \<and> depth_' p' = depth_' p
        \<and> skippingUntilDepth_' p' = skippingUntilDepth_' p \<and> delegate_' p' = delegate_' p"
      using rdy4 unfolding toks by blast
  }
qed

lemma run_p70:
  assumes tk: "isKeyTok ''Properties70'' tk"
    and topen: "Token.type topen = OpenBlock" and tclose: "Token.type tclose = CloseBlock"
    and body: "propsTokens body ps"
    and p: "ready False p"
  shows "\<exists>p'. runsTo J (recorder a) (tk # topen # body @ [tclose]) p p' \<and> ready False p'
       \<and> values_' p' = [] \<and> depth_' p' = depth_' p
       \<and> skippingUntilDepth_' p' = (if depth_' p = skippingUntilDepth_' p then 1000
                                     else skippingUntilDepth_' p)
       \<and> delegate_' p' = hist p @ (if depth_' p + 1 \<le> skippingUntilDepth_' p
                                     then map p70Event ps else [])"
proof -
  have r: "array_' p = None" "\<not> eof_' p" "\<not> inProp70Block_' p" "0 \<le> depth_' p"
    using p by (simp_all add: ready_def)
  let ?q = "(flushed p)\<lparr>values_' := [VString ''Properties70''], expect_' := Expect_ValueOrOpen,
                         expectNextKey_' := None\<rparr>"
  have run1: "runsTo J (recorder a) [tk] p ?q"
    using tk p by (intro runsTo_key) simp_all
  let ?q2 = "?q\<lparr>inProp70Block_' := True, values_' := [], depth_' := depth_' p + 1,
                 expect_' := Expect_Key OR Expect_Close\<rparr>"
  have "parseToken J (recorder a) topen ?q = Inr (False, ?q2)"
    using step_open_p70 [OF topen, where q = ?q and vs = "[]" and J = J and D = "recorder a"] r(1)
    by simp
  then have run2: "runsTo J (recorder a) [topen] ?q ?q2"
    using r(2) by (intro runsTo_one) simp_all
  have rdy2: "ready True ?q2"
    using p by (simp add: ready_def pendingOK_def)
  have h2: "hist ?q2 = hist p"
    by (simp add: hist_empty)
  obtain p3 where p3: "runsTo J (recorder a) body ?q2 p3" "ready True p3"
    "depth_' p3 = depth_' ?q2" "skippingUntilDepth_' p3 = skippingUntilDepth_' ?q2"
    "hist p3 = hist ?q2 @ (if depth_' ?q2 \<le> skippingUntilDepth_' ?q2
                           then map p70Event ps else [])"
    using runs_props [OF body rdy2, where J = J and a = a] by blast
  have d3: "depth_' p3 = depth_' p + 1" "skippingUntilDepth_' p3 = skippingUntilDepth_' p"
    using p3(3,4) by simp_all
  then have pos: "depth_' p3 > 0" using r(4) by simp
  have h3: "hist p3 = hist p @ (if depth_' p + 1 \<le> skippingUntilDepth_' p
                                then map p70Event ps else [])"
    using p3(5) h2 by simp
  let ?p4 = "(flushed p3)\<lparr>inProp70Block_' := False,
      delegate_' := hist p3 @ (if \<not> True \<and> depth_' p3 \<le> skippingUntilDepth_' p3
                               then [EndBlockCall] else []),
      depth_' := depth_' p3 - 1,
      skippingUntilDepth_' := (if depth_' p3 - 1 = skippingUntilDepth_' p3 then 1000
                               else skippingUntilDepth_' p3),
      expect_' := closeExpect (depth_' p3 - 1)\<rparr>"
  have run4: "runsTo J (recorder a) [tclose] p3 ?p4"
    by (rule runsTo_close [OF tclose p3(2) pos])
  have rdy4: "ready False ?p4"
    by (rule ready_after_close [OF p3(2) pos])
  have toks: "tk # topen # body @ [tclose] = [tk] @ [topen] @ body @ [tclose]"
    by simp
  have run: "runsTo J (recorder a) (tk # topen # body @ [tclose]) p ?p4"
    unfolding toks
    by (intro runsTo_append [OF run1] runsTo_append [OF run2] runsTo_append [OF p3(1)] run4)
  have "values_' ?p4 = []" "depth_' ?p4 = depth_' p"
    "skippingUntilDepth_' ?p4 = (if depth_' p = skippingUntilDepth_' p then 1000
                                 else skippingUntilDepth_' p)"
    "delegate_' ?p4 = hist p @ (if depth_' p + 1 \<le> skippingUntilDepth_' p
                                then map p70Event ps else [])"
    using d3 h3 by simp_all
  with run rdy4 show ?thesis by blast
qed

lemma okItem_p70:
  assumes tk: "isKeyTok ''Properties70'' tk"
    and topen: "Token.type topen = OpenBlock" and tclose: "Token.type tclose = CloseBlock"
    and body: "propsTokens body ps"
  shows "okItem J a (tk # topen # body @ [tclose]) (P70 ps)"
proof (rule okItemI)
  fix p :: "(event list) FBXTextParser"
  assume p: "ready False p"
  obtain p' where p': "runsTo J (recorder a) (tk # topen # body @ [tclose]) p p'"
    "ready False p'" "values_' p' = []" "depth_' p' = depth_' p"
    "skippingUntilDepth_' p' = (if depth_' p = skippingUntilDepth_' p then 1000
                                else skippingUntilDepth_' p)"
    "delegate_' p' = hist p @ (if depth_' p + 1 \<le> skippingUntilDepth_' p
                               then map p70Event ps else [])"
    using run_p70 [OF tk topen tclose body p, where J = J and a = a] by blast
  have h: "hist p' = delegate_' p'"
    using p'(3) by (simp add: hist_empty)
  {
    assume m: "skippingUntilDepth_' p = 1000" "depth_' p + int (height (P70 ps)) \<le> 1000"
    then have "hist p' = itemEvents J a (P70 ps) (hist p)" "skippingUntilDepth_' p' = 1000"
      using h p'(5,6) by simp_all
    then show "\<exists>p'. runsTo J (recorder a) (tk # topen # body @ [tclose]) p p'
        \<and> ready False p' \<and> depth_' p' = depth_' p
        \<and> skippingUntilDepth_' p' = 1000 \<and> hist p' = itemEvents J a (P70 ps) (hist p)"
      using p'(1,2,4) by blast
  }
  {
    assume s: "skippingUntilDepth_' p < depth_' p"
    then have "delegate_' p' = delegate_' p" "skippingUntilDepth_' p' = skippingUntilDepth_' p"
      using p'(5,6) hist_skipping [OF s] by simp_all
    then show "\<exists>p'. runsTo J (recorder a) (tk # topen # body @ [tclose]) p p'
        \<and> ready False p' \<and> depth_' p' = depth_' p
        \<and> skippingUntilDepth_' p' = skippingUntilDepth_' p \<and> delegate_' p' = delegate_' p"
      using p'(1,2,4) by blast
  }
qed

lemma items_ok:
  "itemsTokens ts its \<Longrightarrow> okItems J a ts its \<and> okSkipped J a ts"
proof (induction rule: itemsTokens.induct)
  case none
  show ?case
  proof
    show "okItems J a [] []"
      by (rule okItemsI) (use runsTo_Nil in fastforce)
    show "okSkipped J a []"
      by (rule okSkippedI) (use runsTo_Nil in fastforce)
  qed
next
  case (property k tk vts vs ts its)
  have "okItem J a (tk # vts) (Prop k vs)"
    by (rule okItem_prop [OF property.hyps(1-3)])
  from okItem_Cons [OF this conjunct1 [OF property.IH] conjunct2 [OF property.IH]]
  show ?case by simp
next
  case (array k tk tc ns topen ta nts tclose ts its)
  have "okItem J a (tk # tc # topen # ta # nts @ [tclose]) (Arr k ns)"
    by (rule okItem_arr [OF array.hyps(1-8)])
  from okItem_Cons [OF this conjunct1 [OF array.IH] conjunct2 [OF array.IH]]
  show ?case by simp
next
  case (block k tk vts vs topen body bits tclose ts its)
  have "okItem J a (tk # vts @ topen # body @ [tclose]) (Blk k vs bits)"
    using block.hyps(1-5,7) block.IH(1) by (intro okItem_blk) simp_all
  from okItem_Cons [OF this conjunct1 [OF block.IH(2)] conjunct2 [OF block.IH(2)]]
  show ?case by simp
next
  case (props70 tk topen body ps tclose ts its)
  have "okItem J a (tk # topen # body @ [tclose]) (P70 ps)"
    by (rule okItem_p70 [OF props70.hyps(1,2,4,3)])
  from okItem_Cons [OF this conjunct1 [OF props70.IH] conjunct2 [OF props70.IH]]
  show ?case by simp
qed

subsection \<open>Counting \<open>block\<close> and \<open>endBlock\<close> calls\<close>

text \<open>
  \<open>enteredCalls\<close> counts the \<open>block()\<close> calls answered \<open>Enter\<close> in the calls received by a
  delegate and \<open>endBlockCalls\<close> the \<open>endBlock()\<close> calls. \<open>enteredItems\<close> counts, in a document,
  the brace pairs of blocks that are neither skipped, nor inside a skipped block, nor
  \<open>Properties70\<close> blocks, nor array wrappers; \<open>bracePairs\<close> counts all brace pairs.
\<close>

fun isEntered :: "event \<Rightarrow> bool" where
  "isEntered (BlockCall k vs Enter) = True"
| "isEntered _ = False"

definition enteredCalls :: "event list \<Rightarrow> nat" where
  "enteredCalls h = length (filter isEntered h)"

definition endBlockCalls :: "event list \<Rightarrow> nat" where
  "endBlockCalls h = length (filter (\<lambda>e. e = EndBlockCall) h)"

fun entered ::
    "js \<Rightarrow> (event list \<Rightarrow> string \<Rightarrow> FBXValue list \<Rightarrow> FBXBlockAction) \<Rightarrow> item \<Rightarrow> event list \<Rightarrow> nat"
  and enteredItems ::
    "js \<Rightarrow> (event list \<Rightarrow> string \<Rightarrow> FBXValue list \<Rightarrow> FBXBlockAction) \<Rightarrow> item list \<Rightarrow> event list \<Rightarrow> nat"
  where
  "entered J a (Prop k vs) h = 0"
| "entered J a (Arr k ns) h = 0"
| "entered J a (Blk k vs body) h =
     (if a h k vs = Skip then 0
      else 1 + enteredItems J a body (h @ [BlockCall k vs (a h k vs)]))"
| "entered J a (P70 ps) h = 0"
| "enteredItems J a [] h = 0"
| "enteredItems J a (it # its) h = entered J a it h + enteredItems J a its (itemEvents J a it h)"

fun bracePairs :: "item \<Rightarrow> nat" and bracePairsItems :: "item list \<Rightarrow> nat" where
  "bracePairs (Prop k vs) = 0"
| "bracePairs (Arr k ns) = 1"
| "bracePairs (Blk k vs body) = 1 + bracePairsItems body"
| "bracePairs (P70 ps) = 1"
| "bracePairsItems [] = 0"
| "bracePairsItems (it # its) = bracePairs it + bracePairsItems its"

lemma p70Event_not_block: "filter isEntered (map p70Event ps) = []"
  "filter (\<lambda>e. e = EndBlockCall) (map p70Event ps) = []"
  by (induction ps) (auto simp add: p70Event_def)

lemma calls_of_events:
  "endBlockCalls (itemEvents J a it h) = endBlockCalls h + entered J a it h
   \<and> enteredCalls (itemEvents J a it h) = enteredCalls h + entered J a it h"
  "endBlockCalls (itemsEvents J a its h) = endBlockCalls h + enteredItems J a its h
   \<and> enteredCalls (itemsEvents J a its h) = enteredCalls h + enteredItems J a its h"
proof (induction J a it h and J a its h rule: itemEvents_itemsEvents.induct)
  case (1 J a k vs h)
  show ?case by (simp add: endBlockCalls_def enteredCalls_def)
next
  case (2 J a k ns h)
  show ?case by (simp add: endBlockCalls_def enteredCalls_def)
next
  case (3 J a k vs body h)
  show ?case
  proof (cases "a h k vs")
    case Skip
    then show ?thesis by (simp add: endBlockCalls_def enteredCalls_def)
  next
    case Enter
    then have "a h k vs \<noteq> Skip" by simp
    from 3 [OF this] Enter show ?thesis
      by (simp add: endBlockCalls_def enteredCalls_def)
  qed
next
  case (4 J a ps h)
  show ?case by (simp add: endBlockCalls_def enteredCalls_def p70Event_not_block)
next
  case (5 J a h)
  show ?case by simp
next
  case (6 J a it its h)
  then show ?case by simp
qed

lemma pending_cases:
  assumes "\<not> inProp70Block_' p"
  shows "pendingEvents p = [] \<or> (\<exists>k vs. pendingEvents p = [PropertyCall k vs])"
proof (cases "values_' p")
  case Nil
  then have "pendingEvents p = []" by (simp add: pendingEvents_def)
  then show ?thesis by simp
next
  case (Cons v vs)
  show ?thesis
  proof (cases v)
    case (VString k)
    with Cons assms have "pendingEvents p = [] \<or> pendingEvents p = [PropertyCall k vs]"
      by (simp add: pendingEvents_def)
    then show ?thesis by blast
  next
    case (VNumber n)
    with Cons have "pendingEvents p = []" by (simp add: pendingEvents_def)
    then show ?thesis by simp
  next
    case (VArrayBuffer n)
    with Cons have "pendingEvents p = []" by (simp add: pendingEvents_def)
    then show ?thesis by simp
  next
    case (VTypedArray n)
    with Cons have "pendingEvents p = []" by (simp add: pendingEvents_def)
    then show ?thesis by simp
  qed
qed

lemma pending_not_block:
  assumes "\<not> inProp70Block_' p"
  shows "filter isEntered (pendingEvents p) = []
       \<and> filter (\<lambda>e. e = EndBlockCall) (pendingEvents p) = []"
  using pending_cases [OF assms] by auto

lemma pendingEvents_eof [simp]: "pendingEvents (p\<lparr>eof_' := x\<rparr>) = pendingEvents p"
  by (simp add: pendingEvents_def cong: list.case_cong FBXValue.case_cong)

lemma calls_of_hist:
  "\<not> inProp70Block_' p \<Longrightarrow>
   endBlockCalls (delegate_' p) = endBlockCalls (hist p)
   \<and> enteredCalls (delegate_' p) = enteredCalls (hist p)"
  using pending_not_block [of p] by (simp add: hist_def endBlockCalls_def enteredCalls_def)

lemma ready_new: "ready False (newFBXTextParser src ([] :: event list))"
  by (simp add: ready_def newFBXTextParser_def pendingOK_def)

lemma hist_new: "hist (newFBXTextParser src ([] :: event list)) = []"
  by (simp add: hist_def pendingEvents_def newFBXTextParser_def)

lemma run_document:
  assumes "itemsTokens ts its" "heights its \<le> 1000" "Token.type teof = EOF"
  shows "\<exists>p'. parseTokens J (recorder a) (ts @ [teof]) (newFBXTextParser src []) = Inr p'
           \<and> eof_' p' \<and> depth_' p' = 0 \<and> \<not> inProp70Block_' p'
           \<and> hist p' = itemsEvents J a its []"
proof -
  let ?p0 = "newFBXTextParser src ([] :: event list)"
  have ok: "okItems J a ts its" using items_ok [OF assms(1)] by simp
  have m: "skippingUntilDepth_' ?p0 = 1000" "depth_' ?p0 + int (heights its) \<le> 1000"
    using assms(2) by (simp_all add: newFBXTextParser_def)
  from okItemsD [OF ok ready_new m]
  obtain p1 where p1: "runsTo J (recorder a) ts ?p0 p1" "ready False p1"
    "depth_' p1 = depth_' ?p0" "hist p1 = itemsEvents J a its (hist ?p0)"
    by blast
  have "parseTokens J (recorder a) (ts @ [teof]) ?p0 = parseTokens J (recorder a) [teof] p1"
    using p1(1) by (simp add: runsTo_def)
  also have "\<dots> = Inr (p1\<lparr>eof_' := True\<rparr>)"
    using assms(3) by (simp add: parseToken_def)
  finally have "parseTokens J (recorder a) (ts @ [teof]) ?p0 = Inr (p1\<lparr>eof_' := True\<rparr>)" .
  moreover have "hist (p1\<lparr>eof_' := True\<rparr>) = hist p1"
    by (simp add: hist_def)
  then have "hist (p1\<lparr>eof_' := True\<rparr>) = itemsEvents J a its []"
    using p1(4) by (simp only: hist_new)
  moreover have "depth_' (p1\<lparr>eof_' := True\<rparr>) = 0" "\<not> inProp70Block_' (p1\<lparr>eof_' := True\<rparr>)"
    using p1(2,3) by (simp_all add: newFBXTextParser_def ready_def)
  ultimately show ?thesis by (intro exI [of _ "p1\<lparr>eof_' := True\<rparr>"]) simp
qed

text \<open>
  C5 (as amended). For every delegate that answers \<open>block()\<close> deterministically and never
  fails, and every well-formed document nested at most 1000 deep and followed by the
  end-of-input token, the parse succeeds, ends at end of input with depth 0, and the number
  of \<open>block()\<close> calls answered \<open>Enter\<close> equals the number of \<open>endBlock()\<close> calls; both equal
  the number of brace pairs of entered blocks, which leaves out skipped blocks,
  \<open>Properties70\<close> blocks and array wrappers.
\<close>

theorem C5_depth_balanced:
  assumes "itemsTokens ts its" and "heights its \<le> 1000" and "Token.type teof = EOF"
  shows "\<exists>p'. parseTokens J (recorder a) (ts @ [teof]) (newFBXTextParser src []) = Inr p'
           \<and> eof_' p' \<and> depth_' p' = 0
           \<and> enteredCalls (delegate_' p') = enteredItems J a its []
           \<and> endBlockCalls (delegate_' p') = enteredItems J a its []"
proof -
  obtain p' where p': "parseTokens J (recorder a) (ts @ [teof]) (newFBXTextParser src []) = Inr p'"
    "eof_' p'" "depth_' p' = 0" "\<not> inProp70Block_' p'" "hist p' = itemsEvents J a its []"
    using run_document [OF assms, where J = J and a = a and src = src] by blast
  have "enteredCalls (delegate_' p') = enteredItems J a its []"
    "endBlockCalls (delegate_' p') = enteredItems J a its []"
    using calls_of_hist [OF p'(4)] calls_of_events(2) [of J a its "[]"] p'(5)
    by (simp_all add: enteredCalls_def endBlockCalls_def)
  with p'(1,2,3) show ?thesis by blast
qed

theorem C5_depth_balanced_witness:
  "\<exists>p'. parseTokens J0 (recorder (\<lambda>h k vs. if k = ''Takes'' then Skip else Enter))
      [\<lparr>Token.type = Key, Token.offset = 0, val = Some (StrVal ''Objects'')\<rparr>,
       \<lparr>Token.type = OpenBlock, Token.offset = 9, val = None\<rparr>,
       \<lparr>Token.type = Key, Token.offset = 11, val = Some (StrVal ''Model'')\<rparr>,
       \<lparr>Token.type = Number, Token.offset = 18, val = Some (NumVal (Fin 1))\<rparr>,
       \<lparr>Token.type = OpenBlock, Token.offset = 20, val = None\<rparr>,
       \<lparr>Token.type = CloseBlock, Token.offset = 22, val = None\<rparr>,
       \<lparr>Token.type = CloseBlock, Token.offset = 24, val = None\<rparr>,
       \<lparr>Token.type = Key, Token.offset = 26, val = Some (StrVal ''Takes'')\<rparr>,
       \<lparr>Token.type = OpenBlock, Token.offset = 33, val = None\<rparr>,
       \<lparr>Token.type = CloseBlock, Token.offset = 35, val = None\<rparr>,
       \<lparr>Token.type = EOF, Token.offset = 36, val = None\<rparr>]
      (newFBXTextParser [] []) = Inr p'
    \<and> eof_' p' \<and> depth_' p' = 0
    \<and> enteredCalls (delegate_' p') = 2 \<and> endBlockCalls (delegate_' p') = 2"
proof -
  let ?a = "\<lambda>(h :: event list) (k :: string) (vs :: FBXValue list).
              if k = ''Takes'' then Skip else Enter"
  let ?its = "[Blk ''Objects'' [] [Blk ''Model'' [VNumber (Fin 1)] []], Blk ''Takes'' [] []]"
  have model: "itemsTokens
      ([\<lparr>Token.type = Key, Token.offset = 11, val = Some (StrVal ''Model'')\<rparr>]
       @ [\<lparr>Token.type = Number, Token.offset = 18, val = Some (NumVal (Fin 1))\<rparr>]
       @ \<lparr>Token.type = OpenBlock, Token.offset = 20, val = None\<rparr> # []
       @ \<lparr>Token.type = CloseBlock, Token.offset = 22, val = None\<rparr> # [])
      [Blk ''Model'' [VNumber (Fin 1)] []]"
    apply simp
    apply (rule itemsTokens.block [where body = "[]" and ts = "[]"
          and vts = "[\<lparr>Token.type = Number, Token.offset = 18, val = Some (NumVal (Fin 1))\<rparr>]",
          simplified])
          apply (simp_all add: isKeyTok_def itemsTokens.none)
    apply (rule valuesTokens.one)
    apply (simp add: isNumTok_def)
    done
  have takes: "itemsTokens
       [\<lparr>Token.type = Key, Token.offset = 26, val = Some (StrVal ''Takes'')\<rparr>,
        \<lparr>Token.type = OpenBlock, Token.offset = 33, val = None\<rparr>,
        \<lparr>Token.type = CloseBlock, Token.offset = 35, val = None\<rparr>]
       [Blk ''Takes'' [] []]"
    using itemsTokens.block [where body = "[]" and ts = "[]" and vts = "[]" and vs = "[]"
        and k = "''Takes''"
        and tk = "\<lparr>Token.type = Key, Token.offset = 26, val = Some (StrVal ''Takes'')\<rparr>"
        and topen = "\<lparr>Token.type = OpenBlock, Token.offset = 33, val = None\<rparr>"
        and tclose = "\<lparr>Token.type = CloseBlock, Token.offset = 35, val = None\<rparr>"]
    by (simp add: isKeyTok_def itemsTokens.none)
  have doc: "itemsTokens
      [\<lparr>Token.type = Key, Token.offset = 0, val = Some (StrVal ''Objects'')\<rparr>,
       \<lparr>Token.type = OpenBlock, Token.offset = 9, val = None\<rparr>,
       \<lparr>Token.type = Key, Token.offset = 11, val = Some (StrVal ''Model'')\<rparr>,
       \<lparr>Token.type = Number, Token.offset = 18, val = Some (NumVal (Fin 1))\<rparr>,
       \<lparr>Token.type = OpenBlock, Token.offset = 20, val = None\<rparr>,
       \<lparr>Token.type = CloseBlock, Token.offset = 22, val = None\<rparr>,
       \<lparr>Token.type = CloseBlock, Token.offset = 24, val = None\<rparr>,
       \<lparr>Token.type = Key, Token.offset = 26, val = Some (StrVal ''Takes'')\<rparr>,
       \<lparr>Token.type = OpenBlock, Token.offset = 33, val = None\<rparr>,
       \<lparr>Token.type = CloseBlock, Token.offset = 35, val = None\<rparr>] ?its"
    using itemsTokens.block [OF _ _ _ _ _ model _ takes, where vts = "[]" and vs = "[]"
        and k = "''Objects''"
        and tk = "\<lparr>Token.type = Key, Token.offset = 0, val = Some (StrVal ''Objects'')\<rparr>"
        and topen = "\<lparr>Token.type = OpenBlock, Token.offset = 9, val = None\<rparr>"
        and tclose = "\<lparr>Token.type = CloseBlock, Token.offset = 24, val = None\<rparr>"]
    by (simp add: isKeyTok_def)
  have h: "heights ?its \<le> 1000" by simp
  have n: "enteredItems J0 ?a ?its [] = 2" by simp
  show ?thesis
    using C5_depth_balanced [OF doc h, where J = J0 and a = ?a and src = "[]"
        and teof = "\<lparr>Token.type = EOF, Token.offset = 36, val = None\<rparr>"]
    unfolding n by simp
qed

text \<open>
  The claim as stated counts every non-skipped brace pair. In the document
  \<open>Model: { Properties70: { } }\<close> no block is skipped and there are two matched pairs of
  braces, and the delegate receives one \<open>block()\<close> call and one \<open>endBlock()\<close> call.
\<close>

theorem C5_unforwarded_brace_pair_counterexample:
  "\<exists>p'. parseTokens J0 (recorder (\<lambda>h k vs. Enter))
      [\<lparr>Token.type = Key, Token.offset = 0, val = Some (StrVal ''Model'')\<rparr>,
       \<lparr>Token.type = OpenBlock, Token.offset = 7, val = None\<rparr>,
       \<lparr>Token.type = Key, Token.offset = 9, val = Some (StrVal ''Properties70'')\<rparr>,
       \<lparr>Token.type = OpenBlock, Token.offset = 23, val = None\<rparr>,
       \<lparr>Token.type = CloseBlock, Token.offset = 25, val = None\<rparr>,
       \<lparr>Token.type = CloseBlock, Token.offset = 27, val = None\<rparr>,
       \<lparr>Token.type = EOF, Token.offset = 28, val = None\<rparr>]
      (newFBXTextParser [] []) = Inr p'
    \<and> eof_' p' \<and> depth_' p' = 0
    \<and> delegate_' p' = [BlockCall ''Model'' [] Enter, EndBlockCall]
    \<and> enteredCalls (delegate_' p') = 1 \<and> endBlockCalls (delegate_' p') = 1
    \<and> length (filter (\<lambda>t. Token.type t = OpenBlock)
      [\<lparr>Token.type = Key, Token.offset = 0, val = Some (StrVal ''Model'')\<rparr>,
       \<lparr>Token.type = OpenBlock, Token.offset = 7, val = None\<rparr>,
       \<lparr>Token.type = Key, Token.offset = 9, val = Some (StrVal ''Properties70'')\<rparr>,
       \<lparr>Token.type = OpenBlock, Token.offset = 23, val = None\<rparr>,
       \<lparr>Token.type = CloseBlock, Token.offset = 25, val = None\<rparr>,
       \<lparr>Token.type = CloseBlock, Token.offset = 27, val = None\<rparr>,
       \<lparr>Token.type = EOF, Token.offset = 28, val = None\<rparr>]) = 2"
  by (simp add: parseToken_def caseKey_def caseOpenBlock_def caseCloseBlock_def
      newFBXTextParser_def recorder_def reportBlock_def reportProperty_def tokenValue_def
      Expect_Key_def Expect_Value_def Expect_Open_def Expect_Close_def Expect_Comma_def
      Expect_ValueOrOpen_def Expect_CommaOrOpenOrKey_def enteredCalls_def endBlockCalls_def)

subsection \<open>\<open>Properties70\<close> blocks and array wrappers\<close>






section \<open>Polygon assembly in \<open>FBXDocumentGraph.buildMeshes\<close>\<close>

text \<open>
  The \<open>PolygonVertexIndex\<close> child of a Geometry node is an \<open>Int32Array\<close>, modelled as a
  list of 32-bit words read as two's complement. The class \<open>mesh.MeshBuilder\<close> is not
  among the sources: the model keeps, in call order, the two arguments of every
  \<open>mb.addPolygon(polygonVertexIndexArray, vertexIndexArray)\<close> call.
\<close>

type_synonym polygon = "nat list \<times> int list"

text \<open>
  The body of the \<open>for (pvi = 0; pvi < polygonIndexCount; ++pvi)\<close> loop, by recursion over
  the entries still to be read: \<open>pvi\<close> is the loop counter, \<open>pvia\<close> and \<open>via\<close> are the
  accumulators \<open>polygonVertexIndexArray\<close> and \<open>vertexIndexArray\<close>, \<open>mb\<close> the polygons
  committed so far. \<open>~vi\<close> is \<open>NOT vi\<close> on the 32-bit value.
\<close>

fun polygonScan :: "32 word list \<Rightarrow> nat \<Rightarrow> nat list \<Rightarrow> int list \<Rightarrow> polygon list \<Rightarrow> polygon list" where
  "polygonScan [] pvi pvia via mb = mb"
| "polygonScan (vi # rest) pvi pvia via mb =
     (let pvia' = pvia @ [pvi] in
      if sint vi < 0
      then polygonScan rest (Suc pvi) [] [] (mb @ [(pvia', via @ [sint (NOT vi)])])
      else polygonScan rest (Suc pvi) pvia' (via @ [sint vi]) mb)"

definition decodePolygons :: "32 word list \<Rightarrow> polygon list" where
  "decodePolygons polygonIndexes = polygonScan polygonIndexes 0 [] [] []"

lemma polygonScan_mb_prefix:
  "polygonScan xs pvi pvia via mb = mb @ polygonScan xs pvi pvia via []"
proof (induction xs arbitrary: pvi pvia via mb)
  case Nil
  show ?case by simp
next
  case (Cons vi rest)
  show ?case
  proof (cases "sint vi < 0")
    case True
    have "polygonScan (vi # rest) pvi pvia via mb
        = (mb @ [(pvia @ [pvi], via @ [sint (NOT vi)])]) @ polygonScan rest (Suc pvi) [] [] []"
      using True Cons.IH [of "Suc pvi" "[]" "[]" "mb @ [(pvia @ [pvi], via @ [sint (NOT vi)])]"]
      by simp
    moreover have "polygonScan (vi # rest) pvi pvia via []
        = [(pvia @ [pvi], via @ [sint (NOT vi)])] @ polygonScan rest (Suc pvi) [] [] []"
      using True Cons.IH [of "Suc pvi" "[]" "[]" "[(pvia @ [pvi], via @ [sint (NOT vi)])]"]
      by simp
    ultimately show ?thesis by simp
  next
    case False
    then show ?thesis
      using Cons.IH [of "Suc pvi" "pvia @ [pvi]" "via @ [sint vi]" mb] by simp
  qed
qed

lemma polygonScan_count:
  "length (polygonScan xs pvi pvia via mb) = length mb + length (filter (\<lambda>vi. sint vi < 0) xs)"
  by (induction xs arbitrary: pvi pvia via mb) (simp_all add: Let_def)

lemma polygonScan_run:
  "\<forall>vi \<in> set p. \<not> sint vi < 0 \<Longrightarrow> sint v < 0 \<Longrightarrow>
   polygonScan (p @ v # rest) pvi pvia via mb
     = polygonScan rest (pvi + length p + 1) [] []
         (mb @ [(pvia @ [pvi ..< pvi + length p + 1], via @ map sint p @ [sint (NOT v)])])"
proof (induction p arbitrary: pvi pvia via)
  case Nil
  then show ?case by simp
next
  case (Cons x p)
  have "polygonScan ((x # p) @ v # rest) pvi pvia via mb
      = polygonScan (p @ v # rest) (Suc pvi) (pvia @ [pvi]) (via @ [sint x]) mb"
    using Cons.prems by simp
  also have "\<dots> = polygonScan rest (Suc pvi + length p + 1) [] []
         (mb @ [((pvia @ [pvi]) @ [Suc pvi ..< Suc pvi + length p + 1],
                 (via @ [sint x]) @ map sint p @ [sint (NOT v)])])"
    using Cons.prems by (intro Cons.IH) simp_all
  finally have step: "polygonScan ((x # p) @ v # rest) pvi pvia via mb
      = polygonScan rest (Suc pvi + length p + 1) [] []
         (mb @ [((pvia @ [pvi]) @ [Suc pvi ..< Suc pvi + length p + 1],
                 (via @ [sint x]) @ map sint p @ [sint (NOT v)])])" .
  have idx: "(pvia @ [pvi]) @ [Suc pvi ..< pvi + length (x # p) + 1]
      = pvia @ [pvi ..< pvi + length (x # p) + 1]"
    using upt_conv_Cons [of pvi "pvi + length (x # p) + 1"] by simp
  have vals: "(via @ [sint x]) @ map sint p @ [sint (NOT v)]
      = via @ map sint (x # p) @ [sint (NOT v)]"
    by simp
  have cnt: "Suc pvi + length p + 1 = pvi + length (x # p) + 1"
    by simp
  show ?case
    by (simp only: step idx vals cnt)
qed

lemma sint_NOT32: "sint (NOT v) = - sint v - 1" for v :: "32 word"
proof -
  have "- (2 ^ 31) \<le> sint v" and "sint v < 2 ^ 31"
    using sint_ge [of v] sint_lt [of v] by simp_all
  then have "signed_take_bit 32 (- sint v - 1) = - sint v - 1"
    by (simp add: signed_take_bit_int_eq_self_iff)
  then show ?thesis
    by (simp add: signed_not_eq not_int_def)
qed

text \<open>
  C1. Decoding scans the index array once and commits one polygon per negative entry.
  A run of non-negative entries \<open>p\<close> followed by a negative entry \<open>v\<close> is committed as one
  polygon whose vertex indices are the entries of \<open>p\<close> followed by the complement of \<open>v\<close>
  (which is \<open>- v - 1\<close>), whatever the length of \<open>p\<close>, and the scan goes on with empty
  accumulators. So \<open>[0,2,-5]\<close> gives the one polygon \<open>[0,2,4]\<close> and \<open>[0,1,-3,3,4,-6]\<close> gives
  the two polygons \<open>[0,1,2]\<close> and \<open>[3,4,5]\<close>.
\<close>

theorem C1_polygon_decode:
  "map snd (decodePolygons [0, 2, - 5]) = [[0, 2, 4]]
   \<and> map snd (decodePolygons [0, 1, - 3, 3, 4, - 6]) = [[0, 1, 2], [3, 4, 5]]
   \<and> length (decodePolygons xs) = length (filter (\<lambda>vi. sint vi < 0) xs)
   \<and> ((\<forall>vi \<in> set p. \<not> sint vi < 0) \<and> sint v < 0 \<longrightarrow>
        decodePolygons (p @ v # rest)
          = ([0 ..< length p + 1], map sint p @ [- sint v - 1])
            # polygonScan rest (length p + 1) [] [] [])"
proof (intro conjI impI)
  show "map snd (decodePolygons [0, 2, - 5]) = [[0, 2, 4]]"
    by (simp add: decodePolygons_def)
  show "map snd (decodePolygons [0, 1, - 3, 3, 4, - 6]) = [[0, 1, 2], [3, 4, 5]]"
    by (simp add: decodePolygons_def)
  show "length (decodePolygons xs) = length (filter (\<lambda>vi. sint vi < 0) xs)"
    by (simp add: decodePolygons_def polygonScan_count)
  assume "(\<forall>vi \<in> set p. \<not> sint vi < 0) \<and> sint v < 0"
  then have p: "\<forall>vi \<in> set p. \<not> sint vi < 0" and v: "sint v < 0"
    by simp_all
  have "decodePolygons (p @ v # rest)
      = polygonScan rest (length p + 1) [] [] [([0 ..< length p + 1], map sint p @ [sint (NOT v)])]"
    using polygonScan_run [OF p v, of rest 0 "[]" "[]" "[]"] by (simp add: decodePolygons_def)
  also have "\<dots> = [([0 ..< length p + 1], map sint p @ [sint (NOT v)])]
        @ polygonScan rest (length p + 1) [] [] []"
    by (rule polygonScan_mb_prefix)
  finally show "decodePolygons (p @ v # rest)
     = ([0 ..< length p + 1], map sint p @ [- sint v - 1])
       # polygonScan rest (length p + 1) [] [] []"
    by (simp add: sint_NOT32)
qed

theorem C1_polygon_decode_witness:
  "sint (- 5 :: 32 word) < 0
   \<and> decodePolygons ([0, 2] @ (- 5) # []) = [([0, 1, 2], [0, 2, 4])]"
  using C1_polygon_decode [of "[]" "[0, 2]" "- 5" "[]"] by (simp add: upt_rec)

section \<open>The resolver (\<open>FBXDocumentGraph.resolve\<close>)\<close>

subsection \<open>Strings and file paths (\<open>asset-io.ts\<close>)\<close>

text \<open>
  \<open>s.split(sep)\<close> for a separator that is not empty: \<open>acc\<close> is the part being read.
\<close>

fun splitFrom :: "string \<Rightarrow> string \<Rightarrow> string \<Rightarrow> string list" where
  "splitFrom sep acc [] = [acc]"
| "splitFrom sep acc (c # cs) =
     (if sep \<noteq> [] \<and> take (length sep) (c # cs) = sep
      then acc # splitFrom sep [] (drop (length sep - 1) cs)
      else splitFrom sep (acc @ [c]) cs)"

definition splitString :: "string \<Rightarrow> string \<Rightarrow> string list" where
  "splitString s sep = splitFrom sep [] s"

text \<open>\<open>parts.join(sep)\<close>.\<close>

fun joinStrings :: "string list \<Rightarrow> string \<Rightarrow> string" where
  "joinStrings [] sep = []"
| "joinStrings [p] sep = p"
| "joinStrings (p # q # ps) sep = p @ sep @ joinStrings (q # ps) sep"

text \<open>\<open>s.replace(/\/\//g, "/")\<close>: the matches are taken from left to right and do not overlap.\<close>

fun replaceDoubleSlash :: "string \<Rightarrow> string" where
  "replaceDoubleSlash (c # d # cs) =
     (if c = CHR ''/'' \<and> d = CHR ''/'' then CHR ''/'' # replaceDoubleSlash cs
      else c # replaceDoubleSlash (d # cs))"
| "replaceDoubleSlash cs = cs"

text \<open>
  \<open>p.replace(/\\/g, "/").replace(/\/\//g, "/").replace(/^\//, "")\<close>. The backslash is
  the character of code 92.
\<close>

definition normPath :: "string \<Rightarrow> string" where
  "normPath p =
     (let p1 = map (\<lambda>c. if c = char_of (92::nat) then CHR ''/'' else c) p;
          p2 = replaceDoubleSlash p1
      in case p2 of [] \<Rightarrow> [] | c # cs \<Rightarrow> if c = CHR ''/'' then cs else p2)"

text \<open>\<open>s.indexOf(".")\<close> and \<open>s.lastIndexOf(".")\<close>, \<open>-1\<close> when there is no such character.\<close>

definition indexOf :: "string \<Rightarrow> char \<Rightarrow> int" where
  "indexOf s c = (if c \<in> set s then int (length (takeWhile (\<lambda>d. d \<noteq> c) s)) else - 1)"

definition lastIndexOf :: "string \<Rightarrow> char \<Rightarrow> int" where
  "lastIndexOf s c =
     (if c \<in> set s then int (length s) - 1 - int (length (takeWhile (\<lambda>d. d \<noteq> c) (rev s)))
      else - 1)"

text \<open>One turn of the loop over \<open>relPathParts\<close>; \<open>pop\<close> on an empty array does nothing.\<close>

definition pathEntry :: "string list \<Rightarrow> string \<Rightarrow> string list" where
  "pathEntry basePathParts entry =
     (if entry = ''.'' then basePathParts
      else if entry = ''..'' then butlast basePathParts
      else basePathParts @ [entry])"

definition resolveRelativeFilePath :: "string \<Rightarrow> string \<Rightarrow> string" where
  "resolveRelativeFilePath relPath basePath =
     (let relPathParts = splitString (normPath relPath) ''/'';
          basePathParts = splitString (normPath basePath) ''/'';
          basePathParts' =
            (if length basePathParts > 0 \<and> indexOf (last basePathParts) CHR ''.'' > 0
             then butlast basePathParts else basePathParts)
      in joinStrings (foldl pathEntry basePathParts' relPathParts) ''/'')"

definition fileExtensionOfFilePath :: "string \<Rightarrow> string" where
  "fileExtensionOfFilePath filePath =
     (let lastDot = lastIndexOf filePath CHR ''.'' in
      if lastDot > - 1 then toLowerCase (drop (nat (lastDot + 1)) filePath) else [])"

text \<open>
  \<open>mimeTypeMapping[ext] || null\<close>, read with a lower-case key: every value of the table is a
  non-empty string. The table is a JavaScript object and also answers the two lower-case
  names it inherits, \<open>constructor\<close> and \<open>__proto__\<close>, with the function \<open>Object\<close> and the
  object \<open>Object.prototype\<close>; both are true. The value is only ever joined to a string, in
  \<open>"data:" + mimeType + ";base64,"\<close> of \<open>loadImageFromBuffer\<close>, so the model keeps the string
  each of the two becomes there.
\<close>

definition mimeTypeMapping :: "string \<Rightarrow> string option" where
  "mimeTypeMapping = map_of
     [(''bm'', ''image/bmp''), (''bmp'', ''image/bmp''), (''png'', ''image/png''),
      (''jpg'', ''image/jpeg''), (''jpeg'', ''image/jpeg''), (''gif'', ''image/gif''),
      (''constructor'', ''function Object() { [native code] }''),
      (''__proto__'', ''[object Object]'')]"

definition mimeTypeForFilePath :: "string \<Rightarrow> string option" where
  "mimeTypeForFilePath filePath = mimeTypeMapping (fileExtensionOfFilePath filePath)"

subsection \<open>Promises, the environment and the assets\<close>

text \<open>
  A promise is modelled by the way it settles. A function that returns a promise may also
  throw before it has one to return: its result is then \<open>Inl\<close> of what it throws.
\<close>

datatype 'a promise = Fulfilled 'a | Rejected error

text \<open>
  \<open>Promise.all\<close>: fulfilled with the values in order when every promise is fulfilled, and
  rejected otherwise. The reason kept is that of the first rejected promise of the list;
  no definition below reads it.
\<close>

fun promiseAll :: "'a promise list \<Rightarrow> 'a list promise" where
  "promiseAll [] = Fulfilled []"
| "promiseAll (Rejected e # ps) = Rejected e"
| "promiseAll (Fulfilled x # ps) =
     (case promiseAll ps of Fulfilled xs \<Rightarrow> Fulfilled (x # xs) | Rejected e \<Rightarrow> Rejected e)"

text \<open>A \<open>for ... of\<close> loop whose body may throw: \<open>s\<close> is what the body reads and writes.\<close>

fun forOf :: "('a \<Rightarrow> 's \<Rightarrow> error + 's) \<Rightarrow> 'a list \<Rightarrow> 's \<Rightarrow> error + 's" where
  "forOf body [] s = Inr s"
| "forOf body (x # xs) s = (case body x s of Inl e \<Rightarrow> Inl e | Inr s' \<Rightarrow> forOf body xs s')"

text \<open>The truth value of \<open>if (v)\<close> and the comparison \<open>a == b\<close> of two numbers.\<close>

fun truthy :: "FBXValue option \<Rightarrow> bool" where
  "truthy None = False"
| "truthy (Some (VNumber n)) = (n \<noteq> Fin 0 \<and> n \<noteq> NaN)"
| "truthy (Some (VString s)) = (s \<noteq> [])"
| "truthy (Some (VArrayBuffer b)) = True"
| "truthy (Some (VTypedArray a)) = True"

definition numEq :: "number \<Rightarrow> number \<Rightarrow> bool" where
  "numEq a b = (a \<noteq> NaN \<and> a = b)"

text \<open>
  Modelled from the spec: the asset types, the asset group and the libraries the resolver
  calls (\<open>render\<close>, \<open>mesh\<close>, \<open>vec2\<close>, \<open>vec3\<close>, \<open>quat\<close>, \<open>math\<close>, \<open>makeMaterial\<close>, \<open>AssetGroup\<close>) are
  not among the sources. The assets are records of the fields the resolver writes, a
  vector being the list of its elements (\<open>None\<close> for \<open>undefined\<close>). The asset group is its
  four ordered collections, and \<open>addTexture\<close>, \<open>addMaterial\<close>, \<open>addMesh\<close> and \<open>addModel\<close>
  append to them; a \<open>null\<close> texture is appended as it is. Images, texture descriptors,
  mesh builders and mesh data are opaque. The library functions are the fields of an
  environment \<open>env\<close>: the two image loaders settle with an image or reject with a message,
  and the methods of \<open>mesh.MeshBuilder\<close> may throw. The \<open>userRef\<close> of a mesh and of a model
  is \<open><number>values[0]\<close>; the model stops with \<open>IllTyped\<close> when that value is not a number.
\<close>

typedecl TextureImageSource
typedecl TextureDescriptor
typedecl MeshBuilder
typedecl MeshData

datatype UseMipMaps = No | Yes

type_synonym vec = "FBXValue option list"

record Texture2D =
  name :: "string option"
  userRef :: number
  useMipMaps :: UseMipMaps
  filePath :: "FBXValue option"
  descriptor :: "TextureDescriptor option"

record Material =
  name :: "string option"
  userRef :: number
  diffuseColour :: vec
  specularColour :: vec
  specularIntensity :: "FBXValue option"
  specularExponent :: "FBXValue option"
  diffuseTexture :: "Texture2D option"
  textureOffset :: vec
  textureScale :: vec

datatype VertexAttributeRole = Normal | Colour | UV | Tangent | MaterialRole
datatype VertexField = Floatx2 | Floatx3 | Floatx4 | SInt32
datatype VertexAttributeMapping = Undefined | Vertex | PolygonVertex | Polygon | SingleValue

record VertexAttributeStream =
  name :: "FBXValue option"
  attr :: "(VertexAttributeRole \<times> VertexField) option"
  includeInMesh :: bool
  controlsGrouping :: "bool option"
  mapping :: VertexAttributeMapping
  values' :: "FBXValue option"
  indexes :: "FBXValue option"

record Mesh =
  name :: "string option"
  userRef :: number
  positions :: "FBXValue option"
  streams :: "VertexAttributeStream list"
  meshData :: "MeshData option"

record Transform =
  position :: vec
  rotation :: vec
  scale :: vec

datatype Model = Model
  (name: "string option")
  (userRef: number)
  (mesh: "Mesh option")
  (materials: "Material list")
  (transform: Transform)
  (children: "Model list")

record AssetGroup =
  textures :: "Texture2D option list"
  materials :: "Material list"
  meshes :: "Mesh list"
  models :: "Model list"

definition newAssetGroup :: AssetGroup where
  "newAssetGroup = \<lparr>textures = [], materials = [], meshes = [], models = []\<rparr>"

definition addTexture :: "Texture2D option \<Rightarrow> AssetGroup \<Rightarrow> AssetGroup" where
  "addTexture tex grp = grp\<lparr>textures := textures grp @ [tex]\<rparr>"

definition addMaterial :: "Material \<Rightarrow> AssetGroup \<Rightarrow> AssetGroup" where
  "addMaterial mat grp = grp\<lparr>AssetGroup.materials := AssetGroup.materials grp @ [mat]\<rparr>"

definition addMesh :: "Mesh \<Rightarrow> AssetGroup \<Rightarrow> AssetGroup" where
  "addMesh m grp = grp\<lparr>meshes := meshes grp @ [m]\<rparr>"

definition addModel :: "Model \<Rightarrow> AssetGroup \<Rightarrow> AssetGroup" where
  "addModel m grp = grp\<lparr>models := models grp @ [m]\<rparr>"

record env =
  loadImage :: "string \<Rightarrow> string + TextureImageSource"
  loadImageFromBuffer :: "FBXValue \<Rightarrow> string \<Rightarrow> string + TextureImageSource"
  makeTexDesc2DFromImageSource :: "TextureImageSource \<Rightarrow> UseMipMaps \<Rightarrow> TextureDescriptor"
  makeMaterial :: Material
  vec2_copy :: "vec \<Rightarrow> FBXValue list \<Rightarrow> vec"
  vec3_copy :: "vec \<Rightarrow> FBXValue list \<Rightarrow> vec"
  deg2rad :: "FBXValue option \<Rightarrow> number"
  quat_fromEuler :: "number \<Rightarrow> number \<Rightarrow> number \<Rightarrow> vec"
  newMeshBuilder :: "FBXValue option \<Rightarrow> VertexAttributeStream list \<Rightarrow> error + MeshBuilder"
  addPolygon :: "nat list \<Rightarrow> int list \<Rightarrow> MeshBuilder \<Rightarrow> error + MeshBuilder"
  complete :: "MeshBuilder \<Rightarrow> error + MeshData"

record FBXResolveOptions =
  allowMissingTextures :: "bool option"

subsection \<open>\<open>Node.objectName\<close> and \<open>loadTextures\<close>\<close>

text \<open>
  \<open>objectName()\<close>: \<open>cns.split("::")[1]\<close>, which is \<open>undefined\<close> when the string has no
  \<open>::\<close>. The call of \<open>split\<close> throws when \<open>values[1]\<close> is missing or is not a string.
\<close>

definition objectName :: "Node \<Rightarrow> error + string option" where
  "objectName n =
     (case elemAt (Node.values' n) 1 of
        Some (VString cns) \<Rightarrow> Inr (elemAt (splitString cns ''::'') 1)
      | _ \<Rightarrow> Inl TypeError)"

text \<open>
  One turn of the loop over the children of a Video node: the state is the texture and
  \<open>fileData\<close>.
\<close>

definition videoChild ::
  "Node \<Rightarrow> Texture2D \<times> FBXValue option \<Rightarrow> error + Texture2D \<times> FBXValue option" where
  "videoChild c s =
     (case s of (tex, fileData) \<Rightarrow>
        if Node.name c = ''UseMipMap'' then
          (case elemAt (Node.values' c) 0 of
             None \<Rightarrow> Inr (tex\<lparr>useMipMaps := Yes\<rparr>, fileData)
           | Some (VNumber n) \<Rightarrow> Inr (tex\<lparr>useMipMaps := (if n \<noteq> Fin 0 then Yes else No)\<rparr>, fileData)
           | Some _ \<Rightarrow> Inl IllTyped)
        else if Node.name c = ''RelativeFilename'' then
          Inr (tex\<lparr>filePath := elemAt (Node.values' c) 0\<rparr>, fileData)
        else if Node.name c = ''Content'' then Inr (tex, elemAt (Node.values' c) 0)
        else Inr (tex, fileData))"

text \<open>
  The promise pushed on \<open>fileProms\<close> for one Video node, with the console. With
  \<open>fileData\<close>, \<open>mimeTypeForFilePath(tex.filePath)\<close> runs inside the executor of the promise:
  what it throws on a missing path rejects the promise. Without, \<open>resolveRelativeFilePath\<close>
  runs outside any promise: what it throws leaves \<open>loadTextures\<close>.
\<close>

definition texturePromise ::
  "env \<Rightarrow> bool \<Rightarrow> string \<Rightarrow> Texture2D \<Rightarrow> FBXValue option \<Rightarrow> string list
     \<Rightarrow> error + Texture2D option promise \<times> string list" where
  "texturePromise E allow basePath tex fileData con =
     (let makeTexDesc = (\<lambda>img. makeTexDesc2DFromImageSource E img (useMipMaps tex)) in
      case (truthy fileData, fileData) of
        (True, Some buffer) \<Rightarrow>
          (case filePath tex of
             None \<Rightarrow> Inr (Rejected TypeError, con)
           | Some (VString p) \<Rightarrow>
               (case mimeTypeForFilePath p of
                  None \<Rightarrow>
                    let err = ''Cannot create texture, no mime-type found for file path '' @ p in
                    if allow then Inr (Fulfilled None, con @ [err])
                    else Inr (Rejected (Reason err), con)
                | Some mime \<Rightarrow>
                    (case loadImageFromBuffer E buffer mime of
                       Inr img \<Rightarrow>
                         Inr (Fulfilled (Some (tex\<lparr>descriptor := Some (makeTexDesc img)\<rparr>)), con)
                     | Inl error \<Rightarrow>
                         if allow then Inr (Fulfilled None, con @ [error])
                         else Inr (Rejected (Reason error), con)))
           | Some _ \<Rightarrow> Inl IllTyped)
      | _ \<Rightarrow>
          (case filePath tex of
             None \<Rightarrow> Inl TypeError
           | Some (VString p) \<Rightarrow>
               (case loadImage E (resolveRelativeFilePath p basePath) of
                  Inr img \<Rightarrow>
                    Inr (Fulfilled (Some (tex\<lparr>descriptor := Some (makeTexDesc img)\<rparr>)), con)
                | Inl error \<Rightarrow>
                    if allow then Inr (Fulfilled None, con @ [error])
                    else Inr (Rejected (Reason error), con))
           | Some _ \<Rightarrow> Inl IllTyped))"

text \<open>The body of the \<open>forEach\<close> over the keys of \<open>videoNodes\<close>.\<close>

definition videoTexture ::
  "env \<Rightarrow> bool \<Rightarrow> FBXDocumentGraph \<Rightarrow> number \<times> ref
     \<Rightarrow> Texture2D option promise list \<times> string list
     \<Rightarrow> error + Texture2D option promise list \<times> string list" where
  "videoTexture E allow g entry s =
     (case (entry, s) of ((vidID, r), (fileProms, con)) \<Rightarrow>
        let fbxVideo = nodes g ! r in
        case objectName fbxVideo of
          Inl e \<Rightarrow> Inl e
        | Inr nm \<Rightarrow>
            let tex = \<lparr>Texture2D.name = nm, userRef = vidID, useMipMaps = No, filePath = None,
                       descriptor = None\<rparr>
            in
            case forOf (\<lambda>c. videoChild (nodes g ! c)) (Node.children fbxVideo) (tex, None) of
              Inl e \<Rightarrow> Inl e
            | Inr (tex', fileData) \<Rightarrow>
                (case texturePromise E allow (fbxFilePath g) tex' fileData con of
                   Inl e \<Rightarrow> Inl e
                 | Inr (prom, con') \<Rightarrow> Inr (fileProms @ [prom], con')))"

text \<open>
  \<open>loadTextures(group, options)\<close>: \<open>Promise.all(fileProms).then(..., () => null)\<close>. The second
  handler turns a rejection of \<open>Promise.all\<close> into the value \<open>null\<close> (\<open>None\<close>), so the
  promise returned is never rejected.
\<close>

definition loadTextures ::
  "env \<Rightarrow> AssetGroup \<Rightarrow> bool \<Rightarrow> FBXDocumentGraph \<Rightarrow> string list
     \<Rightarrow> error + AssetGroup option promise \<times> string list" where
  "loadTextures E grp allow g con =
     (case forOf (videoTexture E allow g) (videoNodes g) ([], con) of
        Inl e \<Rightarrow> Inl e
      | Inr (fileProms, con') \<Rightarrow>
          (case promiseAll fileProms of
             Fulfilled texs \<Rightarrow>
               Inr (Fulfilled (Some (foldl (\<lambda>gr tex. addTexture tex gr) grp texs)), con')
           | Rejected e \<Rightarrow> Inr (Fulfilled None, con')))"

subsection \<open>\<open>buildMaterials\<close>\<close>

definition materialChild :: "env \<Rightarrow> Node \<Rightarrow> Material \<Rightarrow> Material" where
  "materialChild E c mat =
     (if Node.name c = ''DiffuseColor''
      then mat\<lparr>diffuseColour := vec3_copy E (diffuseColour mat) (Node.values' c)\<rparr>
      else if Node.name c = ''SpecularColor''
      then mat\<lparr>specularColour := vec3_copy E (specularColour mat) (Node.values' c)\<rparr>
      else if Node.name c = ''SpecularFactor''
      then mat\<lparr>specularIntensity := elemAt (Node.values' c) 0\<rparr>
      else if Node.name c = ''ShininessExponent''
      then mat\<lparr>specularExponent := elemAt (Node.values' c) 0\<rparr>
      else mat)"

definition textureChild :: "env \<Rightarrow> Node \<Rightarrow> Material \<Rightarrow> Material" where
  "textureChild E tc mat =
     (if Node.name tc = ''ModelUVTranslation''
      then mat\<lparr>textureOffset := vec2_copy E (textureOffset mat) (Node.values' tc)\<rparr>
      else if Node.name tc = ''ModelUVScaling''
      then mat\<lparr>textureScale := vec2_copy E (textureScale mat) (Node.values' tc)\<rparr>
      else mat)"

text \<open>
  The body of \<open>if (fbxMat.connectionsIn.length > 0)\<close>. The three \<open>var\<close> lines come first:
  \<open>texNode.connectionsIn[0].fromID\<close> is read, and \<open>group.textures\<close> searched, before the
  test \<open>!(texNode && tex2D)\<close> that may write the warning.
\<close>

definition linkTexture ::
  "env \<Rightarrow> Node list \<Rightarrow> AssetGroup option \<Rightarrow> Node \<Rightarrow> Material \<Rightarrow> string list
     \<Rightarrow> error + Material \<times> string list" where
  "linkTexture E ns grp fbxMat mat con =
     (case fromNode (connectionsIn fbxMat ! 0) of
        None \<Rightarrow> Inl TypeError
      | Some t \<Rightarrow>
          let texNode = ns ! t in
          (case elemAt (connectionsIn texNode) 0 of
             None \<Rightarrow> Inl TypeError
           | Some conn \<Rightarrow>
               let videoNodeID = fromID conn in
               (case grp of
                  None \<Rightarrow> Inl TypeError
                | Some gr \<Rightarrow>
                    (case find (\<lambda>t. case t of None \<Rightarrow> False
                                      | Some tex \<Rightarrow> numEq (Texture2D.userRef tex) videoNodeID)
                            (textures gr) of
                       Some (Some tex2D) \<Rightarrow>
                         Inr (foldl (\<lambda>m tc. textureChild E (ns ! tc) m)
                                (mat\<lparr>diffuseTexture := Some tex2D\<rparr>) (Node.children texNode),
                              con)
                     | _ \<Rightarrow> Inr (mat, con @ [''Could not link texture to material.''])))))"

text \<open>
  The body of the loop over \<open>materialNodes\<close>. \<open>mat.userRef\<close> is the key \<open>matID\<close>, a string
  in the source, kept as the number it spells.
\<close>

definition buildMaterial ::
  "env \<Rightarrow> FBXDocumentGraph \<Rightarrow> number \<times> ref \<Rightarrow> AssetGroup option \<times> string list
     \<Rightarrow> error + AssetGroup option \<times> string list" where
  "buildMaterial E g entry s =
     (case (entry, s) of ((matID, r), (grp, con)) \<Rightarrow>
        let fbxMat = nodes g ! r in
        case objectName fbxMat of
          Inl e \<Rightarrow> Inl e
        | Inr nm \<Rightarrow>
            let mat0 = (makeMaterial E)\<lparr>Material.name := nm, Material.userRef := matID\<rparr>;
                mat1 = foldl (\<lambda>m c. materialChild E (nodes g ! c) m) mat0 (Node.children fbxMat)
            in
            case (if length (connectionsIn fbxMat) > 0
                  then linkTexture E (nodes g) grp fbxMat mat1 con
                  else Inr (mat1, con)) of
              Inl e \<Rightarrow> Inl e
            | Inr (mat2, con') \<Rightarrow>
                (case grp of
                   None \<Rightarrow> Inl TypeError
                 | Some gr \<Rightarrow> Inr (Some (addMaterial mat2 gr), con')))"

definition buildMaterials ::
  "env \<Rightarrow> FBXDocumentGraph \<Rightarrow> AssetGroup option \<Rightarrow> string list
     \<Rightarrow> error + AssetGroup option \<times> string list" where
  "buildMaterials E g grp con = forOf (buildMaterial E g) (materialNodes g) (grp, con)"

subsection \<open>\<open>makeLayerElementStream\<close> and \<open>buildMeshes\<close>\<close>

text \<open>One turn of the loop over the children of a layer element node.\<close>

definition layerChild ::
  "string \<Rightarrow> string \<Rightarrow> Node \<Rightarrow> VertexAttributeStream \<Rightarrow> error + VertexAttributeStream" where
  "layerChild valueArrayName indexArrayName c stream =
     (if Node.name c = ''Name'' then
        Inr (stream\<lparr>VertexAttributeStream.name := elemAt (Node.values' c) 0\<rparr>)
      else if Node.name c = ''MappingInformationType'' then
        (case elemAt (Node.values' c) 0 of
           None \<Rightarrow> Inl (AssertError ''Unknown stream mapping name: undefined'')
         | Some (VString mappingName) \<Rightarrow>
             if mappingName = ''ByVertice'' then Inr (stream\<lparr>mapping := Vertex\<rparr>)
             else if mappingName = ''ByPolygonVertex'' then Inr (stream\<lparr>mapping := PolygonVertex\<rparr>)
             else if mappingName = ''ByPolygon'' then Inr (stream\<lparr>mapping := Polygon\<rparr>)
             else if mappingName = ''AllSame'' then Inr (stream\<lparr>mapping := SingleValue\<rparr>)
             else Inl (AssertError (''Unknown stream mapping name: '' @ mappingName))
         | Some _ \<Rightarrow> Inl IllTyped)
      else if Node.name c = valueArrayName then
        Inr (stream\<lparr>VertexAttributeStream.values' := elemAt (Node.values' c) 0\<rparr>)
      else if Node.name c = indexArrayName then
        Inr (stream\<lparr>indexes := elemAt (Node.values' c) 0\<rparr>)
      else Inr stream)"

definition makeLayerElementStream :: "Node list \<Rightarrow> Node \<Rightarrow> error + VertexAttributeStream" where
  "makeLayerElementStream ns layerElemNode =
     (let stream =
            \<lparr>VertexAttributeStream.name = Some (VString []), attr = None, includeInMesh = True,
             controlsGrouping = None, mapping = Undefined,
             VertexAttributeStream.values' = None, indexes = None\<rparr>;
          nm = Node.name layerElemNode
      in
      case (if nm = ''LayerElementNormal''
            then Inr (''Normals'', ''NormalsIndex'', stream\<lparr>attr := Some (Normal, Floatx3)\<rparr>)
            else if nm = ''LayerElementColor''
            then Inr (''Colors'', ''ColorIndex'', stream\<lparr>attr := Some (Colour, Floatx3)\<rparr>)
            else if nm = ''LayerElementUV''
            then Inr (''UV'', ''UVIndex'', stream\<lparr>attr := Some (UV, Floatx2)\<rparr>)
            else if nm = ''LayerElementTangent''
            then Inr (''Tangents'', ''TangentsIndex'', stream\<lparr>attr := Some (Tangent, Floatx4)\<rparr>)
            else if nm = ''LayerElementMaterial''
            then Inr (''Materials'', ''--UNUSED--'',
                      stream\<lparr>includeInMesh := False, controlsGrouping := Some True,
                             attr := Some (MaterialRole, SInt32)\<rparr>)
            else Inl (AssertError ''Unhandled layer element node'')) of
        Inl e \<Rightarrow> Inl e
      | Inr (valueArrayName, indexArrayName, stream1) \<Rightarrow>
          (case forOf (\<lambda>c. layerChild valueArrayName indexArrayName (ns ! c))
                  (Node.children layerElemNode) stream1 of
             Inl e \<Rightarrow> Inl e
           | Inr stream2 \<Rightarrow>
               if nm = ''LayerElementMaterial'' \<and> mapping stream2 \<noteq> Polygon
                  \<and> mapping stream2 \<noteq> SingleValue
               then Inl (AssertError
                      ''A material stream must be a single value or be applied per polygon'')
               else Inr stream2))"

text \<open>
  One turn of the loop over the children of a Geometry node: the state is
  \<open>sdMesh.positions\<close>, \<open>polygonIndexes\<close>, \<open>sdMesh.streams\<close> and the console.
\<close>

definition geometryChild ::
  "Node list \<Rightarrow> ref
     \<Rightarrow> FBXValue option \<times> FBXValue option \<times> VertexAttributeStream list \<times> string list
     \<Rightarrow> error + FBXValue option \<times> FBXValue option \<times> VertexAttributeStream list \<times> string list" where
  "geometryChild ns cr s =
     (case s of (pos, polygonIndexes, strs, con) \<Rightarrow>
        let c = ns ! cr in
        if Node.name c = ''Vertices''
        then Inr (elemAt (Node.values' c) 0, polygonIndexes, strs, con)
        else if Node.name c = ''PolygonVertexIndex''
        then Inr (pos, elemAt (Node.values' c) 0, strs, con)
        else if Node.name c = ''LayerElementNormal'' \<or> Node.name c = ''LayerElementTangent''
                \<or> Node.name c = ''LayerElementColor'' \<or> Node.name c = ''LayerElementUV''
                \<or> Node.name c = ''LayerElementMaterial''
        then
          (case elemAt (Node.values' c) 0 of
             None \<Rightarrow>
               Inr (pos, polygonIndexes, strs,
                    con @ [''Skipping Geometry LayerElement with index > 0''])
           | Some (VNumber streamIndex) \<Rightarrow>
               if streamIndex = Fin 0 then
                 (case makeLayerElementStream ns c of
                    Inl e \<Rightarrow> Inl e
                  | Inr st \<Rightarrow> Inr (pos, polygonIndexes, strs @ [st], con))
               else Inr (pos, polygonIndexes, strs,
                         con @ [''Skipping Geometry LayerElement with index > 0''])
           | Some _ \<Rightarrow> Inl IllTyped)
        else Inr s)"

text \<open>
  The body of the loop over \<open>geometryNodes\<close>. The polygon scan makes the \<open>addPolygon\<close> calls
  of \<open>decodePolygons\<close> in order, and stops at the first that throws. The two
  \<open>console.info\<close> lines are left out.
\<close>

definition buildMesh ::
  "env \<Rightarrow> FBXDocumentGraph \<Rightarrow> number \<times> ref \<Rightarrow> AssetGroup option \<times> string list
     \<Rightarrow> error + AssetGroup option \<times> string list" where
  "buildMesh E g entry s =
     (case (entry, s) of ((geomID, r), (grp, con)) \<Rightarrow>
        let fbxGeom = nodes g ! r in
        case objectName fbxGeom of
          Inl e \<Rightarrow> Inl e
        | Inr nm \<Rightarrow>
        case asNumber (elemAt (Node.values' fbxGeom) 0) of
          Inl e \<Rightarrow> Inl e
        | Inr ident \<Rightarrow>
        case forOf (geometryChild (nodes g)) (Node.children fbxGeom) (None, None, [], con) of
          Inl e \<Rightarrow> Inl e
        | Inr (pos, polygonIndexes, strs, con') \<Rightarrow>
        case newMeshBuilder E pos strs of
          Inl e \<Rightarrow> Inl e
        | Inr mb \<Rightarrow>
        case polygonIndexes of
          None \<Rightarrow> Inl TypeError
        | Some (VTypedArray (Int32Array ws)) \<Rightarrow>
            (case forOf (\<lambda>poly. addPolygon E (fst poly) (snd poly)) (decodePolygons ws) mb of
               Inl e \<Rightarrow> Inl e
             | Inr mb' \<Rightarrow>
                 (case complete E mb' of
                    Inl e \<Rightarrow> Inl e
                  | Inr md \<Rightarrow>
                      let sdMesh = \<lparr>Mesh.name = nm, userRef = ident, positions = pos,
                                    streams = strs, meshData = Some md\<rparr>
                      in case grp of
                           None \<Rightarrow> Inl TypeError
                         | Some gr \<Rightarrow> Inr (Some (addMesh sdMesh gr), con')))
        | Some _ \<Rightarrow> Inl IllTyped)"

definition buildMeshes ::
  "env \<Rightarrow> FBXDocumentGraph \<Rightarrow> AssetGroup option \<Rightarrow> string list
     \<Rightarrow> error + AssetGroup option \<times> string list" where
  "buildMeshes E g grp con = forOf (buildMesh E g) (geometryNodes g) (grp, con)"

subsection \<open>\<open>buildModels\<close>\<close>

definition modelChild :: "env \<Rightarrow> Node \<Rightarrow> Transform \<Rightarrow> Transform" where
  "modelChild E c tr =
     (let vecVal = Node.values' c in
      if Node.name c = ''Lcl Translation'' then tr\<lparr>position := vec3_copy E (position tr) vecVal\<rparr>
      else if Node.name c = ''Lcl Scaling'' then tr\<lparr>scale := vec3_copy E (scale tr) vecVal\<rparr>
      else if Node.name c = ''Lcl Rotation'' then
        tr\<lparr>rotation := quat_fromEuler E (deg2rad E (elemAt vecVal 2)) (deg2rad E (elemAt vecVal 1))
                          (deg2rad E (elemAt vecVal 0))\<rparr>
      else tr)"

text \<open>
  One turn of the loop over \<open>fbxModel.connectionsIn\<close>: the state is \<open>sdModel.mesh\<close>,
  \<open>sdModel.materials\<close> and the console.
\<close>

definition modelConnection ::
  "js \<Rightarrow> Node list \<Rightarrow> AssetGroup option \<Rightarrow> number \<Rightarrow> Connection
     \<Rightarrow> Mesh option \<times> Material list \<times> string list
     \<Rightarrow> error + Mesh option \<times> Material list \<times> string list" where
  "modelConnection J ns grp modelID conn s =
     (case s of (sdMesh, mats, con) \<Rightarrow>
        case fromNode conn of
          None \<Rightarrow> Inl TypeError
        | Some f \<Rightarrow>
            let connType = Node.name (ns ! f) in
            if connType = ''Geometry'' then
              (case grp of
                 None \<Rightarrow> Inl TypeError
               | Some gr \<Rightarrow>
                   (case find (\<lambda>t. numEq (Mesh.userRef t) (fromID conn)) (meshes gr) of
                      Some geom \<Rightarrow> Inr (Some geom, mats, con)
                    | None \<Rightarrow>
                        Inr (sdMesh, mats,
                             con @ [''Could not connect geometry '' @ numberToString J (fromID conn)
                                    @ '' to model '' @ numberToString J modelID])))
            else if connType = ''Material'' then
              (case grp of
                 None \<Rightarrow> Inl TypeError
               | Some gr \<Rightarrow>
                   (case find (\<lambda>t. numEq (Material.userRef t) (fromID conn))
                           (AssetGroup.materials gr) of
                      Some mat \<Rightarrow> Inr (sdMesh, mats @ [mat], con)
                    | None \<Rightarrow>
                        Inr (sdMesh, mats,
                             con @ [''Could not connect material '' @ numberToString J (fromID conn)
                                    @ '' to model '' @ numberToString J modelID])))
            else Inr s)"

definition buildModel ::
  "env \<Rightarrow> js \<Rightarrow> FBXDocumentGraph \<Rightarrow> number \<times> ref \<Rightarrow> AssetGroup option \<times> string list
     \<Rightarrow> error + AssetGroup option \<times> string list" where
  "buildModel E J g entry s =
     (case (entry, s) of ((modelID, r), (grp, con)) \<Rightarrow>
        let fbxModel = nodes g ! r in
        case objectName fbxModel of
          Inl e \<Rightarrow> Inl e
        | Inr nm \<Rightarrow>
        case asNumber (elemAt (Node.values' fbxModel) 0) of
          Inl e \<Rightarrow> Inl e
        | Inr ident \<Rightarrow>
            let tr0 = \<lparr>position = [Some (VNumber (Fin 0)), Some (VNumber (Fin 0)), Some (VNumber (Fin 0))],
                       rotation = [Some (VNumber (Fin 0)), Some (VNumber (Fin 0)),
                                   Some (VNumber (Fin 0)), Some (VNumber (Fin 1))],
                       scale = [Some (VNumber (Fin 1)), Some (VNumber (Fin 1)), Some (VNumber (Fin 1))]\<rparr>;
                tr = foldl (\<lambda>t c. modelChild E (nodes g ! c) t) tr0 (Node.children fbxModel)
            in
            case forOf (modelConnection J (nodes g) grp modelID) (connectionsIn fbxModel)
                   (None, [], con) of
              Inl e \<Rightarrow> Inl e
            | Inr (sdMesh, mats, con') \<Rightarrow>
                (case grp of
                   None \<Rightarrow> Inl TypeError
                 | Some gr \<Rightarrow> Inr (Some (addModel (Model nm ident sdMesh mats tr []) gr), con')))"

definition buildModels ::
  "env \<Rightarrow> js \<Rightarrow> FBXDocumentGraph \<Rightarrow> AssetGroup option \<Rightarrow> string list
     \<Rightarrow> error + AssetGroup option \<times> string list" where
  "buildModels E J g grp con = forOf (buildModel E J g) (modelNodes g) (grp, con)"

subsection \<open>\<open>resolve\<close>\<close>

text \<open>
  \<open>resolve(options?)\<close>. \<open>copyValues\<close> writes the properties of \<open>options\<close> over the default
  \<open>allowMissingTextures: true\<close>; \<open>None\<close> stands for a property that is absent. The three
  build passes run in the handler of \<open>then\<close>, with the value of the promise of
  \<open>loadTextures\<close>: what they throw rejects the promise returned. The result is the way that
  promise settles, and the console.
\<close>

definition resolve ::
  "env \<Rightarrow> js \<Rightarrow> FBXResolveOptions option \<Rightarrow> FBXDocumentGraph
     \<Rightarrow> error + AssetGroup option promise \<times> string list" where
  "resolve E J options g =
     (let allow = (case options of
                     None \<Rightarrow> True
                   | Some opts \<Rightarrow> (case allowMissingTextures opts of None \<Rightarrow> True | Some b \<Rightarrow> b))
      in
      case loadTextures E newAssetGroup allow g (console g) of
        Inl e \<Rightarrow> Inl e
      | Inr (Rejected e, con) \<Rightarrow> Inr (Rejected e, con)
      | Inr (Fulfilled grp, con) \<Rightarrow>
          (case buildMaterials E g grp con of
             Inl e \<Rightarrow> Inr (Rejected e, con)
           | Inr (grp1, con1) \<Rightarrow>
               (case buildMeshes E g grp1 con1 of
                  Inl e \<Rightarrow> Inr (Rejected e, con1)
                | Inr (grp2, con2) \<Rightarrow>
                    (case buildModels E J g grp2 con2 of
                       Inl e \<Rightarrow> Inr (Rejected e, con2)
                     | Inr (grp3, con3) \<Rightarrow> Inr (Fulfilled grp3, con3)))))"

subsection \<open>Two document graphs\<close>

text \<open>
  A call of the builder's \<open>block\<close> whose answer is dropped, to write a sequence of delegate
  calls as a list.
\<close>

definition enterBlock ::
  "string \<Rightarrow> FBXValue list \<Rightarrow> FBX7DocumentParser \<Rightarrow> error + FBX7DocumentParser" where
  "enterBlock nm vals b = (case block nm vals b of Inl e \<Rightarrow> Inl e | Inr (a, b') \<Rightarrow> Inr b')"

text \<open>
  The graph of a document with one Video object, a clip with embedded content whose file
  name ends in \<open>.tga\<close>, and no other object:

  \<^verbatim>\<open>Objects: { Video: 1, "Video::wood", "Clip" { RelativeFilename: "wood.tga"  Content: ... } }\<close>
\<close>

definition woodVideoGraph :: FBXDocumentGraph where
  "woodVideoGraph =
     \<lparr>fbxFilePath = ''scene.fbx'', globals = [], allObjects = [(Fin 0, 0), (Fin 1, 1)],
      geometryNodes = [], videoNodes = [(Fin 1, 1)], textureNodes = [], materialNodes = [],
      modelNodes = [], connections = [], rootNode = 0,
      nodes =
        [\<lparr>Node.name = ''RootNode'', Node.type = Unknown, Node.typeName = [],
          Node.values' = [VNumber (Fin 0), VString ''Model::RootNode'', VString ''RootNode''],
          children = [], parent = None, connectionsIn = [], connectionsOut = []\<rparr>,
         \<lparr>Node.name = ''Video'', Node.type = Unknown, Node.typeName = [],
          Node.values' = [VNumber (Fin 1), VString ''Video::wood'', VString ''Clip''],
          children = [2, 3], parent = None, connectionsIn = [], connectionsOut = []\<rparr>,
         \<lparr>Node.name = ''RelativeFilename'', Node.type = Unknown, Node.typeName = [],
          Node.values' = [VString ''wood.tga''],
          children = [], parent = Some 1, connectionsIn = [], connectionsOut = []\<rparr>,
         \<lparr>Node.name = ''Content'', Node.type = Unknown, Node.typeName = [],
          Node.values' = [VArrayBuffer [0, 0, 2]],
          children = [], parent = Some 1, connectionsIn = [], connectionsOut = []\<rparr>],
      console = []\<rparr>"

text \<open>
  The graph of a document with a Material object and a Texture object connected to it, the
  Texture object having no incoming connection:

  \<^verbatim>\<open>Objects: { Material: 2, "Material::wood", "" { }  Texture: 3, "Texture::wood", "" { } }\<close>
  \<^verbatim>\<open>Connections: { C: "OO", 3, 2 }\<close>
\<close>

definition looseTextureGraph :: FBXDocumentGraph where
  "looseTextureGraph =
     \<lparr>fbxFilePath = ''scene.fbx'', globals = [],
      allObjects = [(Fin 0, 0), (Fin 2, 1), (Fin 3, 2)],
      geometryNodes = [], videoNodes = [], textureNodes = [(Fin 3, 2)],
      materialNodes = [(Fin 2, 1)], modelNodes = [],
      connections =
        [\<lparr>fromID = Fin 3, fromNode = Some 2, toID = Fin 2, toNode = Some 1, propName = None\<rparr>],
      rootNode = 0,
      nodes =
        [\<lparr>Node.name = ''RootNode'', Node.type = Unknown, Node.typeName = [],
          Node.values' = [VNumber (Fin 0), VString ''Model::RootNode'', VString ''RootNode''],
          children = [], parent = None, connectionsIn = [], connectionsOut = []\<rparr>,
         \<lparr>Node.name = ''Material'', Node.type = Unknown, Node.typeName = [],
          Node.values' = [VNumber (Fin 2), VString ''Material::wood'', VString []],
          children = [], parent = None,
          connectionsIn =
            [\<lparr>fromID = Fin 3, fromNode = Some 2, toID = Fin 2, toNode = Some 1, propName = None\<rparr>],
          connectionsOut = []\<rparr>,
         \<lparr>Node.name = ''Texture'', Node.type = Unknown, Node.typeName = [],
          Node.values' = [VNumber (Fin 3), VString ''Texture::wood'', VString []],
          children = [], parent = None, connectionsIn = [],
          connectionsOut =
            [\<lparr>fromID = Fin 3, fromNode = Some 2, toID = Fin 2, toNode = Some 1, propName = None\<rparr>]\<rparr>,
         \<lparr>Node.name = ''C'', Node.type = Unknown, Node.typeName = [],
          Node.values' = [VString ''OO'', VNumber (Fin 3), VNumber (Fin 2)],
          children = [], parent = None, connectionsIn = [], connectionsOut = []\<rparr>],
      console = []\<rparr>"

lemma woodVideoGraph_built:
  "map_sum id doc
     (forOf (\<lambda>call. call)
        [enterBlock ''Objects'' [],
         enterBlock ''Video'' [VNumber (Fin 1), VString ''Video::wood'', VString ''Clip''],
         property ''RelativeFilename'' [VString ''wood.tga''],
         property ''Content'' [VArrayBuffer [0, 0, 2]],
         endBlock,
         endBlock]
        (newFBX7DocumentParser ''scene.fbx''))
   = Inr woodVideoGraph"
  by (simp add: enterBlock_def block_def endBlock_def property_def typedProperty_def
      newFBX7DocumentParser_def newFBXDocumentGraph_def addObject_def allocNode_def
      appendChild_def newNode_def knownObjects_def objectSetPut_def elemAt_def Let_def
      woodVideoGraph_def)

lemma looseTextureGraph_built:
  "map_sum id doc
     (forOf (\<lambda>call. call)
        [enterBlock ''Objects'' [],
         enterBlock ''Material'' [VNumber (Fin 2), VString ''Material::wood'', VString []],
         endBlock,
         enterBlock ''Texture'' [VNumber (Fin 3), VString ''Texture::wood'', VString []],
         endBlock,
         endBlock,
         enterBlock ''Connections'' [],
         property ''C'' [VString ''OO'', VNumber (Fin 3), VNumber (Fin 2)],
         endBlock]
        (newFBX7DocumentParser ''scene.fbx''))
   = Inr looseTextureGraph"
  by (simp add: enterBlock_def block_def endBlock_def property_def typedProperty_def
      newFBX7DocumentParser_def newFBXDocumentGraph_def addObject_def addConnection_def
      allocNode_def appendChild_def newNode_def knownObjects_def objectSetPut_def elemAt_def
      asNumber_def Let_def looseTextureGraph_def)

lemma objectName_wood:
  "splitString ''Video::wood'' ''::'' = [''Video'', ''wood'']"
  "splitString ''Material::wood'' ''::'' = [''Material'', ''wood'']"
  by (simp_all add: splitString_def)

lemma mimeType_tga: "mimeTypeForFilePath ''wood.tga'' = None"
  by (simp add: mimeTypeForFilePath_def fileExtensionOfFilePath_def lastIndexOf_def
      mimeTypeMapping_def toLowerCase_def Let_def)

lemma loadTextures_wood:
  "loadTextures E newAssetGroup allow woodVideoGraph [] =
     (if allow
      then Inr (Fulfilled (Some \<lparr>textures = [None], materials = [], meshes = [], models = []\<rparr>),
                [''Cannot create texture, no mime-type found for file path wood.tga''])
      else Inr (Fulfilled None, []))"
  by (simp add: loadTextures_def videoTexture_def videoChild_def texturePromise_def
      objectName_def objectName_wood mimeType_tga woodVideoGraph_def elemAt_def
      newAssetGroup_def addTexture_def Let_def)

text \<open>
  What holds of every graph. The promise of \<open>loadTextures\<close> is never rejected, so a graph
  without Material, Geometry and Model nodes never makes \<open>resolve\<close> reject. When
  \<open>buildMaterials\<close> does not throw, it appends one material for each Material node and
  leaves the textures as they are; and a Texture node whose Video has no loaded texture
  only makes it write the warning.
\<close>

lemma loadTextures_never_rejects:
  "loadTextures E grp allow g con \<noteq> Inr (Rejected e, con')"
  by (simp add: loadTextures_def split: sum.splits prod.splits promise.splits)

lemma resolve_without_build_nodes:
  assumes "materialNodes g = []" "geometryNodes g = []" "modelNodes g = []"
  shows "resolve E J options g \<noteq> Inr (Rejected e, con)"
proof (cases "loadTextures E newAssetGroup
    (case options of None \<Rightarrow> True
     | Some opts \<Rightarrow> (case allowMissingTextures opts of None \<Rightarrow> True | Some b \<Rightarrow> b))
    g (console g)")
  case (Inl err)
  then show ?thesis by (simp add: resolve_def)
next
  case (Inr r)
  obtain pr c where r: "r = (pr, c)" by (cases r)
  show ?thesis
  proof (cases pr)
    case (Rejected err)
    with Inr r show ?thesis using loadTextures_never_rejects by blast
  next
    case (Fulfilled grp)
    with Inr r show ?thesis
      by (simp add: resolve_def buildMaterials_def buildMeshes_def buildModels_def assms)
  qed
qed

lemma buildMaterial_appends:
  assumes "buildMaterial E g entry (grp, con) = Inr (grp', con')"
  shows "\<exists>gr mat. grp = Some gr \<and> grp' = Some (addMaterial mat gr)"
proof (cases grp)
  case None
  with assms show ?thesis
    by (simp add: buildMaterial_def Let_def split: prod.splits sum.splits if_splits)
next
  case (Some gr)
  with assms show ?thesis
    by (auto simp add: buildMaterial_def Let_def split: prod.splits sum.splits if_splits)
qed

lemma forOf_buildMaterial:
  "forOf (buildMaterial E g) ms (Some gr, con) = Inr (grp', con') \<Longrightarrow>
   \<exists>gr'. grp' = Some gr'
     \<and> length (AssetGroup.materials gr') = length (AssetGroup.materials gr) + length ms
     \<and> textures gr' = textures gr"
proof (induction ms arbitrary: gr con)
  case Nil
  then show ?case by auto
next
  case (Cons entry ms)
  from Cons.prems obtain grp1 con1 where
    step: "buildMaterial E g entry (Some gr, con) = Inr (grp1, con1)"
    and rest: "forOf (buildMaterial E g) ms (grp1, con1) = Inr (grp', con')"
    by (auto split: sum.splits)
  from buildMaterial_appends [OF step] obtain mat where g1: "grp1 = Some (addMaterial mat gr)"
    by auto
  from Cons.IH [OF rest [unfolded g1]] show ?case
    by (auto simp add: addMaterial_def)
qed

lemma buildMaterials_appends_one_each:
  "buildMaterials E g (Some gr) con = Inr (grp', con') \<Longrightarrow>
   \<exists>gr'. grp' = Some gr'
     \<and> length (AssetGroup.materials gr') = length (AssetGroup.materials gr) + length (materialNodes g)
     \<and> textures gr' = textures gr"
  unfolding buildMaterials_def by (rule forOf_buildMaterial)

lemma linkTexture_no_matching_texture:
  assumes "fromNode (connectionsIn fbxMat ! 0) = Some t"
    and "elemAt (connectionsIn (ns ! t)) 0 = Some conn"
    and "find (\<lambda>t. case t of None \<Rightarrow> False
                    | Some tex \<Rightarrow> numEq (Texture2D.userRef tex) (fromID conn)) (textures gr) = None"
  shows "linkTexture E ns (Some gr) fbxMat mat con =
           Inr (mat, con @ [''Could not link texture to material.''])"
  using assms by (simp add: linkTexture_def)

text \<open>
  C3. The code at the failing input, the graph \<open>woodVideoGraph\<close> of a document whose only
  object is a Video clip with embedded content and no mime type for its file name. With
  \<open>allowMissingTextures\<close> absent or true the promise of \<open>resolve\<close> is fulfilled with an asset
  group whose textures are the single entry \<open>null\<close>, and one warning is written. With
  \<open>allowMissingTextures: false\<close> the promise of the texture is rejected, the second handler
  of \<open>loadTextures\<close> turns the rejection into the value \<open>null\<close>, the three build passes have
  no node to visit, and the promise of \<open>resolve\<close> is fulfilled with \<open>null\<close>: it is not
  rejected.
\<close>

theorem C3_resolve_fulfils_with_null:
  "resolve E J None woodVideoGraph =
     Inr (Fulfilled (Some \<lparr>textures = [None], materials = [], meshes = [], models = []\<rparr>),
          [''Cannot create texture, no mime-type found for file path wood.tga''])
   \<and> resolve E J (Some \<lparr>allowMissingTextures = Some True\<rparr>) woodVideoGraph =
     Inr (Fulfilled (Some \<lparr>textures = [None], materials = [], meshes = [], models = []\<rparr>),
          [''Cannot create texture, no mime-type found for file path wood.tga''])
   \<and> resolve E J (Some \<lparr>allowMissingTextures = Some False\<rparr>) woodVideoGraph =
     Inr (Fulfilled None, [])"
proof -
  have c: "console woodVideoGraph = []"
    and m: "materialNodes woodVideoGraph = []"
    and g: "geometryNodes woodVideoGraph = []"
    and d: "modelNodes woodVideoGraph = []"
    by (simp_all add: woodVideoGraph_def)
  show ?thesis
    by (simp add: resolve_def c loadTextures_wood buildMaterials_def buildMeshes_def
        buildModels_def m g d)
qed

text \<open>
  C4. The code at the failing input, the graph \<open>looseTextureGraph\<close> of a document with a
  Material object whose first incoming connection comes from a Texture object that has no
  incoming connection of its own. \<open>buildMaterials\<close>, given an empty asset group, reads
  \<open>texNode.connectionsIn[0].fromID\<close> before the test that would write the warning: it
  throws a \<open>TypeError\<close>, no material is appended and nothing is written to the console. The
  promise of \<open>resolve\<close> is rejected with that error.
\<close>

theorem C4_buildMaterials_throws:
  "buildMaterials E looseTextureGraph (Some newAssetGroup) [] = Inl TypeError
   \<and> resolve E J None looseTextureGraph = Inr (Rejected TypeError, [])"
proof -
  have b: "buildMaterials E looseTextureGraph (Some newAssetGroup) [] = Inl TypeError"
    by (simp add: buildMaterials_def buildMaterial_def linkTexture_def objectName_def
        objectName_wood looseTextureGraph_def elemAt_def Let_def)
  have l: "loadTextures E newAssetGroup True looseTextureGraph [] =
      Inr (Fulfilled (Some newAssetGroup), [])"
    by (simp add: loadTextures_def looseTextureGraph_def)
  have c: "console looseTextureGraph = []"
    by (simp add: looseTextureGraph_def)
  show ?thesis
    by (simp add: resolve_def c l b)
qed

subsection \<open>A connection dropped while the graph is built\<close>

text \<open>
  The graph of a document with a Video object of subclass \<open>HLSL\<close>, a Texture object it feeds
  and a Material object the Texture feeds. \<open>addObject\<close> stores no Video that is not a clip,
  so the id 1 is unknown when the connections are read and \<open>addConnection\<close> drops the
  connection from 1 to 3; the Texture object is left with no incoming connection.

  \<^verbatim>\<open>Objects: { Video: 1, "Video::glow", "HLSL" { }  Texture: 3, "Texture::wood", "" { }\<close>
  \<^verbatim>\<open>           Material: 2, "Material::wood", "" { } }\<close>
  \<^verbatim>\<open>Connections: { C: "OO", 1, 3  C: "OO", 3, 2 }\<close>
\<close>

definition shaderVideoGraph :: FBXDocumentGraph where
  "shaderVideoGraph =
     \<lparr>fbxFilePath = ''scene.fbx'', globals = [],
      allObjects = [(Fin 0, 0), (Fin 2, 3), (Fin 3, 2)],
      geometryNodes = [], videoNodes = [], textureNodes = [(Fin 3, 2)],
      materialNodes = [(Fin 2, 3)], modelNodes = [],
      connections =
        [\<lparr>fromID = Fin 3, fromNode = Some 2, toID = Fin 2, toNode = Some 3, propName = None\<rparr>],
      rootNode = 0,
      nodes =
        [\<lparr>Node.name = ''RootNode'', Node.type = Unknown, Node.typeName = [],
          Node.values' = [VNumber (Fin 0), VString ''Model::RootNode'', VString ''RootNode''],
          children = [], parent = None, connectionsIn = [], connectionsOut = []\<rparr>,
         \<lparr>Node.name = ''Video'', Node.type = Unknown, Node.typeName = [],
          Node.values' = [VNumber (Fin 1), VString ''Video::glow'', VString ''HLSL''],
          children = [], parent = None, connectionsIn = [], connectionsOut = []\<rparr>,
         \<lparr>Node.name = ''Texture'', Node.type = Unknown, Node.typeName = [],
          Node.values' = [VNumber (Fin 3), VString ''Texture::wood'', VString []],
          children = [], parent = None, connectionsIn = [],
          connectionsOut =
            [\<lparr>fromID = Fin 3, fromNode = Some 2, toID = Fin 2, toNode = Some 3, propName = None\<rparr>]\<rparr>,
         \<lparr>Node.name = ''Material'', Node.type = Unknown, Node.typeName = [],
          Node.values' = [VNumber (Fin 2), VString ''Material::wood'', VString []],
          children = [], parent = None,
          connectionsIn =
            [\<lparr>fromID = Fin 3, fromNode = Some 2, toID = Fin 2, toNode = Some 3, propName = None\<rparr>],
          connectionsOut = []\<rparr>,
         \<lparr>Node.name = ''C'', Node.type = Unknown, Node.typeName = [],
          Node.values' = [VString ''OO'', VNumber (Fin 1), VNumber (Fin 3)],
          children = [], parent = None, connectionsIn = [], connectionsOut = []\<rparr>,
         \<lparr>Node.name = ''C'', Node.type = Unknown, Node.typeName = [],
          Node.values' = [VString ''OO'', VNumber (Fin 3), VNumber (Fin 2)],
          children = [], parent = None, connectionsIn = [], connectionsOut = []\<rparr>],
      console = []\<rparr>"

lemma shaderVideoGraph_built:
  "map_sum id doc
     (forOf (\<lambda>call. call)
        [enterBlock ''Objects'' [],
         enterBlock ''Video'' [VNumber (Fin 1), VString ''Video::glow'', VString ''HLSL''],
         endBlock,
         enterBlock ''Texture'' [VNumber (Fin 3), VString ''Texture::wood'', VString []],
         endBlock,
         enterBlock ''Material'' [VNumber (Fin 2), VString ''Material::wood'', VString []],
         endBlock,
         endBlock,
         enterBlock ''Connections'' [],
         property ''C'' [VString ''OO'', VNumber (Fin 1), VNumber (Fin 3)],
         property ''C'' [VString ''OO'', VNumber (Fin 3), VNumber (Fin 2)],
         endBlock]
        (newFBX7DocumentParser ''scene.fbx''))
   = Inr shaderVideoGraph"
  by (simp add: enterBlock_def block_def endBlock_def property_def typedProperty_def
      newFBX7DocumentParser_def newFBXDocumentGraph_def addObject_def addConnection_def
      allocNode_def appendChild_def newNode_def knownObjects_def objectSetPut_def elemAt_def
      asNumber_def Let_def shaderVideoGraph_def)

lemma shaderVideoGraph_resolve:
  "resolve E J None shaderVideoGraph = Inr (Rejected TypeError, [])"
proof -
  have b: "buildMaterials E shaderVideoGraph (Some newAssetGroup) [] = Inl TypeError"
    by (simp add: buildMaterials_def buildMaterial_def linkTexture_def objectName_def
        objectName_wood shaderVideoGraph_def elemAt_def Let_def)
  have l: "loadTextures E newAssetGroup True shaderVideoGraph [] =
      Inr (Fulfilled (Some newAssetGroup), [])"
    by (simp add: loadTextures_def shaderVideoGraph_def)
  have c: "console shaderVideoGraph = []"
    by (simp add: shaderVideoGraph_def)
  show ?thesis
    by (simp add: resolve_def c l b)
qed

text \<open>
  The claim as stated has the failure warned, and a later \<open>resolve()\<close> survive the dropped
  connection. On a new graph, a connection from the unknown id 5 leaves the console empty.
  In \<open>shaderVideoGraph\<close> the connection from the unknown id 1 to the Texture object 3 is in
  neither list, and \<open>resolve()\<close> is rejected with the \<open>TypeError\<close> that \<open>buildMaterials\<close>
  throws on the Texture object's empty \<open>connectionsIn\<close>, whatever the environment.
\<close>

theorem C8_silent_drop_counterexample:
  "console (addConnection
      \<lparr>fromID = Fin 5, fromNode = None, toID = Fin 0, toNode = None, propName = None\<rparr>
      (newFBXDocumentGraph ''scene.fbx'')) = []
   \<and> connections shaderVideoGraph =
       [\<lparr>fromID = Fin 3, fromNode = Some 2, toID = Fin 2, toNode = Some 3, propName = None\<rparr>]
   \<and> console shaderVideoGraph = []
   \<and> (\<forall>E J. resolve E J None shaderVideoGraph = Inr (Rejected TypeError, []))"
  by (simp add: shaderVideoGraph_resolve)
     (simp add: addConnection_def newFBXDocumentGraph_def shaderVideoGraph_def Let_def)

end
